theory Spec2Isabelle
  imports Main "HOL-Library.Word" "HOL-Library.Sublist" "HOL-Library.Multiset" "HOL-Library.Code_Target_Nat"
begin

section \<open>Go values and the library functions the fingerprint core calls\<close>

type_synonym uint8 = "8 word"
type_synonym uint16 = "16 word"
type_synonym uint32 = "32 word"

text \<open>
  A Go call either returns or panics (an index or a slice out of range).  The value a
  call returns is the pair \<open>(result, err)\<close> of the source, written as a sum with
  the error on the left.
\<close>

datatype 'a outcome = Return 'a | Panic

text \<open>One constructor for every \<open>fmt.Errorf\<close> site of the modelled functions.\<close>

datatype error =
    JA4DataNil
  | JA4BadPartCount nat
  | JA4PartATooShort nat
  | JA4BadProtocol string
  | JA4BadTLSVersion string
  | JA4BadSNI string
  | JA4BadCipherHashLength nat
  | JA4BadExtensionHashLength nat
  | JA3BadPartCount nat
  | JA3BadVersion string
  | JA3BadCipher string
  | JA3BadExtension string
  | JA3BadCurve string
  | JA3BadPointFormat string
  | JA3DataNil
  | SpecFileNil
  | UnknownCipher string
  | UnknownGroup string
  | UnknownSignatureAlgorithm string
  | UnknownTLSVersion string
  | HTTP2ProfileNotFound string
  | ConfigNil
  | DeadlineExceeded
  | DialFailed string
  | SetDeadlineFailed string
  | SpecLoadFailed string string
  | SpecFileBuildFailed error
  | JA3ParseFailed error
  | JA3BuildFailed error
  | ProfileParseFailed string error
  | ProfileBuildFailed string error
  | ApplyPresetFailed string
  | HandshakeFailed string

text \<open>\<open>s[i]\<close> and \<open>s[lo:hi]\<close> on a Go string (a byte sequence): out of range panics.\<close>

definition go_index :: "'a list \<Rightarrow> nat \<Rightarrow> 'a option" where
  "go_index s i = (if i < length s then Some (s ! i) else None)"

definition go_slice :: "'a list \<Rightarrow> nat \<Rightarrow> nat \<Rightarrow> 'a list option" where
  "go_slice s lo hi = (if lo \<le> hi \<and> hi \<le> length s then Some (take (hi - lo) (drop lo s)) else None)"

text \<open>
  \<open>string(r)\<close> of a rune, which is also \<open>string(b)\<close> of a byte \<open>b\<close>: the UTF-8 encoding of
  the code point (\<open>utf8.EncodeRune\<close>); a surrogate or a value above U+10FFFF gives the
  encoding of U+FFFD.
\<close>

definition EncodeRune :: "nat \<Rightarrow> string" where
  "EncodeRune r =
     (if r < 0x80 then [char_of r]
      else if r < 0x800 then [char_of (0xC0 + r div 64), char_of (0x80 + r mod 64)]
      else if r > 0x10FFFF \<or> (0xD800 \<le> r \<and> r \<le> 0xDFFF) then [CHR 0xEF, CHR 0xBF, CHR 0xBD]
      else if r < 0x10000 then
        [char_of (0xE0 + r div 4096), char_of (0x80 + r div 64 mod 64), char_of (0x80 + r mod 64)]
      else
        [char_of (0xF0 + r div 262144), char_of (0x80 + r div 4096 mod 64),
         char_of (0x80 + r div 64 mod 64), char_of (0x80 + r mod 64)])"

text \<open>\<open>strings.Split(s, sep)\<close> for a one-byte separator, and \<open>strings.Join\<close>.\<close>

fun Split :: "string \<Rightarrow> char \<Rightarrow> string list" where
  "Split [] sep = [[]]"
| "Split (c # cs) sep =
     (if c = sep then [] # Split cs sep
      else (case Split cs sep of p # ps \<Rightarrow> (c # p) # ps | [] \<Rightarrow> [[c]]))"

fun Join :: "string list \<Rightarrow> string \<Rightarrow> string" where
  "Join [] sep = []"
| "Join [p] sep = p"
| "Join (p # q # ps) sep = p @ sep @ Join (q # ps) sep"

text \<open>\<open>fmt.Sprintf\<close> with the verbs \<open>%x\<close>, \<open>%02x\<close>, \<open>%04x\<close> and \<open>%d\<close> on
  unsigned values: the digits, most significant first, padded with zeros on the left
  up to the width.\<close>

definition hex_alphabet :: string where
  "hex_alphabet = ''0123456789abcdef''"

definition digit_char :: "nat \<Rightarrow> char" where
  "digit_char d = hex_alphabet ! d"

fun digits :: "nat \<Rightarrow> nat \<Rightarrow> string" where
  "digits b n = (if b < 2 \<or> n < b then [digit_char n] else digits b (n div b) @ [digit_char (n mod b)])"

declare digits.simps [simp del]

definition pad0 :: "nat \<Rightarrow> string \<Rightarrow> string" where
  "pad0 w s = replicate (w - length s) (CHR ''0'') @ s"

definition Sprintf_02x :: "nat \<Rightarrow> string" where
  "Sprintf_02x n = pad0 2 (digits 16 n)"

definition Sprintf_04x :: "uint16 \<Rightarrow> string" where
  "Sprintf_04x v = pad0 4 (digits 16 (unat v))"

definition Sprintf_d :: "nat \<Rightarrow> string" where
  "Sprintf_d n = digits 10 n"

text \<open>
  \<open>strconv.ParseUint(s, base, bitSize)\<close> for base 10 or 16: no sign, no prefix, no
  underscore; the empty string, a byte that is not a digit of the base and a value of
  \<open>2^bitSize\<close> or more are errors.  \<open>None\<close> is the error.
\<close>

definition digit_val :: "char \<Rightarrow> nat option" where
  "digit_val c =
     (let n = (of_char c :: nat) in
      if 48 \<le> n \<and> n \<le> 57 then Some (n - 48)
      else if 97 \<le> n \<and> n \<le> 122 then Some (n - 97 + 10)
      else if 65 \<le> n \<and> n \<le> 90 then Some (n - 65 + 10)
      else None)"

fun ParseUint_loop :: "nat \<Rightarrow> string \<Rightarrow> nat \<Rightarrow> nat option" where
  "ParseUint_loop base [] n = Some n"
| "ParseUint_loop base (c # cs) n =
     (case digit_val c of
        None \<Rightarrow> None
      | Some d \<Rightarrow> if d \<ge> base then None else ParseUint_loop base cs (n * base + d))"

definition ParseUint :: "string \<Rightarrow> nat \<Rightarrow> nat \<Rightarrow> nat option" where
  "ParseUint s base bitSize =
     (if s = [] then None
      else (case ParseUint_loop base s 0 of
              None \<Rightarrow> None
            | Some n \<Rightarrow> if n < 2 ^ bitSize then Some n else None))"

section \<open>JA4 (internal/util/ja3/ja4.go)\<close>

record JA4Fingerprint =
  ja4_Protocol :: string
  ja4_TLSVersion :: string
  ja4_SNI :: string
  ja4_CipherCount :: string
  ja4_ExtensionCount :: string
  ja4_CipherHash :: string
  ja4_ExtensionHash :: string
  ja4_RawCipherSuites :: "uint16 list"
  ja4_RawExtensions :: "uint16 list"
  ja4_HasSNI :: bool
  ja4_ALPNProtocols :: "string list"

record JA4Data =
  j4d_IsQUIC :: bool
  j4d_TLSVersion :: uint16
  j4d_ServerName :: string
  j4d_CipherSuites :: "uint16 list"
  j4d_Extensions :: "uint16 list"
  j4d_ALPNProtocols :: "string list"
  j4d_SupportedGroups :: "uint16 list"

text \<open>\<open>JA4Fingerprint.String\<close>: the local \<open>partA\<close> and the returned \<open>a_b_c\<close>.\<close>

definition JA4_partA :: "JA4Fingerprint \<Rightarrow> string" where
  "JA4_partA j = ja4_Protocol j @ ja4_TLSVersion j @ ja4_SNI j @ ja4_CipherCount j @ ja4_ExtensionCount j"

definition JA4_String :: "JA4Fingerprint \<Rightarrow> string" where
  "JA4_String j = JA4_partA j @ ''_'' @ ja4_CipherHash j @ ''_'' @ ja4_ExtensionHash j"

definition formatTLSVersion :: "uint16 \<Rightarrow> string" where
  "formatTLSVersion version =
     (if version = 0x0300 then ''s3''
      else if version = 0x0301 then ''10''
      else if version = 0x0302 then ''11''
      else if version = 0x0303 then ''12''
      else if version = 0x0304 then ''13''
      else ''00'')"

text \<open>
  \<open>determineSNIType\<close>.  The source ranges over the runes of the name; every byte it
  accepts is ASCII, and a byte that is not ASCII belongs to a rune it rejects, so the
  loops are written over the bytes.  Each loop stops at its \<open>break\<close>.
\<close>

definition is_dec_digit :: "char \<Rightarrow> bool" where
  "is_dec_digit c = (of_char (CHR ''0'') \<le> (of_char c :: nat) \<and> (of_char c :: nat) \<le> of_char (CHR ''9''))"

definition is_hex_digit :: "char \<Rightarrow> bool" where
  "is_hex_digit c =
     (is_dec_digit c
      \<or> (of_char (CHR ''a'') \<le> (of_char c :: nat) \<and> (of_char c :: nat) \<le> of_char (CHR ''f''))
      \<or> (of_char (CHR ''A'') \<le> (of_char c :: nat) \<and> (of_char c :: nat) \<le> of_char (CHR ''F'')))"

fun isIPv4_loop :: "string \<Rightarrow> bool" where
  "isIPv4_loop [] = True"
| "isIPv4_loop (c # cs) = (if \<not> (is_dec_digit c \<or> c = CHR ''.'') then False else isIPv4_loop cs)"

fun isIPv6_loop :: "string \<Rightarrow> bool \<Rightarrow> bool \<times> bool" where
  "isIPv6_loop [] hasColon = (hasColon, True)"
| "isIPv6_loop (c # cs) hasColon =
     (if c = CHR '':'' then isIPv6_loop cs True
      else if \<not> is_hex_digit c then (hasColon, False)
      else isIPv6_loop cs hasColon)"

definition determineSNIType :: "string \<Rightarrow> string" where
  "determineSNIType serverName =
     (if serverName = [] then ''i''
      else if isIPv4_loop serverName then ''i''
      else (case isIPv6_loop serverName False of
              (hasColon, allHexOrColon) \<Rightarrow> if hasColon \<and> allHexOrColon then ''i'' else ''d''))"

text \<open>
  The hashes.  \<open>H\<close> stands for \<open>hex.EncodeToString(sha256.Sum256(b)[:])\<close> of the Go
  library, the 64 lowercase hex characters of the SHA-256 digest of \<open>b\<close>; the first 12
  characters are \<open>[:12]\<close>.  The loops append one formatted id per element;
  \<open>sort.Slice\<close> with \<open><\<close> on \<open>uint16\<close> yields the ascending arrangement.
\<close>

definition generateCipherHash :: "(string \<Rightarrow> string) \<Rightarrow> uint16 list \<Rightarrow> string" where
  "generateCipherHash H cipherSuites =
     (if length cipherSuites = 0 then take 12 (H [])
      else let parts = foldl (\<lambda>parts cipher. parts @ [Sprintf_04x cipher]) [] cipherSuites;
               cipherString = Join parts '',''
           in take 12 (H cipherString))"

definition generateExtensionHash :: "(string \<Rightarrow> string) \<Rightarrow> uint16 list \<Rightarrow> string" where
  "generateExtensionHash H extensions =
     (if length extensions = 0 then take 12 (H [])
      else let filtered = foldl (\<lambda>filtered ext. if ext \<noteq> 0 \<and> ext \<noteq> 16 then filtered @ [ext] else filtered) [] extensions;
               filtered = sort filtered
           in if length filtered = 0 then take 12 (H [])
              else let parts = foldl (\<lambda>parts ext. parts @ [Sprintf_04x ext]) [] filtered;
                       extString = Join parts '',''
                   in take 12 (H extString))"

definition GenerateJA4 :: "(string \<Rightarrow> string) \<Rightarrow> JA4Data option \<Rightarrow> error + JA4Fingerprint" where
  "GenerateJA4 H data =
     (case data of
        None \<Rightarrow> Inl JA4DataNil
      | Some d \<Rightarrow>
          let cipherCount = length (j4d_CipherSuites d);
              cipherCount = (if cipherCount > 255 then 255 else cipherCount);
              extCount = length (j4d_Extensions d);
              extCount = (if extCount > 255 then 255 else extCount)
          in Inr \<lparr> ja4_Protocol = (if j4d_IsQUIC d then ''q'' else ''t''),
                   ja4_TLSVersion = formatTLSVersion (j4d_TLSVersion d),
                   ja4_SNI = determineSNIType (j4d_ServerName d),
                   ja4_CipherCount = Sprintf_02x cipherCount,
                   ja4_ExtensionCount = Sprintf_02x extCount,
                   ja4_CipherHash = generateCipherHash H (j4d_CipherSuites d),
                   ja4_ExtensionHash = generateExtensionHash H (j4d_Extensions d),
                   ja4_RawCipherSuites = j4d_CipherSuites d,
                   ja4_RawExtensions = j4d_Extensions d,
                   ja4_HasSNI = (j4d_ServerName d \<noteq> []),
                   ja4_ALPNProtocols = j4d_ALPNProtocols d \<rparr>)"

text \<open>
  \<open>ParseJA4String\<close>.  The struct literal evaluates \<open>partA[0]\<close>, \<open>partA[1:3]\<close>,
  \<open>partA[3]\<close>, \<open>partA[4:6]\<close> and \<open>partA[6:8]\<close> before any validation; each of them
  panics when it is out of range.  \<open>string(partA[0])\<close> and \<open>string(partA[3])\<close> convert a
  byte to a string, which gives the UTF-8 encoding of the code point of that number
  (two bytes for a byte from 0x80 on).
\<close>

definition validVersions :: "string list" where
  "validVersions = [''10'', ''11'', ''12'', ''13'', ''00'']"

definition ParseJA4String :: "string \<Rightarrow> (error + JA4Fingerprint) outcome" where
  "ParseJA4String ja4String =
     (let parts = Split ja4String (CHR ''_'') in
      if length parts \<noteq> 3 then Return (Inl (JA4BadPartCount (length parts)))
      else
        let partA = parts ! 0 in
        if length partA < 7 then Return (Inl (JA4PartATooShort (length partA)))
        else
          (case (go_index partA 0, go_slice partA 1 3, go_index partA 3, go_slice partA 4 6, go_slice partA 6 8) of
             (Some p, Some v, Some s, Some cc, Some ec) \<Rightarrow>
               let fp = \<lparr> ja4_Protocol = EncodeRune (of_char p), ja4_TLSVersion = v,
                          ja4_SNI = EncodeRune (of_char s),
                          ja4_CipherCount = cc, ja4_ExtensionCount = ec,
                          ja4_CipherHash = parts ! 1, ja4_ExtensionHash = parts ! 2,
                          ja4_RawCipherSuites = [], ja4_RawExtensions = [],
                          ja4_HasSNI = False, ja4_ALPNProtocols = [] \<rparr>
               in if ja4_Protocol fp \<noteq> ''q'' \<and> ja4_Protocol fp \<noteq> ''t''
                    then Return (Inl (JA4BadProtocol (ja4_Protocol fp)))
                  else if ja4_TLSVersion fp \<notin> set validVersions
                    then Return (Inl (JA4BadTLSVersion (ja4_TLSVersion fp)))
                  else if ja4_SNI fp \<noteq> ''d'' \<and> ja4_SNI fp \<noteq> ''i''
                    then Return (Inl (JA4BadSNI (ja4_SNI fp)))
                  else if length (ja4_CipherHash fp) \<noteq> 12
                    then Return (Inl (JA4BadCipherHashLength (length (ja4_CipherHash fp))))
                  else if length (ja4_ExtensionHash fp) \<noteq> 12
                    then Return (Inl (JA4BadExtensionHashLength (length (ja4_ExtensionHash fp))))
                  else Return (Inr fp)
           | _ \<Rightarrow> Panic))"


text \<open>The summary of scenario S6 of the specification.\<close>

definition S6_summary :: JA4Data where
  "S6_summary = \<lparr> j4d_IsQUIC = False, j4d_TLSVersion = 0x0304, j4d_ServerName = ''example.com'',
       j4d_CipherSuites = [0x1301, 0x1302, 0x1303, 0xc02f],
       j4d_Extensions = [0, 10, 11, 13, 16, 23, 43, 51],
       j4d_ALPNProtocols = [''h2''], j4d_SupportedGroups = [] \<rparr>"


section \<open>JA3 (internal/util/ja3/parser.go)\<close>

record JA3Data =
  ja3_Version :: uint16
  ja3_CipherSuites :: "uint16 list"
  ja3_Extensions :: "uint16 list"
  ja3_SupportedGroups :: "uint16 list"
  ja3_EllipticCurvePoint :: "uint8 list"

text \<open>
  The loops of \<open>ParseJA3\<close> over the dash-separated tokens of one field: every token
  goes through \<open>strconv.ParseUint(token, 10, bitSize)\<close>, the first error returns from
  \<open>ParseJA3\<close>, and each value is appended to the field of \<open>data\<close>.
\<close>

fun parse_tokens :: "nat \<Rightarrow> (string \<Rightarrow> error) \<Rightarrow> string list \<Rightarrow> nat list \<Rightarrow> error + nat list" where
  "parse_tokens bitSize mk [] acc = Inr acc"
| "parse_tokens bitSize mk (t # ts) acc =
     (case ParseUint t 10 bitSize of
        None \<Rightarrow> Inl (mk t)
      | Some v \<Rightarrow> parse_tokens bitSize mk ts (acc @ [v]))"

definition parse_field :: "nat \<Rightarrow> (string \<Rightarrow> error) \<Rightarrow> string \<Rightarrow> error + nat list" where
  "parse_field bitSize mk part =
     (if part \<noteq> [] then parse_tokens bitSize mk (Split part (CHR ''-'')) [] else Inr [])"

definition ParseJA3 :: "string \<Rightarrow> error + JA3Data" where
  "ParseJA3 ja3 =
     (let parts = Split ja3 (CHR '','') in
      if length parts \<noteq> 5 then Inl (JA3BadPartCount (length parts))
      else
        (case (if parts ! 0 \<noteq> [] then
                 (case ParseUint (parts ! 0) 10 16 of
                    None \<Rightarrow> Inl (JA3BadVersion (parts ! 0))
                  | Some v \<Rightarrow> Inr v)
               else Inr 0) of
           Inl e \<Rightarrow> Inl e
         | Inr version \<Rightarrow>
        (case parse_field 16 JA3BadCipher (parts ! 1) of
           Inl e \<Rightarrow> Inl e
         | Inr ciphers \<Rightarrow>
        (case parse_field 16 JA3BadExtension (parts ! 2) of
           Inl e \<Rightarrow> Inl e
         | Inr exts \<Rightarrow>
        (case parse_field 16 JA3BadCurve (parts ! 3) of
           Inl e \<Rightarrow> Inl e
         | Inr curves \<Rightarrow>
        (case parse_field 8 JA3BadPointFormat (parts ! 4) of
           Inl e \<Rightarrow> Inl e
         | Inr points \<Rightarrow>
             Inr \<lparr> ja3_Version = word_of_nat version,
                   ja3_CipherSuites = map word_of_nat ciphers,
                   ja3_Extensions = map word_of_nat exts,
                   ja3_SupportedGroups = map word_of_nat curves,
                   ja3_EllipticCurvePoint = map word_of_nat points \<rparr>))))))"

text \<open>
  Modelled from the spec: the repository has no function that writes a \<open>JA3Data\<close> back
  to a string.  The specification gives the canonical string form
  \<open>v,c1-c2-...,e1-e2-...,g1-g2-...,p1-p2-...\<close>, every number in decimal, and calls
  \<open>serialize\<close> the inverse of \<open>parse\<close>.
\<close>

definition SerializeJA3 :: "JA3Data \<Rightarrow> string" where
  "SerializeJA3 d =
     Join [ Sprintf_d (unat (ja3_Version d)),
            Join (map (\<lambda>c. Sprintf_d (unat c)) (ja3_CipherSuites d)) ''-'',
            Join (map (\<lambda>e. Sprintf_d (unat e)) (ja3_Extensions d)) ''-'',
            Join (map (\<lambda>g. Sprintf_d (unat g)) (ja3_SupportedGroups d)) ''-'',
            Join (map (\<lambda>p. Sprintf_d (unat p)) (ja3_EllipticCurvePoint d)) ''-'' ] '',''"

text \<open>
  A well-formed JA3 string, after the string format of the specification: exactly five
  comma-separated fields; the first a decimal number below \<open>2^16\<close>; the others empty or
  dash-joined decimal numbers, below \<open>2^16\<close> in fields two to four and below \<open>2^8\<close> in
  the fifth.  A decimal number is written the way a serializer writes it: digits only,
  no leading zero.
\<close>

definition decimal :: "nat \<Rightarrow> string \<Rightarrow> bool" where
  "decimal bitSize t =
     (t \<noteq> [] \<and> list_all is_dec_digit t \<and> (t = ''0'' \<or> hd t \<noteq> CHR ''0'')
      \<and> (case ParseUint t 10 bitSize of None \<Rightarrow> False | Some v \<Rightarrow> True))"

definition decimal_field :: "nat \<Rightarrow> string \<Rightarrow> bool" where
  "decimal_field bitSize part = (part = [] \<or> list_all (decimal bitSize) (Split part (CHR ''-'')))"

definition well_formed_JA3 :: "string \<Rightarrow> bool" where
  "well_formed_JA3 x =
     (let parts = Split x (CHR '','') in
      length parts = 5 \<and> decimal 16 (parts ! 0) \<and> decimal_field 16 (parts ! 1)
      \<and> decimal_field 16 (parts ! 2) \<and> decimal_field 16 (parts ! 3) \<and> decimal_field 8 (parts ! 4))"

section \<open>The browser catalog (internal/util/fingerprint/profiles.go)\<close>

record BrowserProfile =
  bp_Name :: string
  bp_JA3 :: string
  bp_UserAgent :: string
  bp_JA4 :: string

text \<open>The Go map \<open>BrowserProfiles\<close>, as the list of its entries in source order; the keys are distinct.\<close>

definition BrowserProfiles :: "(string \<times> BrowserProfile) list" where
  "BrowserProfiles = [     (''chrome_modern'',
      \<lparr> bp_Name = ''Chrome 120+ (Modern)'',
        bp_JA3 = ''771,4865-4866-4867-49195-49199-49196-49200-52393-52392-49171-49172-156-157-47-53,0-23-65281-10-11-35-16-5-13-18-51-45-43-27-21,29-23-24,0'',
        bp_UserAgent = ''Mozilla/5.0 (Windows NT 10.0; Win64; x64) AppleWebKit/537.36 (KHTML, like Gecko) Chrome/120.0.0.0 Safari/537.36'',
        bp_JA4 = ''t13d1715h2_8daaf6152771_02713d6af862'' \<rparr>),
     (''chrome_108'',
      \<lparr> bp_Name = ''Chrome 108'',
        bp_JA3 = ''771,4865-4866-4867-49195-49199-49196-49200-52393-52392-49171-49172-156-157-47-53,0-23-65281-10-11-35-16-5-13-18-51-45-43-27-17513-21,29-23-24,0'',
        bp_UserAgent = ''Mozilla/5.0 (Windows NT 10.0; Win64; x64) AppleWebKit/537.36 (KHTML, like Gecko) Chrome/108.0.0.0 Safari/537.36'',
        bp_JA4 = ''t13d1516h2_8daaf6152771_e5627efa2ab1'' \<rparr>),
     (''firefox_latest'',
      \<lparr> bp_Name = ''Firefox 120+'',
        bp_JA3 = ''771,4865-4867-4866-49195-49199-52393-52392-49196-49200-49162-49161-49171-49172-156-157-47-53,0-23-65281-10-11-35-16-5-51-43-13-45-28-21,29-23-24-25-256-257,0'',
        bp_UserAgent = ''Mozilla/5.0 (Windows NT 10.0; Win64; x64; rv:120.0) Gecko/20100101 Firefox/120.0'',
        bp_JA4 = ''t13d1517h2_5b57614c22b0_3d5424432c57'' \<rparr>),
     (''firefox_102'',
      \<lparr> bp_Name = ''Firefox 102 ESR'',
        bp_JA3 = ''771,4865-4867-4866-49195-49199-52393-52392-49196-49200-49162-49161-49171-49172-156-157-47-53,0-23-65281-10-11-35-16-5-51-43-13-45-28-21,29-23-24-25,0'',
        bp_UserAgent = ''Mozilla/5.0 (Windows NT 10.0; Win64; x64; rv:102.0) Gecko/20100101 Firefox/102.0'',
        bp_JA4 = ''t13d1515h2_5b57614c22b0_cd85d2d88918'' \<rparr>),
     (''safari_17'',
      \<lparr> bp_Name = ''Safari 17 (macOS)'',
        bp_JA3 = ''771,4865-4866-4867-49196-49195-52393-49200-49199-52392-49162-49161-49172-49171-157-156-53-47-49160-49170-10,0-23-65281-10-11-16-5-13-18-51-45-43-27-21,29-23-24-25,0'',
        bp_UserAgent = ''Mozilla/5.0 (Macintosh; Intel Mac OS X 10_15_7) AppleWebKit/605.1.15 (KHTML, like Gecko) Version/17.0 Safari/605.1.15'',
        bp_JA4 = ''t13d1714h2_9e7b989ebec8_4e5db9f566cb'' \<rparr>),
     (''safari_ios_17'',
      \<lparr> bp_Name = ''Safari iOS 17'',
        bp_JA3 = ''771,4865-4866-4867-49196-49195-52393-49200-49199-52392-49162-49161-49172-49171-157-156-53-47,0-23-65281-10-11-16-5-13,29-23-24-25,0'',
        bp_UserAgent = ''Mozilla/5.0 (iPhone; CPU iPhone OS 17_0 like Mac OS X) AppleWebKit/605.1.15 (KHTML, like Gecko) Version/17.0 Mobile/15E148 Safari/604.1'',
        bp_JA4 = ''t13d1312h2_9e7b989ebec8_37e0c9b7f7e5'' \<rparr>),
     (''edge_latest'',
      \<lparr> bp_Name = ''Edge 120+ (Chromium)'',
        bp_JA3 = ''771,4865-4866-4867-49195-49199-49196-49200-52393-52392-49171-49172-156-157-47-53,0-23-65281-10-11-35-16-5-13-18-51-45-43-27-21,29-23-24,0'',
        bp_UserAgent = ''Mozilla/5.0 (Windows NT 10.0; Win64; x64) AppleWebKit/537.36 (KHTML, like Gecko) Chrome/120.0.0.0 Safari/537.36 Edg/120.0.0.0'',
        bp_JA4 = ''t13d1715h2_8daaf6152771_02713d6af862'' \<rparr>),
     (''android_chrome'',
      \<lparr> bp_Name = ''Chrome Android 120'',
        bp_JA3 = ''771,4865-4866-4867-49195-49199-49196-49200-52393-52392-49171-49172-156-157-47-53,0-23-65281-10-11-35-16-5-13-51-45-43-27-21,29-23-24,0'',
        bp_UserAgent = ''Mozilla/5.0 (Linux; Android 13) AppleWebKit/537.36 (KHTML, like Gecko) Chrome/120.0.6099.144 Mobile Safari/537.36'',
        bp_JA4 = ''t13d1614h2_8daaf6152771_a7f0724e1fa9'' \<rparr>),
     (''okhttp_android'',
      \<lparr> bp_Name = ''OkHttp Android Client'',
        bp_JA3 = ''771,4865-4866-4867-49195-49199-49196-49200-52393-52392-49171-49172-156-157-47-53,0-23-65281-10-11-35-16-5-13,29-23-24,0'',
        bp_UserAgent = ''okhttp/4.11.0'',
        bp_JA4 = ''t13d1413h2_8daaf6152771_224e4e1f2d0a'' \<rparr>),
     (''chrome_98'',
      \<lparr> bp_Name = ''Chrome 98 (Legacy)'',
        bp_JA3 = ''771,4865-4866-4867-49195-49199-49196-49200-52393-52392-49171-49172-156-157-47-53,0-23-65281-10-11-35-16-5-13-18-51-45-43-27,29-23-24,0'',
        bp_UserAgent = ''Mozilla/5.0 (Windows NT 10.0; Win64; x64) AppleWebKit/537.36 (KHTML, like Gecko) Chrome/98.0.4758.102 Safari/537.36'',
        bp_JA4 = ''t13d1615h2_8daaf6152771_b0da82dd1658'' \<rparr>),
     (''firefox_91'',
      \<lparr> bp_Name = ''Firefox 91'',
        bp_JA3 = ''771,4865-4867-4866-49195-49199-52393-52392-49196-49200-49162-49161-49171-49172-156-157-47-53,0-23-65281-10-11-35-16-5-51-43-13-45-28,29-23-24-25,0'',
        bp_UserAgent = ''Mozilla/5.0 (Windows NT 10.0; Win64; x64; rv:91.0) Gecko/20100101 Firefox/91.0'',
        bp_JA4 = ''t13d1514h2_5b57614c22b0_e7c285222651'' \<rparr>),
     (''curl_latest'',
      \<lparr> bp_Name = ''curl 8.x'',
        bp_JA3 = ''771,4865-4866-4867-49195-49199-49196-49200-52393-52392-49171-49172-156-157-47-53,0-23-65281-10-11-35-16-5-13,29-23-24,0'',
        bp_UserAgent = ''curl/8.1.2'',
        bp_JA4 = ''t13d1413h2_8daaf6152771_2a623c22973b'' \<rparr>),
     (''python_requests'',
      \<lparr> bp_Name = ''Python Requests'',
        bp_JA3 = ''771,4866-4867-4865-49200-49196-49192-49188-49172-49162-159-107-57-52393-52392-52394-65413-196-136-129-157-61-53-132-49199-49195-49191-49187-49171-49161-158-103-51-190-69-156-60-47-186-65-49169-49159-5-4-49170-49160-22-10-255,11-10-35-22-23-13-43-45-51,29-23-30-25-24,0-1-2'',
        bp_UserAgent = ''python-requests/2.31.0'',
        bp_JA4 = ''t13d3222h2_bca230a689ed_a4ad957c2b9b'' \<rparr>),
     (''go_http'',
      \<lparr> bp_Name = ''Go HTTP Client'',
        bp_JA3 = ''771,4865-4866-4867-49195-49199-49196-49200-52393-52392-49171-49172-156-157-47-53,0-23-65281-10-11-35-16-5-13,29-23-24,0'',
        bp_UserAgent = ''Go-http-client/2.0'',
        bp_JA4 = ''t13d1413h2_8daaf6152771_3b786b34c4ab'' \<rparr>),
     (''brave_browser'',
      \<lparr> bp_Name = ''Brave Browser 1.60+'',
        bp_JA3 = ''771,4865-4866-4867-49195-49199-49196-49200-52393-52392-49171-49172-156-157-47-53,0-23-65281-10-11-35-16-5-13-18-51-45-43-27-21,29-23-24,0'',
        bp_UserAgent = ''Mozilla/5.0 (Windows NT 10.0; Win64; x64) AppleWebKit/537.36 (KHTML, like Gecko) Chrome/120.0.0.0 Safari/537.36'',
        bp_JA4 = ''t13d1715h2_8daaf6152771_02713d6af862'' \<rparr>),
     (''samsung_internet'',
      \<lparr> bp_Name = ''Samsung Internet 20'',
        bp_JA3 = ''771,4865-4866-4867-49195-49199-49196-49200-52393-52392-49171-49172-156-157-47-53,0-23-65281-10-11-35-16-5-13-51-45-43-27-21,29-23-24,0'',
        bp_UserAgent = ''Mozilla/5.0 (Linux; Android 13; SM-S908B) AppleWebKit/537.36 (KHTML, like Gecko) SamsungBrowser/20.0 Chrome/106.0.5249.126 Mobile Safari/537.36'',
        bp_JA4 = ''t13d1614h2_8daaf6152771_e1a4b2c5d3f6'' \<rparr>),
     (''firefox_android'',
      \<lparr> bp_Name = ''Firefox Android 120'',
        bp_JA3 = ''771,4865-4867-4866-49195-49199-52393-52392-49196-49200-49162-49161-49171-49172-156-157-47-53,0-23-65281-10-11-35-16-5-51-43-13-45-28-21,29-23-24-25,0'',
        bp_UserAgent = ''Mozilla/5.0 (Android 13; Mobile; rv:120.0) Gecko/120.0 Firefox/120.0'',
        bp_JA4 = ''t13d1515h2_5b57614c22b0_8f7e6d5c4b3a'' \<rparr>),
     (''safari_ipad'',
      \<lparr> bp_Name = ''Safari iPad iOS 17'',
        bp_JA3 = ''771,4865-4866-4867-49196-49195-52393-49200-49199-52392-49162-49161-49172-49171-157-156-53-47,0-23-65281-10-11-16-5-13,29-23-24-25,0'',
        bp_UserAgent = ''Mozilla/5.0 (iPad; CPU OS 17_0 like Mac OS X) AppleWebKit/605.1.15 (KHTML, like Gecko) Version/17.0 Mobile/15E148 Safari/604.1'',
        bp_JA4 = ''t13d1312h2_9e7b989ebec8_2a1b3c4d5e6f'' \<rparr>),
     (''opera_gx'',
      \<lparr> bp_Name = ''Opera GX'',
        bp_JA3 = ''771,4865-4866-4867-49195-49199-49196-49200-52393-52392-49171-49172-156-157-47-53,0-23-65281-10-11-35-16-5-13-18-51-45-43-27-21,29-23-24,0'',
        bp_UserAgent = ''Mozilla/5.0 (Windows NT 10.0; Win64; x64) AppleWebKit/537.36 (KHTML, like Gecko) Chrome/120.0.0.0 Safari/537.36 OPR/106.0.0.0'',
        bp_JA4 = ''t13d1715h2_8daaf6152771_f2e3d4c5b6a7'' \<rparr>),
     (''vivaldi'',
      \<lparr> bp_Name = ''Vivaldi Browser'',
        bp_JA3 = ''771,4865-4866-4867-49195-49199-49196-49200-52393-52392-49171-49172-156-157-47-53,0-23-65281-10-11-35-16-5-13-18-51-45-43-27-21,29-23-24,0'',
        bp_UserAgent = ''Mozilla/5.0 (Windows NT 10.0; Win64; x64) AppleWebKit/537.36 (KHTML, like Gecko) Chrome/120.0.0.0 Safari/537.36 Vivaldi/6.5'',
        bp_JA4 = ''t13d1715h2_8daaf6152771_a9b8c7d6e5f4'' \<rparr>),
     (''tor_browser'',
      \<lparr> bp_Name = ''Tor Browser'',
        bp_JA3 = ''771,4865-4867-4866-49195-49199-52393-52392-49196-49200-49162-49161-49171-49172-156-157-47-53,0-23-65281-10-11-35-16-5-51-43-13-45-28-21,29-23-24-25,0'',
        bp_UserAgent = ''Mozilla/5.0 (Windows NT 10.0; rv:102.0) Gecko/20100101 Firefox/102.0'',
        bp_JA4 = ''t13d1515h2_5b57614c22b0_1f2e3d4c5b6a'' \<rparr>),
     (''yandex_browser'',
      \<lparr> bp_Name = ''Yandex Browser'',
        bp_JA3 = ''771,4865-4866-4867-49195-49199-49196-49200-52393-52392-49171-49172-156-157-47-53,0-23-65281-10-11-35-16-5-13-18-51-45-43-27-21,29-23-24,0'',
        bp_UserAgent = ''Mozilla/5.0 (Windows NT 10.0; Win64; x64) AppleWebKit/537.36 (KHTML, like Gecko) Chrome/120.0.0.0 YaBrowser/23.11 Safari/537.36'',
        bp_JA4 = ''t13d1715h2_8daaf6152771_c1d2e3f4a5b6'' \<rparr>),
     (''uc_browser'',
      \<lparr> bp_Name = ''UC Browser Mobile'',
        bp_JA3 = ''771,4865-4866-4867-49195-49199-49196-49200-52393-52392-49171-49172-156-157-47-53,0-23-65281-10-11-35-16-5-13,29-23-24,0'',
        bp_UserAgent = ''Mozilla/5.0 (Linux; U; Android 13) AppleWebKit/537.36 (KHTML, like Gecko) UCBrowser/15.5.0.1000 Mobile Safari/537.36'',
        bp_JA4 = ''t13d1413h2_8daaf6152771_7a8b9c0d1e2f'' \<rparr>),
     (''whale_browser'',
      \<lparr> bp_Name = ''Naver Whale Browser'',
        bp_JA3 = ''771,4865-4866-4867-49195-49199-49196-49200-52393-52392-49171-49172-156-157-47-53,0-23-65281-10-11-35-16-5-13-18-51-45-43-27-21,29-23-24,0'',
        bp_UserAgent = ''Mozilla/5.0 (Windows NT 10.0; Win64; x64) AppleWebKit/537.36 (KHTML, like Gecko) Chrome/120.0.0.0 Whale/3.24 Safari/537.36'',
        bp_JA4 = ''t13d1715h2_8daaf6152771_3d4e5f6a7b8c'' \<rparr>),
     (''edge_mobile'',
      \<lparr> bp_Name = ''Edge Mobile Android'',
        bp_JA3 = ''771,4865-4866-4867-49195-49199-49196-49200-52393-52392-49171-49172-156-157-47-53,0-23-65281-10-11-35-16-5-13-51-45-43-27-21,29-23-24,0'',
        bp_UserAgent = ''Mozilla/5.0 (Linux; Android 13) AppleWebKit/537.36 (KHTML, like Gecko) Chrome/120.0.0.0 Mobile Safari/537.36 EdgA/120.0.0.0'',
        bp_JA4 = ''t13d1614h2_8daaf6152771_9e8f7d6c5b4a'' \<rparr>),
     (''opera_mobile'',
      \<lparr> bp_Name = ''Opera Mobile'',
        bp_JA3 = ''771,4865-4866-4867-49195-49199-49196-49200-52393-52392-49171-49172-156-157-47-53,0-23-65281-10-11-35-16-5-13-51-45-43-27-21,29-23-24,0'',
        bp_UserAgent = ''Mozilla/5.0 (Linux; Android 13) AppleWebKit/537.36 (KHTML, like Gecko) Chrome/120.0.0.0 Mobile Safari/537.36 OPR/76.2'',
        bp_JA4 = ''t13d1614h2_8daaf6152771_5f6e7d8c9b0a'' \<rparr>),
     (''duckduckgo_browser'',
      \<lparr> bp_Name = ''DuckDuckGo Browser'',
        bp_JA3 = ''771,4865-4866-4867-49195-49199-49196-49200-52393-52392-49171-49172-156-157-47-53,0-23-65281-10-11-35-16-5-13,29-23-24,0'',
        bp_UserAgent = ''Mozilla/5.0 (Linux; Android 13) AppleWebKit/537.36 (KHTML, like Gecko) Version/4.0 Chrome/120.0.6099.230 DuckDuckGo/5 Safari/537.36'',
        bp_JA4 = ''t13d1413h2_8daaf6152771_b0c1d2e3f4a5'' \<rparr>),
     (''ecosia_browser'',
      \<lparr> bp_Name = ''Ecosia Browser'',
        bp_JA3 = ''771,4865-4866-4867-49195-49199-49196-49200-52393-52392-49171-49172-156-157-47-53,0-23-65281-10-11-35-16-5-13-18-51-45-43-27-21,29-23-24,0'',
        bp_UserAgent = ''Mozilla/5.0 (Windows NT 10.0; Win64; x64) AppleWebKit/537.36 (KHTML, like Gecko) Chrome/120.0.0.0 Safari/537.36 Ecosia/14.0'',
        bp_JA4 = ''t13d1715h2_8daaf6152771_6e7f8a9b0c1d'' \<rparr>),
     (''maxthon_browser'',
      \<lparr> bp_Name = ''Maxthon Browser'',
        bp_JA3 = ''771,4865-4866-4867-49195-49199-49196-49200-52393-52392-49171-49172-156-157-47-53,0-23-65281-10-11-35-16-5-13,29-23-24,0'',
        bp_UserAgent = ''Mozilla/5.0 (Windows NT 10.0; Win64; x64) AppleWebKit/537.36 (KHTML, like Gecko) Chrome/120.0.0.0 Safari/537.36 Maxthon/6.2'',
        bp_JA4 = ''t13d1413h2_8daaf6152771_4d5e6f7a8b9c'' \<rparr>) ]"

definition GetBrowserProfile :: "string \<Rightarrow> BrowserProfile option" where
  "GetBrowserProfile name = map_of BrowserProfiles name"

definition GetBrowserJA3 :: "string \<Rightarrow> string" where
  "GetBrowserJA3 profileName =
     (case map_of BrowserProfiles profileName of Some profile \<Rightarrow> bp_JA3 profile | None \<Rightarrow> [])"

section \<open>GREASE (internal/util/fingerprint/grease.go)\<close>

definition GREASEValues :: "uint16 list" where
  "GREASEValues = [0x0a0a, 0x1a1a, 0x2a2a, 0x3a3a, 0x4a4a, 0x5a5a, 0x6a6a, 0x7a7a,
                   0x8a8a, 0x9a9a, 0xaaaa, 0xbaba, 0xcaca, 0xdada, 0xeaea, 0xfafa]"

text \<open>\<open>greaseMap\<close> is filled from \<open>GREASEValues\<close> by \<open>init\<close>; a missing key reads as \<open>false\<close>.\<close>

definition greaseMap :: "uint16 \<rightharpoonup> bool" where
  "greaseMap = foldl (\<lambda>m v. m(v \<mapsto> True)) Map.empty GREASEValues"

definition IsGREASE :: "uint16 \<Rightarrow> bool" where
  "IsGREASE v = (case greaseMap v of Some b \<Rightarrow> b | None \<Rightarrow> False)"

section \<open>The ClientHello spec and the builder from a JA3 (package ja3, spec.go)\<close>

text \<open>
  The types of the uTLS library the builders fill: the extension values they create,
  the spec, and the library's constants by their values.
\<close>

datatype RenegotiationSupport = RenegotiateNever | RenegotiateOnceAsClient | RenegotiateFreelyAsClient

datatype PaddingStyle = BoringPaddingStyle

record KeyShare =
  ks_Group :: uint16
  ks_Data :: "uint8 list"

datatype TLSExtension =
    SNIExtension string
  | StatusRequestExtension
  | SupportedCurvesExtension "uint16 list"
  | SupportedPointsExtension "uint8 list"
  | SignatureAlgorithmsExtension "uint16 list"
  | ALPNExtension "string list"
  | SCTExtension
  | UtlsPaddingExtension PaddingStyle
  | ExtendedMasterSecretExtension
  | GenericExtension uint16 "uint8 list"
  | SessionTicketExtension
  | SupportedVersionsExtension "uint16 list"
  | PSKKeyExchangeModesExtension "uint8 list"
  | KeyShareExtension "KeyShare list"
  | RenegotiationInfoExtension RenegotiationSupport

record ClientHelloSpec =
  chs_CipherSuites :: "uint16 list"
  chs_CompressionMethods :: "uint8 list"
  chs_Extensions :: "TLSExtension list"
  chs_TLSVersMin :: uint16
  chs_TLSVersMax :: uint16

definition VersionTLS10 :: uint16 where "VersionTLS10 = 0x0301"
definition VersionTLS11 :: uint16 where "VersionTLS11 = 0x0302"
definition VersionTLS12 :: uint16 where "VersionTLS12 = 0x0303"
definition VersionTLS13 :: uint16 where "VersionTLS13 = 0x0304"

definition X25519 :: uint16 where "X25519 = 29"
definition CurveP256 :: uint16 where "CurveP256 = 23"
definition CurveP384 :: uint16 where "CurveP384 = 24"
definition CurveP521 :: uint16 where "CurveP521 = 25"

definition PKCS1WithSHA1 :: uint16 where "PKCS1WithSHA1 = 0x0201"
definition PKCS1WithSHA256 :: uint16 where "PKCS1WithSHA256 = 0x0401"
definition PKCS1WithSHA384 :: uint16 where "PKCS1WithSHA384 = 0x0501"
definition PKCS1WithSHA512 :: uint16 where "PKCS1WithSHA512 = 0x0601"
definition PSSWithSHA256 :: uint16 where "PSSWithSHA256 = 0x0804"
definition PSSWithSHA384 :: uint16 where "PSSWithSHA384 = 0x0805"
definition PSSWithSHA512 :: uint16 where "PSSWithSHA512 = 0x0806"
definition ECDSAWithP256AndSHA256 :: uint16 where "ECDSAWithP256AndSHA256 = 0x0403"
definition ECDSAWithP384AndSHA384 :: uint16 where "ECDSAWithP384AndSHA384 = 0x0503"
definition ECDSAWithP521AndSHA512 :: uint16 where "ECDSAWithP521AndSHA512 = 0x0603"

definition PskModeDHE :: uint8 where "PskModeDHE = 1"

text \<open>The extension type a value of the library goes on the wire with.\<close>

fun extension_id :: "TLSExtension \<Rightarrow> uint16" where
  "extension_id (SNIExtension n) = 0"
| "extension_id StatusRequestExtension = 5"
| "extension_id (SupportedCurvesExtension cs) = 10"
| "extension_id (SupportedPointsExtension ps) = 11"
| "extension_id (SignatureAlgorithmsExtension ss) = 13"
| "extension_id (ALPNExtension ps) = 16"
| "extension_id SCTExtension = 18"
| "extension_id (UtlsPaddingExtension st) = 21"
| "extension_id ExtendedMasterSecretExtension = 23"
| "extension_id (GenericExtension i d) = i"
| "extension_id SessionTicketExtension = 35"
| "extension_id (SupportedVersionsExtension vs) = 43"
| "extension_id (PSKKeyExchangeModesExtension ms) = 45"
| "extension_id (KeyShareExtension ks) = 51"
| "extension_id (RenegotiationInfoExtension r) = 65281"

text \<open>
  \<open>buildExtension\<close>.  The result is an interface value, which can be \<open>nil\<close> (the
  caller tests it), hence the option.  A Go \<open>switch\<close> does not fall through: a case
  whose \<open>if\<close> fails leaves the switch and reaches the final \<open>return\<close>.
\<close>

definition buildExtension :: "uint16 \<Rightarrow> JA3Data \<Rightarrow> string \<Rightarrow> TLSExtension option" where
  "buildExtension extID data serverName =
     (if extID = 0 then
        (if serverName \<noteq> [] then Some (SNIExtension serverName)
         else Some (GenericExtension extID []))
      else if extID = 5 then Some StatusRequestExtension
      else if extID = 10 then
        (if length (ja3_SupportedGroups data) > 0
         then Some (SupportedCurvesExtension (map (\<lambda>g. g) (ja3_SupportedGroups data)))
         else Some (GenericExtension extID []))
      else if extID = 11 then
        (if length (ja3_EllipticCurvePoint data) > 0
         then Some (SupportedPointsExtension (ja3_EllipticCurvePoint data))
         else Some (GenericExtension extID []))
      else if extID = 13 then
        Some (SignatureAlgorithmsExtension
               [ECDSAWithP256AndSHA256, PSSWithSHA256, PKCS1WithSHA256, ECDSAWithP384AndSHA384,
                PSSWithSHA384, PKCS1WithSHA384, PSSWithSHA512, PKCS1WithSHA512])
      else if extID = 16 then Some (ALPNExtension [''h2'', ''http/1.1''])
      else if extID = 18 then Some SCTExtension
      else if extID = 21 then Some (UtlsPaddingExtension BoringPaddingStyle)
      else if extID = 23 then Some ExtendedMasterSecretExtension
      else if extID = 27 then Some (GenericExtension 27 [])
      else if extID = 35 then Some SessionTicketExtension
      else if extID = 43 then Some (SupportedVersionsExtension [VersionTLS13, VersionTLS12])
      else if extID = 45 then Some (PSKKeyExchangeModesExtension [1])
      else if extID = 51 then Some (KeyShareExtension [\<lparr> ks_Group = X25519, ks_Data = [] \<rparr>])
      else if extID = 65281 then Some (RenegotiationInfoExtension RenegotiateOnceAsClient)
      else Some (GenericExtension extID []))"

text \<open>The case labels of the switch.\<close>

definition recognized_ids :: "uint16 list" where
  "recognized_ids = [0, 5, 10, 11, 13, 16, 18, 21, 23, 27, 35, 43, 45, 51, 65281]"

text \<open>\<open>make([]uint16, n)\<close> and the built-in \<open>copy(dst, src)\<close>.\<close>

definition go_make :: "nat \<Rightarrow> uint16 list" where
  "go_make n = replicate n 0"

definition go_copy :: "'a list \<Rightarrow> 'a list \<Rightarrow> 'a list" where
  "go_copy dst src = take (min (length dst) (length src)) src @ drop (min (length dst) (length src)) dst"

definition BuildClientHelloSpecFromJA3 :: "JA3Data option \<Rightarrow> string \<Rightarrow> error + ClientHelloSpec" where
  "BuildClientHelloSpecFromJA3 data serverName =
     (case data of
        None \<Rightarrow> Inl JA3DataNil
      | Some d \<Rightarrow>
          Inr \<lparr> chs_CipherSuites = go_copy (go_make (length (ja3_CipherSuites d))) (ja3_CipherSuites d),
                chs_CompressionMethods = [],
                chs_Extensions =
                  foldl (\<lambda>exts extID. case buildExtension extID d serverName of
                                         Some ext \<Rightarrow> exts @ [ext]
                                       | None \<Rightarrow> exts)
                        [] (ja3_Extensions d),
                chs_TLSVersMin = ja3_Version d,
                chs_TLSVersMax = ja3_Version d \<rparr>)"

text \<open>A JA3 value with a GREASE extension id, used as a concrete input below.\<close>

definition example_JA3 :: JA3Data where
  "example_JA3 = \<lparr> ja3_Version = 771, ja3_CipherSuites = [4865, 4866],
       ja3_Extensions = [0, 0x0a0a, 23], ja3_SupportedGroups = [29], ja3_EllipticCurvePoint = [0] \<rparr>"


section \<open>HTTP/2 profiles and the transport configurator (package fingerprint)\<close>

record HTTP2Priority =
  pr_StreamDependency :: uint32
  pr_Weight :: uint8
  pr_Exclusive :: bool

record HTTP2Profile =
  h2_Name :: string
  h2_Fingerprint :: string
  h2_Settings :: "uint16 \<rightharpoonup> uint32"
  h2_WindowUpdate :: uint32
  h2_Priority :: "HTTP2Priority option"
  h2_HeaderTableSize :: uint32
  h2_PseudoHeaderOrder :: string

definition SettingsHeaderTableSize :: uint16 where "SettingsHeaderTableSize = 0x1"
definition SettingsEnablePush :: uint16 where "SettingsEnablePush = 0x2"
definition SettingsMaxConcurrentStreams :: uint16 where "SettingsMaxConcurrentStreams = 0x3"
definition SettingsInitialWindowSize :: uint16 where "SettingsInitialWindowSize = 0x4"
definition SettingsMaxFrameSize :: uint16 where "SettingsMaxFrameSize = 0x5"
definition SettingsMaxHeaderListSize :: uint16 where "SettingsMaxHeaderListSize = 0x6"

text \<open>The Go map \<open>HTTP2ProfilesDB\<close>, as the list of its entries in source order; the keys are distinct.\<close>

definition HTTP2ProfilesDB :: "(string \<times> HTTP2Profile) list" where
  "HTTP2ProfilesDB = [
     (''chrome_120'',
      \<lparr> h2_Name = ''Chrome 120'',
        h2_Fingerprint = ''1:65536;2:0;3:100;4:6291456;6:262144|15663105|0|m,a,s,p'',
        h2_Settings = map_of [(1, 65536), (2, 0), (3, 100), (4, 6291456), (6, 262144)],
        h2_WindowUpdate = 15663105,
        h2_Priority = Some \<lparr> pr_StreamDependency = 0, pr_Weight = 255, pr_Exclusive = True \<rparr>,
        h2_HeaderTableSize = 65536,
        h2_PseudoHeaderOrder = ''m,a,s,p'' \<rparr>),
     (''chrome_108'',
      \<lparr> h2_Name = ''Chrome 108'',
        h2_Fingerprint = ''1:65536;2:0;3:100;4:6291456;6:262144|15663105|0|m,a,s,p'',
        h2_Settings = map_of [(1, 65536), (2, 0), (3, 100), (4, 6291456), (6, 262144)],
        h2_WindowUpdate = 15663105,
        h2_Priority = Some \<lparr> pr_StreamDependency = 0, pr_Weight = 255, pr_Exclusive = True \<rparr>,
        h2_HeaderTableSize = 65536,
        h2_PseudoHeaderOrder = ''m,a,s,p'' \<rparr>),
     (''firefox_120'',
      \<lparr> h2_Name = ''Firefox 120'',
        h2_Fingerprint = ''1:65536;2:0;4:131072;5:16384|12517377|0|m,p,a,s'',
        h2_Settings = map_of [(1, 65536), (2, 0), (4, 131072), (5, 16384)],
        h2_WindowUpdate = 12517377,
        h2_Priority = Some \<lparr> pr_StreamDependency = 0, pr_Weight = 255, pr_Exclusive = False \<rparr>,
        h2_HeaderTableSize = 65536,
        h2_PseudoHeaderOrder = ''m,p,a,s'' \<rparr>),
     (''firefox_102'',
      \<lparr> h2_Name = ''Firefox 102'',
        h2_Fingerprint = ''1:65536;2:0;4:131072;5:16384|12517377|0|m,p,a,s'',
        h2_Settings = map_of [(1, 65536), (2, 0), (4, 131072), (5, 16384)],
        h2_WindowUpdate = 12517377,
        h2_Priority = Some \<lparr> pr_StreamDependency = 0, pr_Weight = 255, pr_Exclusive = False \<rparr>,
        h2_HeaderTableSize = 65536,
        h2_PseudoHeaderOrder = ''m,p,a,s'' \<rparr>),
     (''safari_17'',
      \<lparr> h2_Name = ''Safari 17'',
        h2_Fingerprint = ''2:0;3:100;4:6291456;6:262144|15663105|0|m,a,s,p'',
        h2_Settings = map_of [(2, 0), (3, 100), (4, 6291456), (6, 262144)],
        h2_WindowUpdate = 15663105,
        h2_Priority = Some \<lparr> pr_StreamDependency = 0, pr_Weight = 255, pr_Exclusive = True \<rparr>,
        h2_HeaderTableSize = 4096,
        h2_PseudoHeaderOrder = ''m,a,s,p'' \<rparr>),
     (''safari_ios_17'',
      \<lparr> h2_Name = ''Safari iOS 17'',
        h2_Fingerprint = ''2:0;3:100;4:6291456;6:262144|15663105|0|m,a,s,p'',
        h2_Settings = map_of [(2, 0), (3, 100), (4, 6291456), (6, 262144)],
        h2_WindowUpdate = 15663105,
        h2_Priority = Some \<lparr> pr_StreamDependency = 0, pr_Weight = 255, pr_Exclusive = True \<rparr>,
        h2_HeaderTableSize = 4096,
        h2_PseudoHeaderOrder = ''m,a,s,p'' \<rparr>),
     (''edge_120'',
      \<lparr> h2_Name = ''Edge 120'',
        h2_Fingerprint = ''1:65536;2:0;3:100;4:6291456;6:262144|15663105|0|m,a,s,p'',
        h2_Settings = map_of [(1, 65536), (2, 0), (3, 100), (4, 6291456), (6, 262144)],
        h2_WindowUpdate = 15663105,
        h2_Priority = Some \<lparr> pr_StreamDependency = 0, pr_Weight = 255, pr_Exclusive = True \<rparr>,
        h2_HeaderTableSize = 65536,
        h2_PseudoHeaderOrder = ''m,a,s,p'' \<rparr>),
     (''android_chrome'',
      \<lparr> h2_Name = ''Chrome Android'',
        h2_Fingerprint = ''1:65536;2:0;3:100;4:6291456;6:262144|15663105|0|m,a,s,p'',
        h2_Settings = map_of [(1, 65536), (2, 0), (3, 100), (4, 6291456), (6, 262144)],
        h2_WindowUpdate = 15663105,
        h2_Priority = Some \<lparr> pr_StreamDependency = 0, pr_Weight = 255, pr_Exclusive = True \<rparr>,
        h2_HeaderTableSize = 65536,
        h2_PseudoHeaderOrder = ''m,a,s,p'' \<rparr>),
     (''brave_browser'',
      \<lparr> h2_Name = ''Brave Browser'',
        h2_Fingerprint = ''1:65536;2:0;3:100;4:6291456;6:262144|15663105|0|m,a,s,p'',
        h2_Settings = map_of [(1, 65536), (2, 0), (3, 100), (4, 6291456), (6, 262144)],
        h2_WindowUpdate = 15663105,
        h2_Priority = Some \<lparr> pr_StreamDependency = 0, pr_Weight = 255, pr_Exclusive = True \<rparr>,
        h2_HeaderTableSize = 65536,
        h2_PseudoHeaderOrder = ''m,a,s,p'' \<rparr>),
     (''samsung_internet'',
      \<lparr> h2_Name = ''Samsung Internet'',
        h2_Fingerprint = ''1:65536;2:0;3:100;4:6291456;6:262144|15663105|0|m,a,s,p'',
        h2_Settings = map_of [(1, 65536), (2, 0), (3, 100), (4, 6291456), (6, 262144)],
        h2_WindowUpdate = 15663105,
        h2_Priority = Some \<lparr> pr_StreamDependency = 0, pr_Weight = 255, pr_Exclusive = True \<rparr>,
        h2_HeaderTableSize = 65536,
        h2_PseudoHeaderOrder = ''m,a,s,p'' \<rparr>),
     (''firefox_android'',
      \<lparr> h2_Name = ''Firefox Android'',
        h2_Fingerprint = ''1:65536;2:0;4:131072;5:16384|12517377|0|m,p,a,s'',
        h2_Settings = map_of [(1, 65536), (2, 0), (4, 131072), (5, 16384)],
        h2_WindowUpdate = 12517377,
        h2_Priority = Some \<lparr> pr_StreamDependency = 0, pr_Weight = 255, pr_Exclusive = False \<rparr>,
        h2_HeaderTableSize = 65536,
        h2_PseudoHeaderOrder = ''m,p,a,s'' \<rparr>),
     (''safari_ipad'',
      \<lparr> h2_Name = ''Safari iPad'',
        h2_Fingerprint = ''2:0;3:100;4:6291456;6:262144|15663105|0|m,a,s,p'',
        h2_Settings = map_of [(2, 0), (3, 100), (4, 6291456), (6, 262144)],
        h2_WindowUpdate = 15663105,
        h2_Priority = Some \<lparr> pr_StreamDependency = 0, pr_Weight = 255, pr_Exclusive = True \<rparr>,
        h2_HeaderTableSize = 4096,
        h2_PseudoHeaderOrder = ''m,a,s,p'' \<rparr>),
     (''opera_gx'',
      \<lparr> h2_Name = ''Opera GX'',
        h2_Fingerprint = ''1:65536;2:0;3:100;4:6291456;6:262144|15663105|0|m,a,s,p'',
        h2_Settings = map_of [(1, 65536), (2, 0), (3, 100), (4, 6291456), (6, 262144)],
        h2_WindowUpdate = 15663105,
        h2_Priority = Some \<lparr> pr_StreamDependency = 0, pr_Weight = 255, pr_Exclusive = True \<rparr>,
        h2_HeaderTableSize = 65536,
        h2_PseudoHeaderOrder = ''m,a,s,p'' \<rparr>),
     (''vivaldi'',
      \<lparr> h2_Name = ''Vivaldi'',
        h2_Fingerprint = ''1:65536;2:0;3:100;4:6291456;6:262144|15663105|0|m,a,s,p'',
        h2_Settings = map_of [(1, 65536), (2, 0), (3, 100), (4, 6291456), (6, 262144)],
        h2_WindowUpdate = 15663105,
        h2_Priority = Some \<lparr> pr_StreamDependency = 0, pr_Weight = 255, pr_Exclusive = True \<rparr>,
        h2_HeaderTableSize = 65536,
        h2_PseudoHeaderOrder = ''m,a,s,p'' \<rparr>),
     (''tor_browser'',
      \<lparr> h2_Name = ''Tor Browser'',
        h2_Fingerprint = ''1:65536;2:0;4:131072;5:16384|12517377|0|m,p,a,s'',
        h2_Settings = map_of [(1, 65536), (2, 0), (4, 131072), (5, 16384)],
        h2_WindowUpdate = 12517377,
        h2_Priority = Some \<lparr> pr_StreamDependency = 0, pr_Weight = 255, pr_Exclusive = False \<rparr>,
        h2_HeaderTableSize = 65536,
        h2_PseudoHeaderOrder = ''m,p,a,s'' \<rparr>),
     (''yandex_browser'',
      \<lparr> h2_Name = ''Yandex Browser'',
        h2_Fingerprint = ''1:65536;2:0;3:100;4:6291456;6:262144|15663105|0|m,a,s,p'',
        h2_Settings = map_of [(1, 65536), (2, 0), (3, 100), (4, 6291456), (6, 262144)],
        h2_WindowUpdate = 15663105,
        h2_Priority = Some \<lparr> pr_StreamDependency = 0, pr_Weight = 255, pr_Exclusive = True \<rparr>,
        h2_HeaderTableSize = 65536,
        h2_PseudoHeaderOrder = ''m,a,s,p'' \<rparr>),
     (''uc_browser'',
      \<lparr> h2_Name = ''UC Browser'',
        h2_Fingerprint = ''1:65536;2:0;3:100;4:6291456;6:262144|15663105|0|m,a,s,p'',
        h2_Settings = map_of [(1, 65536), (2, 0), (3, 100), (4, 6291456), (6, 262144)],
        h2_WindowUpdate = 15663105,
        h2_Priority = Some \<lparr> pr_StreamDependency = 0, pr_Weight = 255, pr_Exclusive = True \<rparr>,
        h2_HeaderTableSize = 65536,
        h2_PseudoHeaderOrder = ''m,a,s,p'' \<rparr>),
     (''whale_browser'',
      \<lparr> h2_Name = ''Naver Whale'',
        h2_Fingerprint = ''1:65536;2:0;3:100;4:6291456;6:262144|15663105|0|m,a,s,p'',
        h2_Settings = map_of [(1, 65536), (2, 0), (3, 100), (4, 6291456), (6, 262144)],
        h2_WindowUpdate = 15663105,
        h2_Priority = Some \<lparr> pr_StreamDependency = 0, pr_Weight = 255, pr_Exclusive = True \<rparr>,
        h2_HeaderTableSize = 65536,
        h2_PseudoHeaderOrder = ''m,a,s,p'' \<rparr>),
     (''edge_mobile'',
      \<lparr> h2_Name = ''Edge Mobile'',
        h2_Fingerprint = ''1:65536;2:0;3:100;4:6291456;6:262144|15663105|0|m,a,s,p'',
        h2_Settings = map_of [(1, 65536), (2, 0), (3, 100), (4, 6291456), (6, 262144)],
        h2_WindowUpdate = 15663105,
        h2_Priority = Some \<lparr> pr_StreamDependency = 0, pr_Weight = 255, pr_Exclusive = True \<rparr>,
        h2_HeaderTableSize = 65536,
        h2_PseudoHeaderOrder = ''m,a,s,p'' \<rparr>),
     (''opera_mobile'',
      \<lparr> h2_Name = ''Opera Mobile'',
        h2_Fingerprint = ''1:65536;2:0;3:100;4:6291456;6:262144|15663105|0|m,a,s,p'',
        h2_Settings = map_of [(1, 65536), (2, 0), (3, 100), (4, 6291456), (6, 262144)],
        h2_WindowUpdate = 15663105,
        h2_Priority = Some \<lparr> pr_StreamDependency = 0, pr_Weight = 255, pr_Exclusive = True \<rparr>,
        h2_HeaderTableSize = 65536,
        h2_PseudoHeaderOrder = ''m,a,s,p'' \<rparr>),
     (''duckduckgo_browser'',
      \<lparr> h2_Name = ''DuckDuckGo Browser'',
        h2_Fingerprint = ''1:65536;2:0;3:100;4:6291456;6:262144|15663105|0|m,a,s,p'',
        h2_Settings = map_of [(1, 65536), (2, 0), (3, 100), (4, 6291456), (6, 262144)],
        h2_WindowUpdate = 15663105,
        h2_Priority = Some \<lparr> pr_StreamDependency = 0, pr_Weight = 255, pr_Exclusive = True \<rparr>,
        h2_HeaderTableSize = 65536,
        h2_PseudoHeaderOrder = ''m,a,s,p'' \<rparr>),
     (''ecosia_browser'',
      \<lparr> h2_Name = ''Ecosia Browser'',
        h2_Fingerprint = ''1:65536;2:0;3:100;4:6291456;6:262144|15663105|0|m,a,s,p'',
        h2_Settings = map_of [(1, 65536), (2, 0), (3, 100), (4, 6291456), (6, 262144)],
        h2_WindowUpdate = 15663105,
        h2_Priority = Some \<lparr> pr_StreamDependency = 0, pr_Weight = 255, pr_Exclusive = True \<rparr>,
        h2_HeaderTableSize = 65536,
        h2_PseudoHeaderOrder = ''m,a,s,p'' \<rparr>),
     (''maxthon_browser'',
      \<lparr> h2_Name = ''Maxthon Browser'',
        h2_Fingerprint = ''1:65536;2:0;3:100;4:6291456;6:262144|15663105|0|m,a,s,p'',
        h2_Settings = map_of [(1, 65536), (2, 0), (3, 100), (4, 6291456), (6, 262144)],
        h2_WindowUpdate = 15663105,
        h2_Priority = Some \<lparr> pr_StreamDependency = 0, pr_Weight = 255, pr_Exclusive = True \<rparr>,
        h2_HeaderTableSize = 65536,
        h2_PseudoHeaderOrder = ''m,a,s,p'' \<rparr>),
     (''curl_latest'',
      \<lparr> h2_Name = ''curl 8.x'',
        h2_Fingerprint = ''2:0;3:100;4:1048576|1048576|0|m,a,s,p'',
        h2_Settings = map_of [(2, 0), (3, 100), (4, 1048576)],
        h2_WindowUpdate = 1048576,
        h2_Priority = None,
        h2_HeaderTableSize = 4096,
        h2_PseudoHeaderOrder = ''m,a,s,p'' \<rparr>),
     (''go_http'',
      \<lparr> h2_Name = ''Go HTTP Client'',
        h2_Fingerprint = ''3:100;4:1048576;6:262144|1048576|0|m,a,s,p'',
        h2_Settings = map_of [(3, 100), (4, 1048576), (6, 262144)],
        h2_WindowUpdate = 1048576,
        h2_Priority = None,
        h2_HeaderTableSize = 4096,
        h2_PseudoHeaderOrder = ''m,a,s,p'' \<rparr>),
     (''okhttp_android'',
      \<lparr> h2_Name = ''OkHttp Android'',
        h2_Fingerprint = ''1:65536;2:1;3:1000;4:6291456|10485760|0|m,a,s,p'',
        h2_Settings = map_of [(1, 65536), (2, 1), (3, 1000), (4, 6291456)],
        h2_WindowUpdate = 10485760,
        h2_Priority = None,
        h2_HeaderTableSize = 65536,
        h2_PseudoHeaderOrder = ''m,a,s,p'' \<rparr>) ]"

definition GetHTTP2Profile :: "string \<Rightarrow> HTTP2Profile option" where
  "GetHTTP2Profile name = map_of HTTP2ProfilesDB name"

text \<open>
  \<open>ValidateHTTP2Config\<close>: the warnings, in the order the checks append them.  The
  \<open>%d\<close> and \<open>%s\<close> of \<open>fmt.Sprintf\<close> are written out.
\<close>

definition ValidateHTTP2Config :: "string \<Rightarrow> error + string list" where
  "ValidateHTTP2Config profileName =
     (case GetHTTP2Profile profileName of
        None \<Rightarrow> Inl (HTTP2ProfileNotFound profileName)
      | Some profile \<Rightarrow>
          let warnings = [];
              warnings = (case h2_Settings profile SettingsHeaderTableSize of
                            Some v \<Rightarrow> warnings @ [''SETTINGS_HEADER_TABLE_SIZE cannot be configured (http2 library limitation)'']
                          | None \<Rightarrow> warnings);
              warnings = (case h2_Settings profile SettingsEnablePush of
                            Some enablePush \<Rightarrow>
                              if enablePush \<noteq> 0
                              then warnings @ [''SETTINGS_ENABLE_PUSH is always 0 in Go (HTTP/2 push deprecated)'']
                              else warnings
                          | None \<Rightarrow> warnings);
              warnings = (case h2_Settings profile SettingsInitialWindowSize of
                            Some v \<Rightarrow> warnings @ [''SETTINGS_INITIAL_WINDOW_SIZE cannot be configured directly'']
                          | None \<Rightarrow> warnings);
              warnings = (case h2_Settings profile SettingsMaxFrameSize of
                            Some v \<Rightarrow> warnings @ [''SETTINGS_MAX_FRAME_SIZE is hardcoded to 16384'']
                          | None \<Rightarrow> warnings);
              warnings = (if h2_WindowUpdate profile \<noteq> 0 \<and> h2_WindowUpdate profile \<noteq> 65535
                          then warnings @ [''Initial WINDOW_UPDATE ('' @ Sprintf_d (unat (h2_WindowUpdate profile))
                                           @ '') cannot be configured'']
                          else warnings);
              warnings = (if h2_PseudoHeaderOrder profile \<noteq> [] \<and> h2_PseudoHeaderOrder profile \<noteq> ''m,a,s,p''
                          then warnings @ [''Pseudo-header order '' @ [CHR 0x27] @ h2_PseudoHeaderOrder profile @ [CHR 0x27]
                                           @ '' cannot be configured (library uses '' @ [CHR 0x27] @ ''m,a,s,p'' @ [CHR 0x27] @ '')'']
                          else warnings);
              warnings = (case h2_Priority profile of
                            Some p \<Rightarrow> warnings @ [''PRIORITY frames are not sent by Go HTTP/2 client'']
                          | None \<Rightarrow> warnings)
          in Inr warnings)"

text \<open>
  The fields of \<open>http2.Transport\<close> the configurator writes, and
  \<open>ConfigureHTTP2Transport\<close>: the error it returns (if any) and the transport after
  the call.  Durations are nanoseconds, as \<open>time.Duration\<close> is.
\<close>

record Transport =
  tr_MaxHeaderListSize :: uint32
  tr_StrictMaxConcurrentStreams :: bool
  tr_ReadIdleTimeout :: int
  tr_AllowHTTP :: bool

definition Second :: int where
  "Second = 1000000000"

definition ConfigureHTTP2Transport :: "Transport \<Rightarrow> string \<Rightarrow> error option \<times> Transport" where
  "ConfigureHTTP2Transport transport profileName =
     (case GetHTTP2Profile profileName of
        None \<Rightarrow> (Some (HTTP2ProfileNotFound profileName), transport)
      | Some profile \<Rightarrow>
          let transport = (case h2_Settings profile SettingsMaxHeaderListSize of
                             Some maxHeaderSize \<Rightarrow> transport\<lparr> tr_MaxHeaderListSize := maxHeaderSize \<rparr>
                           | None \<Rightarrow> transport);
              transport = (case h2_Settings profile SettingsMaxConcurrentStreams of
                             Some maxStreams \<Rightarrow> transport\<lparr> tr_StrictMaxConcurrentStreams := (maxStreams > 0) \<rparr>
                           | None \<Rightarrow> transport);
              transport = (if h2_WindowUpdate profile > 10000000
                           then transport\<lparr> tr_ReadIdleTimeout := 30 * Second \<rparr>
                           else if h2_WindowUpdate profile > 1000000
                           then transport\<lparr> tr_ReadIdleTimeout := 15 * Second \<rparr>
                           else transport\<lparr> tr_ReadIdleTimeout := 10 * Second \<rparr>);
              transport = transport\<lparr> tr_AllowHTTP := False \<rparr>
          in (None, transport))"

text \<open>\<open>strings.HasPrefix\<close> and \<open>strings.Contains\<close>.\<close>

fun HasPrefix :: "string \<Rightarrow> string \<Rightarrow> bool" where
  "HasPrefix s [] = True"
| "HasPrefix [] (p # ps) = False"
| "HasPrefix (c # cs) (p # ps) = (c = p \<and> HasPrefix cs ps)"

fun Contains :: "string \<Rightarrow> string \<Rightarrow> bool" where
  "Contains [] substr = (substr = [])"
| "Contains (c # cs) substr = (HasPrefix (c # cs) substr \<or> Contains cs substr)"

section \<open>More of the Go library: searching and trimming strings, \<open>strconv.Atoi\<close>\<close>

text \<open>\<open>strings.Index(s, sep)\<close> for a one-byte \<open>sep\<close>: the first position, \<open>None\<close> for \<open>-1\<close>.\<close>

fun Index :: "string \<Rightarrow> char \<Rightarrow> nat option" where
  "Index [] sep = None"
| "Index (c # cs) sep = (if c = sep then Some 0 else map_option Suc (Index cs sep))"

definition TrimPrefix :: "string \<Rightarrow> string \<Rightarrow> string" where
  "TrimPrefix s p = (if HasPrefix s p then drop (length p) s else s)"

text \<open>
  \<open>strings.TrimSpace\<close> removes the leading and the trailing white space, as
  \<open>unicode.IsSpace\<close> defines it: the six of ASCII, U+0085, U+00A0 and the other code
  points with the property White_Space.
\<close>

definition IsSpace_runes :: "nat list" where
  "IsSpace_runes =
     [0x09, 0x0A, 0x0B, 0x0C, 0x0D, 0x20, 0x85, 0xA0, 0x1680,
      0x2000, 0x2001, 0x2002, 0x2003, 0x2004, 0x2005, 0x2006, 0x2007, 0x2008, 0x2009, 0x200A,
      0x2028, 0x2029, 0x202F, 0x205F, 0x3000]"

text \<open>
  A string is read rune by rune; a rune is white space exactly when the bytes at the
  position are the UTF-8 encoding of one of these code points (bytes that are not valid
  UTF-8 read as U+FFFD, which is not white space).  \<open>trim_runes encs s\<close> removes from
  the front of \<open>s\<close> every byte sequence of \<open>encs\<close>, as long as there is one.  From the
  end, the last rune of a string is read backwards (\<open>utf8.DecodeLastRuneInString\<close>); it
  is white space exactly when the string ends with one of the encodings.
\<close>

fun trim_runes :: "string list \<Rightarrow> string \<Rightarrow> string" where
  "trim_runes encs [] = []"
| "trim_runes encs (c # cs) =
     (case find (HasPrefix (c # cs)) encs of
        None \<Rightarrow> c # cs
      | Some enc \<Rightarrow> trim_runes encs (drop (length enc - 1) cs))"

definition TrimLeftSpace :: "string \<Rightarrow> string" where
  "TrimLeftSpace s = trim_runes (map EncodeRune IsSpace_runes) s"

definition TrimRightSpace :: "string \<Rightarrow> string" where
  "TrimRightSpace s = rev (trim_runes (map (\<lambda>r. rev (EncodeRune r)) IsSpace_runes) (rev s))"

definition TrimSpace :: "string \<Rightarrow> string" where
  "TrimSpace s = TrimRightSpace (TrimLeftSpace s)"

text \<open>\<open>strconv.Atoi\<close>: an optional sign, then decimal digits, within the range of
  \<open>int\<close> (64 bits).  \<open>uint16(n)\<close> of a Go \<open>int\<close> keeps the low 16 bits.\<close>

definition Atoi :: "string \<Rightarrow> int option" where
  "Atoi s =
     (case s of
        [] \<Rightarrow> None
      | c # cs \<Rightarrow>
          let neg = (c = CHR ''-'');
              body = (if c = CHR ''-'' \<or> c = CHR ''+'' then cs else s)
          in if body = [] then None
             else (case ParseUint_loop 10 body 0 of
                     None \<Rightarrow> None
                   | Some n \<Rightarrow>
                       if neg then (if n \<le> 2 ^ 63 then Some (- int n) else None)
                       else (if n < 2 ^ 63 then Some (int n) else None)))"

section \<open>The builder from a tls.peet.ws descriptor (internal/util/fingerprint/json_parser.go)\<close>

record StatusRequestJSON =
  sr_CertificateStatusType :: string
  sr_ResponderIDListLength :: int
  sr_RequestExtensionsLength :: int

record ExtensionJSON =
  ej_Name :: string
  ej_Data :: string
  ej_ServerName :: string
  ej_EllipticCurvesPointFormats :: "string list"
  ej_SupportedGroups :: "string list"
  ej_Protocols :: "string list"
  ej_Versions :: "string list"
  ej_SignatureAlgorithms :: "string list"
  ej_StatusRequest :: "StatusRequestJSON option"
  ej_PSKKeyExchangeMode :: string
  ej_SharedKeys :: "(string \<times> string) list list"
  ej_PaddingDataLength :: int

record ClientHelloJSON =
  cj_Ciphers :: "string list"
  cj_Extensions :: "ExtensionJSON list"
  cj_JA3 :: string
  cj_JA3Hash :: string
  cj_JA4 :: string
  cj_HTTPVersion :: string
  cj_UserAgent :: string

definition parseCipherSuiteName_cipherMap :: "(string \<times> uint16) list" where
  "parseCipherSuiteName_cipherMap = [
     (''TLS_AES_128_GCM_SHA256'', 0x1301),
     (''TLS_AES_256_GCM_SHA384'', 0x1302),
     (''TLS_CHACHA20_POLY1305_SHA256'', 0x1303),
     (''TLS_AES_128_CCM_SHA256'', 0x1304),
     (''TLS_AES_128_CCM_8_SHA256'', 0x1305),
     (''TLS_ECDHE_ECDSA_WITH_AES_128_GCM_SHA256'', 0xc02b),
     (''TLS_ECDHE_ECDSA_WITH_AES_256_GCM_SHA384'', 0xc02c),
     (''TLS_ECDHE_ECDSA_WITH_AES_128_CBC_SHA'', 0xc009),
     (''TLS_ECDHE_ECDSA_WITH_AES_256_CBC_SHA'', 0xc00a),
     (''TLS_ECDHE_ECDSA_WITH_AES_128_CBC_SHA256'', 0xc023),
     (''TLS_ECDHE_ECDSA_WITH_AES_256_CBC_SHA384'', 0xc024),
     (''TLS_ECDHE_ECDSA_WITH_CHACHA20_POLY1305_SHA256'', 0xcca9),
     (''TLS_ECDHE_RSA_WITH_AES_128_GCM_SHA256'', 0xc02f),
     (''TLS_ECDHE_RSA_WITH_AES_256_GCM_SHA384'', 0xc030),
     (''TLS_ECDHE_RSA_WITH_AES_128_CBC_SHA'', 0xc013),
     (''TLS_ECDHE_RSA_WITH_AES_256_CBC_SHA'', 0xc014),
     (''TLS_ECDHE_RSA_WITH_AES_128_CBC_SHA256'', 0xc027),
     (''TLS_ECDHE_RSA_WITH_AES_256_CBC_SHA384'', 0xc028),
     (''TLS_ECDHE_RSA_WITH_CHACHA20_POLY1305_SHA256'', 0xcca8),
     (''TLS_RSA_WITH_AES_128_GCM_SHA256'', 0x009c),
     (''TLS_RSA_WITH_AES_256_GCM_SHA384'', 0x009d),
     (''TLS_RSA_WITH_AES_128_CBC_SHA'', 0x002f),
     (''TLS_RSA_WITH_AES_256_CBC_SHA'', 0x0035),
     (''TLS_RSA_WITH_AES_128_CBC_SHA256'', 0x003c),
     (''TLS_RSA_WITH_AES_256_CBC_SHA256'', 0x003d),
     (''TLS_DHE_RSA_WITH_AES_128_GCM_SHA256'', 0x009e),
     (''TLS_DHE_RSA_WITH_AES_256_GCM_SHA384'', 0x009f),
     (''TLS_DHE_RSA_WITH_AES_128_CBC_SHA'', 0x0033),
     (''TLS_DHE_RSA_WITH_AES_256_CBC_SHA'', 0x0039),
     (''TLS_DHE_RSA_WITH_AES_128_CBC_SHA256'', 0x0067),
     (''TLS_DHE_RSA_WITH_AES_256_CBC_SHA256'', 0x006b),
     (''TLS_DHE_RSA_WITH_CHACHA20_POLY1305_SHA256'', 0xccaa),
     (''TLS_RSA_WITH_3DES_EDE_CBC_SHA'', 0x000a),
     (''TLS_RSA_WITH_RC4_128_SHA'', 0x0005),
     (''TLS_RSA_WITH_RC4_128_MD5'', 0x0004),
     (''TLS_ECDHE_RSA_WITH_3DES_EDE_CBC_SHA'', 0xc012),
     (''TLS_ECDHE_ECDSA_WITH_3DES_EDE_CBC_SHA'', 0xc008),
     (''TLS_PSK_WITH_AES_128_GCM_SHA256'', 0x00a8),
     (''TLS_PSK_WITH_AES_256_GCM_SHA384'', 0x00a9),
     (''TLS_PSK_WITH_AES_128_CBC_SHA256'', 0x00ae),
     (''TLS_DHE_PSK_WITH_AES_128_GCM_SHA256'', 0x00aa),
     (''TLS_DHE_PSK_WITH_AES_256_GCM_SHA384'', 0x00ab),
     (''TLS_ECDHE_PSK_WITH_AES_128_CBC_SHA256'', 0xc037),
     (''TLS_ECDHE_PSK_WITH_AES_256_CBC_SHA384'', 0xc038),
     (''TLS_ECDHE_PSK_WITH_CHACHA20_POLY1305_SHA256'', 0xccac),
     (''TLS_RSA_WITH_ARIA_128_GCM_SHA256'', 0xc050),
     (''TLS_RSA_WITH_ARIA_256_GCM_SHA384'', 0xc051),
     (''TLS_ECDHE_ECDSA_WITH_ARIA_128_GCM_SHA256'', 0xc05c),
     (''TLS_ECDHE_ECDSA_WITH_ARIA_256_GCM_SHA384'', 0xc05d),
     (''TLS_ECDHE_RSA_WITH_ARIA_128_GCM_SHA256'', 0xc060),
     (''TLS_ECDHE_RSA_WITH_ARIA_256_GCM_SHA384'', 0xc061) ]"

definition parseCipherSuiteName :: "string \<Rightarrow> uint16" where
  "parseCipherSuiteName name =
     (case map_of parseCipherSuiteName_cipherMap name of Some v \<Rightarrow> v | None \<Rightarrow> 0)"

definition parseSupportedGroup_groupMap :: "(string \<times> uint16) list" where
  "parseSupportedGroup_groupMap = [
     (''X25519 (29)'', X25519),
     (''P-256 (23)'', CurveP256),
     (''P-384 (24)'', CurveP384),
     (''P-521 (25)'', CurveP521) ]"

definition parseSupportedGroup :: "string \<Rightarrow> uint16" where
  "parseSupportedGroup name =
     (case map_of parseSupportedGroup_groupMap name of
        Some curve \<Rightarrow> curve
      | None \<Rightarrow>
          (case Index name (CHR ''('') of
             None \<Rightarrow> 0
           | Some idx \<Rightarrow>
               (case Index (drop idx name) (CHR '')'') of
                  None \<Rightarrow> 0
                | Some endIdx \<Rightarrow>
                    let idStr = TrimSpace (take (idx + endIdx - (idx + 1)) (drop (idx + 1) name))
                    in (case Atoi idStr of Some n \<Rightarrow> word_of_int n | None \<Rightarrow> 0))))"

definition parsePointFormat :: "string \<Rightarrow> uint8" where
  "parsePointFormat pf =
     (case ParseUint (TrimPrefix pf ''0x'') 16 8 of Some val \<Rightarrow> word_of_nat val | None \<Rightarrow> 255)"

definition parseSignatureAlgorithm_algoMap :: "(string \<times> uint16) list" where
  "parseSignatureAlgorithm_algoMap = [
     (''ecdsa_secp256r1_sha256'', ECDSAWithP256AndSHA256),
     (''ecdsa_secp384r1_sha384'', ECDSAWithP384AndSHA384),
     (''ecdsa_secp521r1_sha512'', ECDSAWithP521AndSHA512),
     (''rsa_pss_rsae_sha256'', PSSWithSHA256),
     (''rsa_pss_rsae_sha384'', PSSWithSHA384),
     (''rsa_pss_rsae_sha512'', PSSWithSHA512),
     (''rsa_pkcs1_sha256'', PKCS1WithSHA256),
     (''rsa_pkcs1_sha384'', PKCS1WithSHA384),
     (''rsa_pkcs1_sha512'', PKCS1WithSHA512),
     (''rsa_pkcs1_sha1'', PKCS1WithSHA1) ]"

definition parseSignatureAlgorithm :: "string \<Rightarrow> uint16" where
  "parseSignatureAlgorithm name =
     (case map_of parseSignatureAlgorithm_algoMap name of Some algo \<Rightarrow> algo | None \<Rightarrow> 0)"

definition parseTLSVersion_versionMap :: "(string \<times> uint16) list" where
  "parseTLSVersion_versionMap = [
     (''TLS 1.3'', VersionTLS13),
     (''TLS 1.2'', VersionTLS12),
     (''TLS 1.1'', VersionTLS11),
     (''TLS 1.0'', VersionTLS10) ]"

definition parseTLSVersion :: "string \<Rightarrow> uint16" where
  "parseTLSVersion ver =
     (case map_of parseTLSVersion_versionMap ver of Some v \<Rightarrow> v | None \<Rightarrow> 0)"

text \<open>The loops that collect the parsed values of one extension object: a value the
  parser rejects (0, or 255 for a point format) is left out.\<close>

definition collect :: "('a \<Rightarrow> 'b) \<Rightarrow> 'b \<Rightarrow> 'b list \<Rightarrow> 'a list \<Rightarrow> 'b list" where
  "collect parse bad acc names =
     foldl (\<lambda>acc n. if parse n \<noteq> bad then acc @ [parse n] else acc) acc names"

text \<open>
  One turn of the loop over \<open>chJSON.TLS.Extensions\<close>.  The state is the slice
  \<open>extensions\<close> and the slice \<open>curves\<close>, which is declared before the loop and so keeps
  the groups of every \<open>supported_groups\<close> object seen so far.  The cases of the
  \<open>switch\<close> are tried in the order of the source.
\<close>

definition JSON_step :: "TLSExtension list \<times> uint16 list \<Rightarrow> ExtensionJSON \<Rightarrow> TLSExtension list \<times> uint16 list" where
  "JSON_step st ext =
     (let extensions = fst st; curves = snd st; name = ej_Name ext in
      if Contains name ''server_name'' then
        (if ej_ServerName ext \<noteq> [] then (extensions @ [SNIExtension (ej_ServerName ext)], curves)
         else (extensions, curves))
      else if Contains name ''supported_groups'' then
        (let curves = collect parseSupportedGroup 0 curves (ej_SupportedGroups ext)
         in (extensions @ [SupportedCurvesExtension curves], curves))
      else if Contains name ''ec_point_formats'' then
        (extensions @ [SupportedPointsExtension (collect parsePointFormat 255 [] (ej_EllipticCurvesPointFormats ext))], curves)
      else if Contains name ''application_layer_protocol_negotiation'' then
        (extensions @ [ALPNExtension (ej_Protocols ext)], curves)
      else if Contains name ''signature_algorithms'' then
        (extensions @ [SignatureAlgorithmsExtension (collect parseSignatureAlgorithm 0 [] (ej_SignatureAlgorithms ext))], curves)
      else if Contains name ''supported_versions'' then
        (extensions @ [SupportedVersionsExtension (collect parseTLSVersion 0 [] (ej_Versions ext))], curves)
      else if Contains name ''key_share'' then
        (if length curves > 0 then (extensions @ [KeyShareExtension []], curves)
         else (extensions, curves))
      else if Contains name ''psk_key_exchange_modes'' then
        (extensions @ [PSKKeyExchangeModesExtension [PskModeDHE]], curves)
      else if Contains name ''session_ticket'' then
        (extensions @ [SessionTicketExtension], curves)
      else if Contains name ''status_request'' then
        (extensions @ [StatusRequestExtension], curves)
      else if Contains name ''signed_certificate_timestamp'' then
        (extensions @ [SCTExtension], curves)
      else if Contains name ''extended_master_secret'' then
        (extensions @ [ExtendedMasterSecretExtension], curves)
      else if Contains name ''renegotiation_info'' \<or> Contains name ''extensionRenegotiationInfo'' then
        (extensions @ [RenegotiationInfoExtension RenegotiateOnceAsClient], curves)
      else if Contains name ''padding'' then
        (if ej_PaddingDataLength ext > 0 then (extensions @ [UtlsPaddingExtension BoringPaddingStyle], curves)
         else (extensions, curves))
      else (extensions, curves))"

definition BuildClientHelloSpecFromJSON :: "ClientHelloJSON \<Rightarrow> error + ClientHelloSpec" where
  "BuildClientHelloSpecFromJSON chJSON =
     Inr \<lparr> chs_CipherSuites = collect parseCipherSuiteName 0 [] (cj_Ciphers chJSON),
           chs_CompressionMethods = [0],
           chs_Extensions = fst (foldl JSON_step ([], []) (cj_Extensions chJSON)),
           chs_TLSVersMin = VersionTLS10,
           chs_TLSVersMax = VersionTLS13 \<rparr>"

section \<open>The builder from the older descriptor format (package ja3, parser.go and spec.go)\<close>

record ExtensionFile =
  ef_Name :: string
  ef_Data :: string
  ef_ServerName :: string
  ef_EllipticCurvesPointFormats :: "string list"
  ef_SupportedGroups :: "string list"
  ef_Protocols :: "string list"
  ef_SignatureAlgorithms :: "string list"
  ef_Versions :: "string list"
  ef_PSKKeyExchangeMode :: string
  ef_PaddingDataLength :: int
  ef_StatusRequest :: "unit option"
  ef_MasterSecretData :: string
  ef_ExtendedMasterSecretData :: string
  ef_SharedKeys :: "(string \<times> string) list list"

record ClientHelloSpecFile =
  cf_Ciphers :: "string list"
  cf_Extensions :: "ExtensionFile list"
  cf_JA3 :: string
  cf_JA3Hash :: string
  cf_JA4 :: string
  cf_TLSVersionRecord :: string
  cf_TLSVersionNegotiated :: string

definition ParseCipherName_cipherMap :: "(string \<times> uint16) list" where
  "ParseCipherName_cipherMap = [
     (''TLS_AES_128_GCM_SHA256'', 0x1301),
     (''TLS_AES_256_GCM_SHA384'', 0x1302),
     (''TLS_CHACHA20_POLY1305_SHA256'', 0x1303),
     (''TLS_ECDHE_ECDSA_WITH_AES_128_GCM_SHA256'', 0xc02b),
     (''TLS_ECDHE_RSA_WITH_AES_128_GCM_SHA256'', 0xc02f),
     (''TLS_ECDHE_ECDSA_WITH_AES_256_GCM_SHA384'', 0xc02c),
     (''TLS_ECDHE_RSA_WITH_AES_256_GCM_SHA384'', 0xc030),
     (''TLS_ECDHE_ECDSA_WITH_CHACHA20_POLY1305_SHA256'', 0xcca9),
     (''TLS_ECDHE_RSA_WITH_CHACHA20_POLY1305_SHA256'', 0xcca8),
     (''TLS_ECDHE_RSA_WITH_AES_128_CBC_SHA'', 0xc013),
     (''TLS_ECDHE_RSA_WITH_AES_256_CBC_SHA'', 0xc014),
     (''TLS_RSA_WITH_AES_128_GCM_SHA256'', 0x009c),
     (''TLS_RSA_WITH_AES_256_GCM_SHA384'', 0x009d),
     (''TLS_RSA_WITH_AES_128_CBC_SHA'', 0x002f),
     (''TLS_RSA_WITH_AES_256_CBC_SHA'', 0x0035),
     (''TLS_ECDHE_ECDSA_WITH_AES_128_CBC_SHA'', 0xc009),
     (''TLS_ECDHE_ECDSA_WITH_AES_256_CBC_SHA'', 0xc00a) ]"

definition ParseCipherName :: "string \<Rightarrow> error + uint16" where
  "ParseCipherName name =
     (case map_of ParseCipherName_cipherMap name of Some v \<Rightarrow> Inr v | None \<Rightarrow> Inl (UnknownCipher name))"

definition ParseSupportedGroup_groupMap :: "(string \<times> uint16) list" where
  "ParseSupportedGroup_groupMap = [
     (''X25519'', 29),
     (''P-256'', 23),
     (''P-384'', 24),
     (''P-521'', 25),
     (''secp256r1'', 23),
     (''secp384r1'', 24),
     (''secp521r1'', 25),
     (''x25519'', 29) ]"

definition ParseSupportedGroup :: "string \<Rightarrow> error + uint16" where
  "ParseSupportedGroup name =
     (let fromNumber =
        (case Index name (CHR ''('') of
           None \<Rightarrow> None
         | Some idx \<Rightarrow>
             if idx > 0 then
               (case Index name (CHR '')'') of
                  None \<Rightarrow> None
                | Some endIdx \<Rightarrow>
                    if endIdx > idx
                    then ParseUint (TrimSpace (take (endIdx - (idx + 1)) (drop (idx + 1) name))) 10 16
                    else None)
             else None)
      in case fromNumber of
           Some v \<Rightarrow> Inr (word_of_nat v)
         | None \<Rightarrow>
             (case map_of ParseSupportedGroup_groupMap (TrimSpace name) of
                Some v \<Rightarrow> Inr v
              | None \<Rightarrow> Inl (UnknownGroup name)))"

definition ParseSignatureAlgorithm_sigAlgMap :: "(string \<times> uint16) list" where
  "ParseSignatureAlgorithm_sigAlgMap = [
     (''rsa_pkcs1_sha256'', 0x0401),
     (''rsa_pkcs1_sha384'', 0x0501),
     (''rsa_pkcs1_sha512'', 0x0601),
     (''ecdsa_secp256r1_sha256'', 0x0403),
     (''ecdsa_secp384r1_sha384'', 0x0503),
     (''ecdsa_secp521r1_sha512'', 0x0603),
     (''rsa_pss_rsae_sha256'', 0x0804),
     (''rsa_pss_rsae_sha384'', 0x0805),
     (''rsa_pss_rsae_sha512'', 0x0806),
     (''ed25519'', 0x0807),
     (''rsa_pss_pss_sha256'', 0x0809),
     (''rsa_pss_pss_sha384'', 0x080a),
     (''rsa_pss_pss_sha512'', 0x080b) ]"

definition ParseSignatureAlgorithm :: "string \<Rightarrow> error + uint16" where
  "ParseSignatureAlgorithm name =
     (case map_of ParseSignatureAlgorithm_sigAlgMap name of
        Some v \<Rightarrow> Inr v
      | None \<Rightarrow> Inl (UnknownSignatureAlgorithm name))"

definition ParseTLSVersion_versionMap :: "(string \<times> uint16) list" where
  "ParseTLSVersion_versionMap = [
     (''TLS 1.0'', 0x0301),
     (''TLS 1.1'', 0x0302),
     (''TLS 1.2'', 0x0303),
     (''TLS 1.3'', 0x0304),
     (''SSL 3.0'', 0x0300) ]"

definition ParseTLSVersion :: "string \<Rightarrow> error + uint16" where
  "ParseTLSVersion version =
     (case map_of ParseTLSVersion_versionMap version of
        Some v \<Rightarrow> Inr v
      | None \<Rightarrow>
          (case ParseUint version 10 16 of
             Some v \<Rightarrow> Inr (word_of_nat v)
           | None \<Rightarrow> Inl (UnknownTLSVersion version)))"

text \<open>The loops of this builder keep the values whose parser returns no error.\<close>

definition collect_ok :: "('a \<Rightarrow> error + 'b) \<Rightarrow> 'b list \<Rightarrow> 'a list \<Rightarrow> 'b list" where
  "collect_ok parse acc names =
     foldl (\<lambda>acc n. case parse n of Inr v \<Rightarrow> acc @ [v] | Inl e \<Rightarrow> acc) acc names"

text \<open>
  The state of the loop over \<open>spec.TLS.Extensions\<close>: the extensions appended so far
  and the five collections declared before the loop.
\<close>

record file_loop =
  fl_extensions :: "TLSExtension list"
  fl_supportedGroups :: "uint16 list"
  fl_supportedPoints :: "uint8 list"
  fl_signatureAlgorithms :: "uint16 list"
  fl_supportedVersions :: "uint16 list"
  fl_alpnProtocols :: "string list"

text \<open>
  One turn of the loop.  \<open>Sscanf_02x\<close> stands for the call
  \<open>fmt.Sscanf(pointStr, "%02x", &point)\<close> of the Go library on a two-byte string: the
  value of \<open>point\<close> after the call (0 when nothing was scanned).
\<close>

definition File_step :: "(string \<Rightarrow> uint8) \<Rightarrow> string \<Rightarrow> file_loop \<Rightarrow> ExtensionFile \<Rightarrow> file_loop" where
  "File_step Sscanf_02x serverName st ext =
     (let name = ef_Name ext in
      if Contains name ''server_name'' then
        (if serverName \<noteq> [] then st\<lparr> fl_extensions := fl_extensions st @ [SNIExtension serverName] \<rparr> else st)
      else if Contains name ''supported_groups'' then
        st\<lparr> fl_supportedGroups := collect_ok ParseSupportedGroup (fl_supportedGroups st) (ef_SupportedGroups ext) \<rparr>
      else if Contains name ''ec_point_formats'' then
        st\<lparr> fl_supportedPoints :=
              foldl (\<lambda>acc pointStr.
                       let pointStr = TrimPrefix pointStr ''0x''
                       in if length pointStr = 2 then acc @ [Sscanf_02x pointStr] else acc)
                    (fl_supportedPoints st) (ef_EllipticCurvesPointFormats ext) \<rparr>
      else if Contains name ''signature_algorithms'' then
        st\<lparr> fl_signatureAlgorithms := collect_ok ParseSignatureAlgorithm (fl_signatureAlgorithms st) (ef_SignatureAlgorithms ext) \<rparr>
      else if Contains name ''application_layer_protocol_negotiation'' then
        st\<lparr> fl_alpnProtocols := ef_Protocols ext \<rparr>
      else if Contains name ''supported_versions'' then
        st\<lparr> fl_supportedVersions := collect_ok ParseTLSVersion (fl_supportedVersions st) (ef_Versions ext) \<rparr>
      else if Contains name ''key_share'' then st
      else if Contains name ''padding'' then
        (if ef_PaddingDataLength ext > 0
         then st\<lparr> fl_extensions := fl_extensions st @ [UtlsPaddingExtension BoringPaddingStyle] \<rparr> else st)
      else if Contains name ''session_ticket'' then
        st\<lparr> fl_extensions := fl_extensions st @ [SessionTicketExtension] \<rparr>
      else if Contains name ''extended_master_secret'' then
        st\<lparr> fl_extensions := fl_extensions st @ [ExtendedMasterSecretExtension] \<rparr>
      else if Contains name ''status_request'' then
        st\<lparr> fl_extensions := fl_extensions st @ [StatusRequestExtension] \<rparr>
      else if Contains name ''psk_key_exchange_modes'' then
        st\<lparr> fl_extensions := fl_extensions st @ [PSKKeyExchangeModesExtension [1]] \<rparr>
      else if Contains name ''signed_certificate_timestamp'' then
        st\<lparr> fl_extensions := fl_extensions st @ [SCTExtension] \<rparr>
      else if Contains name ''renegotiation_info'' then
        st\<lparr> fl_extensions := fl_extensions st @ [RenegotiationInfoExtension RenegotiateOnceAsClient] \<rparr>
      else st)"

text \<open>The part after the loop: the collections that are not empty are appended, in this order.\<close>

definition add_collected :: "file_loop \<Rightarrow> TLSExtension list" where
  "add_collected st =
     (let extensions = fl_extensions st;
          extensions = (if length (fl_supportedGroups st) > 0
                        then extensions @ [SupportedCurvesExtension (map (\<lambda>g. g) (fl_supportedGroups st))]
                        else extensions);
          extensions = (if length (fl_supportedPoints st) > 0
                        then extensions @ [SupportedPointsExtension (fl_supportedPoints st)]
                        else extensions);
          extensions = (if length (fl_signatureAlgorithms st) > 0
                        then extensions @ [SignatureAlgorithmsExtension (fl_signatureAlgorithms st)]
                        else extensions);
          extensions = (if length (fl_supportedVersions st) > 0
                        then extensions @ [SupportedVersionsExtension (fl_supportedVersions st)]
                        else extensions);
          extensions = (if length (fl_alpnProtocols st) > 0
                        then extensions @ [ALPNExtension (fl_alpnProtocols st)]
                        else extensions)
      in extensions)"

definition File_loop :: "(string \<Rightarrow> uint8) \<Rightarrow> string \<Rightarrow> ExtensionFile list \<Rightarrow> file_loop" where
  "File_loop Sscanf_02x serverName exts =
     foldl (File_step Sscanf_02x serverName)
       \<lparr> fl_extensions = [], fl_supportedGroups = [], fl_supportedPoints = [],
         fl_signatureAlgorithms = [], fl_supportedVersions = [], fl_alpnProtocols = [] \<rparr> exts"

definition BuildClientHelloSpecFromFile ::
  "(string \<Rightarrow> uint8) \<Rightarrow> ClientHelloSpecFile option \<Rightarrow> string \<Rightarrow> error + ClientHelloSpec" where
  "BuildClientHelloSpecFromFile Sscanf_02x spec serverName =
     (case spec of
        None \<Rightarrow> Inl SpecFileNil
      | Some f \<Rightarrow>
          let version = (if cf_TLSVersionRecord f \<noteq> []
                         then (case ParseTLSVersion (cf_TLSVersionRecord f) of
                                 Inr v \<Rightarrow> v | Inl e \<Rightarrow> 0)
                         else 0)
          in Inr \<lparr> chs_CipherSuites = collect_ok ParseCipherName [] (cf_Ciphers f),
                   chs_CompressionMethods = [],
                   chs_Extensions = add_collected (File_loop Sscanf_02x serverName (cf_Extensions f)),
                   chs_TLSVersMin = version,
                   chs_TLSVersMax = version \<rparr>)"

text \<open>
  The case of each \<open>switch\<close> an extension name falls in (the first one that matches),
  and the case an extension value belongs to.
\<close>

datatype ext_case =
    server_name | supported_groups | ec_point_formats | signature_algorithms
  | application_layer_protocol_negotiation | supported_versions | key_share | padding
  | session_ticket | extended_master_secret | status_request | psk_key_exchange_modes
  | signed_certificate_timestamp | renegotiation_info | no_case

definition JSON_case :: "string \<Rightarrow> ext_case" where
  "JSON_case name =
     (if Contains name ''server_name'' then server_name
      else if Contains name ''supported_groups'' then supported_groups
      else if Contains name ''ec_point_formats'' then ec_point_formats
      else if Contains name ''application_layer_protocol_negotiation'' then application_layer_protocol_negotiation
      else if Contains name ''signature_algorithms'' then signature_algorithms
      else if Contains name ''supported_versions'' then supported_versions
      else if Contains name ''key_share'' then key_share
      else if Contains name ''psk_key_exchange_modes'' then psk_key_exchange_modes
      else if Contains name ''session_ticket'' then session_ticket
      else if Contains name ''status_request'' then status_request
      else if Contains name ''signed_certificate_timestamp'' then signed_certificate_timestamp
      else if Contains name ''extended_master_secret'' then extended_master_secret
      else if Contains name ''renegotiation_info'' \<or> Contains name ''extensionRenegotiationInfo'' then renegotiation_info
      else if Contains name ''padding'' then padding
      else no_case)"

definition File_case :: "string \<Rightarrow> ext_case" where
  "File_case name =
     (if Contains name ''server_name'' then server_name
      else if Contains name ''supported_groups'' then supported_groups
      else if Contains name ''ec_point_formats'' then ec_point_formats
      else if Contains name ''signature_algorithms'' then signature_algorithms
      else if Contains name ''application_layer_protocol_negotiation'' then application_layer_protocol_negotiation
      else if Contains name ''supported_versions'' then supported_versions
      else if Contains name ''key_share'' then key_share
      else if Contains name ''padding'' then padding
      else if Contains name ''session_ticket'' then session_ticket
      else if Contains name ''extended_master_secret'' then extended_master_secret
      else if Contains name ''status_request'' then status_request
      else if Contains name ''psk_key_exchange_modes'' then psk_key_exchange_modes
      else if Contains name ''signed_certificate_timestamp'' then signed_certificate_timestamp
      else if Contains name ''renegotiation_info'' then renegotiation_info
      else no_case)"

fun case_of :: "TLSExtension \<Rightarrow> ext_case" where
  "case_of (SNIExtension n) = server_name"
| "case_of StatusRequestExtension = status_request"
| "case_of (SupportedCurvesExtension cs) = supported_groups"
| "case_of (SupportedPointsExtension ps) = ec_point_formats"
| "case_of (SignatureAlgorithmsExtension ss) = signature_algorithms"
| "case_of (ALPNExtension ps) = application_layer_protocol_negotiation"
| "case_of SCTExtension = signed_certificate_timestamp"
| "case_of (UtlsPaddingExtension st) = padding"
| "case_of ExtendedMasterSecretExtension = extended_master_secret"
| "case_of (GenericExtension i d) = no_case"
| "case_of SessionTicketExtension = session_ticket"
| "case_of (SupportedVersionsExtension vs) = supported_versions"
| "case_of (PSKKeyExchangeModesExtension ms) = psk_key_exchange_modes"
| "case_of (KeyShareExtension ks) = key_share"
| "case_of (RenegotiationInfoExtension r) = renegotiation_info"

text \<open>A descriptor in the older format whose array lists \<open>supported_groups\<close> before \<open>session_ticket\<close>.\<close>

definition empty_ExtensionFile :: ExtensionFile where
  "empty_ExtensionFile =
     \<lparr> ef_Name = [], ef_Data = [], ef_ServerName = [], ef_EllipticCurvesPointFormats = [],
       ef_SupportedGroups = [], ef_Protocols = [], ef_SignatureAlgorithms = [], ef_Versions = [],
       ef_PSKKeyExchangeMode = [], ef_PaddingDataLength = 0, ef_StatusRequest = None,
       ef_MasterSecretData = [], ef_ExtendedMasterSecretData = [], ef_SharedKeys = [] \<rparr>"

definition groups_then_ticket :: ClientHelloSpecFile where
  "groups_then_ticket =
     \<lparr> cf_Ciphers = [''TLS_AES_128_GCM_SHA256''],
       cf_Extensions =
         [empty_ExtensionFile\<lparr> ef_Name := ''supported_groups'', ef_SupportedGroups := [''X25519 (29)''] \<rparr>,
          empty_ExtensionFile\<lparr> ef_Name := ''session_ticket'' \<rparr>],
       cf_JA3 = [], cf_JA3Hash = [], cf_JA4 = [],
       cf_TLSVersionRecord = [], cf_TLSVersionNegotiated = [] \<rparr>"

definition empty_ExtensionJSON :: ExtensionJSON where
  "empty_ExtensionJSON =
     \<lparr> ej_Name = [], ej_Data = [], ej_ServerName = [], ej_EllipticCurvesPointFormats = [],
       ej_SupportedGroups = [], ej_Protocols = [], ej_Versions = [], ej_SignatureAlgorithms = [],
       ej_StatusRequest = None, ej_PSKKeyExchangeMode = [], ej_SharedKeys = [],
       ej_PaddingDataLength = 0 \<rparr>"

definition groups_then_ticket_JSON :: ClientHelloJSON where
  "groups_then_ticket_JSON =
     \<lparr> cj_Ciphers = [''TLS_AES_128_GCM_SHA256''],
       cj_Extensions =
         [empty_ExtensionJSON\<lparr> ej_Name := ''supported_groups (10)'', ej_SupportedGroups := [''X25519 (29)''] \<rparr>,
          empty_ExtensionJSON\<lparr> ej_Name := ''session_ticket (35)'' \<rparr>],
       cj_JA3 = [], cj_JA3Hash = [], cj_JA4 = [], cj_HTTPVersion = [], cj_UserAgent = [] \<rparr>"

section \<open>The fingerprinted TLS dialers (packages fingerprint and ja3, dialer.go)\<close>

text \<open>
  What the dialers take from outside the repository is gathered in a record of the
  world: the clock, the network, the file system, the state of the global spec cache
  and the uTLS engine.  A connection is named by a number; a library error is its
  message.  Every call into the world is written to a trace, in the order of the calls.
\<close>

type_synonym conn = nat

datatype ClientHelloID =
    HelloUnset | HelloCustom | HelloChrome_Auto | HelloFirefox_Auto | HelloSafari_Auto
  | HelloEdge_Auto | HelloIOS_Auto | HelloAndroid_11_OkHttp

record TLSConfig =
  tc_InsecureSkipVerify :: bool
  tc_RootCAs :: "string list"
  tc_MinVersion :: uint16
  tc_MaxVersion :: uint16

record TLSDialerConfig =
  cfg_JA3 :: string
  cfg_ClientHelloSpecFile :: string
  cfg_BrowserProfile :: string
  cfg_ServerName :: string
  cfg_ALPNProtocols :: "string list"
  cfg_TLSConfig :: "TLSConfig option"

record utls_Config =
  uc_ServerName :: string
  uc_InsecureSkipVerify :: bool
  uc_NextProtos :: "string list"
  uc_RootCAs :: "string list"
  uc_MinVersion :: uint16
  uc_MaxVersion :: uint16

text \<open>The value \<open>utls.UClient(rawConn, utlsConfig, clientHelloID)\<close>, with the preset applied to it.\<close>

record UConn =
  u_conn :: conn
  u_config :: utls_Config
  u_helloID :: ClientHelloID
  u_spec :: "ClientHelloSpec option"

text \<open>A context: its deadline, if it has one, as a point of time.\<close>

record Context =
  ctx_Deadline :: "int option"

datatype io_event =
    EvDial string string
  | EvSetDeadline conn int
  | EvClose conn
  | EvStat string
  | EvReadFile string
  | EvCacheGet string
  | EvCacheSet string
  | EvHandshake conn

record World =
  w_now :: int
  w_DialContext :: "Context \<Rightarrow> string \<Rightarrow> string \<Rightarrow> string + conn"
  w_SetDeadline :: "conn \<Rightarrow> int \<Rightarrow> string option"
  w_CacheKeyForFile :: "string \<Rightarrow> string + string"
  w_cache_Get :: "string \<Rightarrow> ClientHelloSpec option"
  w_ReadClientHelloJSON :: "string \<Rightarrow> string + ClientHelloJSON"
  w_ReadClientHelloSpecFile :: "string \<Rightarrow> string + ClientHelloSpecFile"
  w_Sscanf_02x :: "string \<Rightarrow> uint8"
  w_ApplyPreset :: "UConn \<Rightarrow> ClientHelloSpec \<Rightarrow> string option"
  w_HandshakeContext :: "Context \<Rightarrow> UConn \<Rightarrow> string option"

text \<open>
  \<open>ParseClientHelloJSON\<close> of package fingerprint: the cache is asked first when the
  key of the file can be computed (\<open>os.Stat\<close>); on a miss the file is read and
  decoded (\<open>os.ReadFile\<close>, \<open>json.Unmarshal\<close>), the spec is built and stored.
\<close>

definition ParseClientHelloJSON :: "World \<Rightarrow> string \<Rightarrow> (string + ClientHelloSpec) \<times> io_event list" where
  "ParseClientHelloJSON W filePath =
     (let (cacheKey, hit, t1) =
            (case w_CacheKeyForFile W filePath of
               Inl e \<Rightarrow> ([], None, [EvStat filePath])
             | Inr k \<Rightarrow> (k, w_cache_Get W k, [EvStat filePath, EvCacheGet k]))
      in case hit of
           Some spec \<Rightarrow> (Inr spec, t1)
         | None \<Rightarrow>
             (case w_ReadClientHelloJSON W filePath of
                Inl e \<Rightarrow> (Inl e, t1 @ [EvReadFile filePath])
              | Inr chJSON \<Rightarrow>
                  (case BuildClientHelloSpecFromJSON chJSON of
                     Inl e \<Rightarrow> (Inl ''build'', t1 @ [EvReadFile filePath])
                   | Inr spec \<Rightarrow>
                       (Inr spec,
                        t1 @ [EvReadFile filePath] @ (if cacheKey \<noteq> [] then [EvCacheSet cacheKey] else [])))))"

text \<open>
  \<open>strings.ToLower\<close>.  A string of ASCII bytes only is lowered byte by byte (the
  letters A to Z).  Any other string goes to \<open>strings.Map(unicode.ToLower, s)\<close>, which
  works with the case tables of Unicode (U+0130 gives i, U+212A gives k); that function
  of the Go library is the parameter \<open>MapToLower\<close>.
\<close>

definition ToLower :: "(string \<Rightarrow> string) \<Rightarrow> string \<Rightarrow> string" where
  "ToLower MapToLower s =
     (if list_all (\<lambda>c. (of_char c :: nat) < 0x80) s
      then map (\<lambda>c. if 65 \<le> (of_char c :: nat) \<and> (of_char c :: nat) \<le> 90
                      then char_of ((of_char c :: nat) + 32) else c) s
      else MapToLower s)"

text \<open>\<open>GetUTLSClientHelloID\<close> (package ja3, spec.go).\<close>

definition GetUTLSClientHelloID :: "(string \<Rightarrow> string) \<Rightarrow> string \<Rightarrow> ClientHelloID" where
  "GetUTLSClientHelloID MapToLower profile =
     (let profile = ToLower MapToLower profile in
      if profile = ''chrome'' \<or> profile = ''chrome_auto'' then HelloChrome_Auto
      else if profile = ''firefox'' \<or> profile = ''firefox_auto'' then HelloFirefox_Auto
      else if profile = ''safari'' \<or> profile = ''safari_auto'' then HelloSafari_Auto
      else if profile = ''edge'' \<or> profile = ''edge_auto'' then HelloEdge_Auto
      else if profile = ''ios'' \<or> profile = ''ios_auto'' then HelloIOS_Auto
      else if profile = ''android'' \<or> profile = ''android_auto'' then HelloAndroid_11_OkHttp
      else HelloChrome_Auto)"

text \<open>The block "Build utls config".\<close>

definition build_utls_config :: "TLSDialerConfig \<Rightarrow> utls_Config" where
  "build_utls_config config =
     (let utlsConfig = \<lparr> uc_ServerName = cfg_ServerName config,
                          uc_InsecureSkipVerify =
                            (case cfg_TLSConfig config of Some tc \<Rightarrow> tc_InsecureSkipVerify tc | None \<Rightarrow> False),
                          uc_NextProtos = cfg_ALPNProtocols config,
                          uc_RootCAs = [], uc_MinVersion = 0, uc_MaxVersion = 0 \<rparr>
      in case cfg_TLSConfig config of
           Some tc \<Rightarrow> utlsConfig\<lparr> uc_RootCAs := tc_RootCAs tc, uc_MinVersion := tc_MinVersion tc,
                                     uc_MaxVersion := tc_MaxVersion tc \<rparr>
         | None \<Rightarrow> utlsConfig)"

text \<open>
  The block "Determine how to build ClientHello", which all four entry points share:
  the spec file first, then the JA3 string, then the browser profile, then the
  default.  \<open>parseJSON\<close> is the reader of the tls.peet.ws format and \<open>browserJA3\<close> the
  lookup of a profile's JA3; package fingerprint passes its own functions, and for
  package ja3, whose two functions of these names are not among the sources, they are
  parameters.  \<open>MapToLower\<close> is the library function that \<open>strings.ToLower\<close> needs.
  The result is the error of the block or the pair
  \<open>(clientHelloID, customSpec)\<close>, and the trace of the block.
\<close>

definition select_hello ::
  "World \<Rightarrow> (string \<Rightarrow> string) \<Rightarrow> (string \<Rightarrow> (string + ClientHelloSpec) \<times> io_event list)
     \<Rightarrow> (string \<Rightarrow> string) \<Rightarrow> TLSDialerConfig
     \<Rightarrow> (error + ClientHelloID \<times> ClientHelloSpec option) \<times> io_event list" where
  "select_hello W MapToLower parseJSON browserJA3 config =
     (if cfg_ClientHelloSpecFile config \<noteq> [] then
        (case parseJSON (cfg_ClientHelloSpecFile config) of
           (Inr customSpec, t) \<Rightarrow> (Inr (HelloCustom, Some customSpec), t)
         | (Inl err, t) \<Rightarrow>
             (case w_ReadClientHelloSpecFile W (cfg_ClientHelloSpecFile config) of
                Inl err2 \<Rightarrow> (Inl (SpecLoadFailed err err2), t @ [EvReadFile (cfg_ClientHelloSpecFile config)])
              | Inr specFile \<Rightarrow>
                  (case BuildClientHelloSpecFromFile (w_Sscanf_02x W) (Some specFile) (cfg_ServerName config) of
                     Inl e \<Rightarrow> (Inl (SpecFileBuildFailed e), t @ [EvReadFile (cfg_ClientHelloSpecFile config)])
                   | Inr customSpec \<Rightarrow>
                       (Inr (HelloCustom, Some customSpec), t @ [EvReadFile (cfg_ClientHelloSpecFile config)]))))
      else if cfg_JA3 config \<noteq> [] then
        (case ParseJA3 (cfg_JA3 config) of
           Inl e \<Rightarrow> (Inl (JA3ParseFailed e), [])
         | Inr ja3Data \<Rightarrow>
             (case BuildClientHelloSpecFromJA3 (Some ja3Data) (cfg_ServerName config) of
                Inl e \<Rightarrow> (Inl (JA3BuildFailed e), [])
              | Inr customSpec \<Rightarrow> (Inr (HelloCustom, Some customSpec), [])))
      else if cfg_BrowserProfile config \<noteq> [] then
        (let ja3String = browserJA3 (cfg_BrowserProfile config) in
         if ja3String \<noteq> [] then
           (case ParseJA3 ja3String of
              Inl e \<Rightarrow> (Inl (ProfileParseFailed (cfg_BrowserProfile config) e), [])
            | Inr ja3Data \<Rightarrow>
                (case BuildClientHelloSpecFromJA3 (Some ja3Data) (cfg_ServerName config) of
                   Inl e \<Rightarrow> (Inl (ProfileBuildFailed (cfg_BrowserProfile config) e), [])
                 | Inr customSpec \<Rightarrow> (Inr (HelloCustom, Some customSpec), [])))
         else (Inr (GetUTLSClientHelloID MapToLower (cfg_BrowserProfile config), None), []))
      else (Inr (HelloChrome_Auto, None), []))"

text \<open>
  The end of every entry point: create the uTLS connection, apply the custom spec if
  there is one, run the handshake.  The handshake is where the engine reads from and
  writes to the raw stream.
\<close>

definition handshake_steps ::
  "World \<Rightarrow> Context \<Rightarrow> conn \<Rightarrow> utls_Config \<Rightarrow> ClientHelloID \<times> ClientHelloSpec option
     \<Rightarrow> (error + UConn) \<times> io_event list" where
  "handshake_steps W ctx rawConn utlsConfig sel =
     (let uconn = \<lparr> u_conn = rawConn, u_config = utlsConfig, u_helloID = fst sel, u_spec = None \<rparr> in
      case (case snd sel of
              None \<Rightarrow> Inr uconn
            | Some customSpec \<Rightarrow>
                (case w_ApplyPreset W uconn customSpec of
                   Some e \<Rightarrow> Inl (ApplyPresetFailed e)
                 | None \<Rightarrow> Inr (uconn\<lparr> u_spec := Some customSpec \<rparr>))) of
        Inl e \<Rightarrow> (Inl e, [])
      | Inr uconn \<Rightarrow>
          (case w_HandshakeContext W ctx uconn of
             Some e \<Rightarrow> (Inl (HandshakeFailed e), [EvHandshake rawConn])
           | None \<Rightarrow> (Inr uconn, [EvHandshake rawConn])))"

text \<open>Closing the raw connection on a failure, as \<open>DialTLSWithFingerprint\<close> does.\<close>

definition close_on_error :: "conn \<Rightarrow> (error + 'a) \<times> io_event list \<Rightarrow> (error + 'a) \<times> io_event list" where
  "close_on_error rawConn r = (case fst r of Inl e \<Rightarrow> (fst r, snd r @ [EvClose rawConn]) | Inr v \<Rightarrow> r)"

text \<open>
  Package fingerprint.  Both entry points test the deadline of the context right
  after the test of the configuration: \<open>time.Until(deadline) <= 0\<close> returns
  \<open>context.DeadlineExceeded\<close>.
\<close>

definition fingerprint_UpgradeConnWithFingerprint ::
  "World \<Rightarrow> (string \<Rightarrow> string) \<Rightarrow> Context \<Rightarrow> conn \<Rightarrow> TLSDialerConfig option
     \<Rightarrow> (error + UConn) \<times> io_event list" where
  "fingerprint_UpgradeConnWithFingerprint W MapToLower ctx rawConn config =
     (case config of
        None \<Rightarrow> (Inl ConfigNil, [])
      | Some config \<Rightarrow>
          (case (case ctx_Deadline ctx of
                   None \<Rightarrow> (None, [])
                 | Some deadline \<Rightarrow>
                     if deadline - w_now W \<le> 0 then (Some DeadlineExceeded, [])
                     else (case w_SetDeadline W rawConn deadline of
                             Some e \<Rightarrow> (Some (SetDeadlineFailed e), [EvSetDeadline rawConn deadline])
                           | None \<Rightarrow> (None, [EvSetDeadline rawConn deadline]))) of
             (Some e, t0) \<Rightarrow> (Inl e, t0)
           | (None, t0) \<Rightarrow>
               (case select_hello W MapToLower (ParseClientHelloJSON W) GetBrowserJA3 config of
                  (Inl e, t1) \<Rightarrow> (Inl e, t0 @ t1)
                | (Inr sel, t1) \<Rightarrow>
                    (case handshake_steps W ctx rawConn (build_utls_config config) sel of
                       (r, t2) \<Rightarrow> (r, t0 @ t1 @ t2)))))"

definition fingerprint_DialTLSWithFingerprint ::
  "World \<Rightarrow> (string \<Rightarrow> string) \<Rightarrow> Context \<Rightarrow> string \<Rightarrow> string \<Rightarrow> TLSDialerConfig option
     \<Rightarrow> (error + UConn) \<times> io_event list" where
  "fingerprint_DialTLSWithFingerprint W MapToLower ctx network addr config =
     (case config of
        None \<Rightarrow> (Inl ConfigNil, [])
      | Some config \<Rightarrow>
          if (case ctx_Deadline ctx of Some deadline \<Rightarrow> deadline - w_now W \<le> 0 | None \<Rightarrow> False)
          then (Inl DeadlineExceeded, [])
          else
            (case w_DialContext W ctx network addr of
               Inl e \<Rightarrow> (Inl (DialFailed e), [EvDial network addr])
             | Inr rawConn \<Rightarrow>
                 (case (case ctx_Deadline ctx of
                          None \<Rightarrow> (None, [])
                        | Some deadline \<Rightarrow>
                            (case w_SetDeadline W rawConn deadline of
                               Some e \<Rightarrow> (Some (SetDeadlineFailed e), [EvSetDeadline rawConn deadline, EvClose rawConn])
                             | None \<Rightarrow> (None, [EvSetDeadline rawConn deadline]))) of
                    (Some e, t0) \<Rightarrow> (Inl e, EvDial network addr # t0)
                  | (None, t0) \<Rightarrow>
                      (case select_hello W MapToLower (ParseClientHelloJSON W) GetBrowserJA3 config of
                         (Inl e, t1) \<Rightarrow> (Inl e, EvDial network addr # t0 @ t1 @ [EvClose rawConn])
                       | (Inr sel, t1) \<Rightarrow>
                           (case close_on_error rawConn
                                   (handshake_steps W ctx rawConn (build_utls_config config) sel) of
                              (r, t2) \<Rightarrow> (r, EvDial network addr # t0 @ t1 @ t2))))))"

text \<open>
  Package ja3.  The same two entry points, in the file dialer.go of that package:
  no test of the deadline and no \<open>SetDeadline\<close>; the context only goes to
  \<open>DialContext\<close> and to \<open>HandshakeContext\<close>.
\<close>

definition ja3_UpgradeConnWithFingerprint ::
  "World \<Rightarrow> (string \<Rightarrow> string) \<Rightarrow> (string \<Rightarrow> (string + ClientHelloSpec) \<times> io_event list)
     \<Rightarrow> (string \<Rightarrow> string) \<Rightarrow> Context \<Rightarrow> conn \<Rightarrow> TLSDialerConfig option
     \<Rightarrow> (error + UConn) \<times> io_event list" where
  "ja3_UpgradeConnWithFingerprint W MapToLower parseJSON browserJA3 ctx rawConn config =
     (case config of
        None \<Rightarrow> (Inl ConfigNil, [])
      | Some config \<Rightarrow>
          (case select_hello W MapToLower parseJSON browserJA3 config of
             (Inl e, t1) \<Rightarrow> (Inl e, t1)
           | (Inr sel, t1) \<Rightarrow>
               (case handshake_steps W ctx rawConn (build_utls_config config) sel of
                  (r, t2) \<Rightarrow> (r, t1 @ t2))))"

definition ja3_DialTLSWithFingerprint ::
  "World \<Rightarrow> (string \<Rightarrow> string) \<Rightarrow> (string \<Rightarrow> (string + ClientHelloSpec) \<times> io_event list)
     \<Rightarrow> (string \<Rightarrow> string) \<Rightarrow> Context \<Rightarrow> string \<Rightarrow> string \<Rightarrow> TLSDialerConfig option
     \<Rightarrow> (error + UConn) \<times> io_event list" where
  "ja3_DialTLSWithFingerprint W MapToLower parseJSON browserJA3 ctx network addr config =
     (case config of
        None \<Rightarrow> (Inl ConfigNil, [])
      | Some config \<Rightarrow>
          (case w_DialContext W ctx network addr of
             Inl e \<Rightarrow> (Inl (DialFailed e), [EvDial network addr])
           | Inr rawConn \<Rightarrow>
               (case select_hello W MapToLower parseJSON browserJA3 config of
                  (Inl e, t1) \<Rightarrow> (Inl e, EvDial network addr # t1 @ [EvClose rawConn])
                | (Inr sel, t1) \<Rightarrow>
                    (case close_on_error rawConn
                            (handshake_steps W ctx rawConn (build_utls_config config) sel) of
                       (r, t2) \<Rightarrow> (r, EvDial network addr # t1 @ t2)))))"

text \<open>
  A world for concrete runs.  The clock stands at 1000.  The library refuses a context
  whose deadline is past: \<open>DialContext\<close> opens no connection and returns a timeout, and
  \<open>HandshakeContext\<close> returns \<open>context deadline exceeded\<close>; with a live context, dialing
  opens connection 7 and the handshake succeeds.  No spec file can be read, and the
  engine accepts a preset.  Then a context whose deadline (999) is already past, and a
  configuration with a JA3 string.
\<close>

definition example_world :: World where
  "example_world =
     \<lparr> w_now = 1000,
       w_DialContext = (\<lambda>ctx network addr.
          case ctx_Deadline ctx of
            Some deadline \<Rightarrow> if deadline \<le> 1000 then Inl ''i/o timeout'' else Inr 7
          | None \<Rightarrow> Inr 7),
       w_SetDeadline = (\<lambda>c d. None),
       w_CacheKeyForFile = (\<lambda>p. Inl ''no such file''),
       w_cache_Get = (\<lambda>k. None),
       w_ReadClientHelloJSON = (\<lambda>p. Inl ''no such file''),
       w_ReadClientHelloSpecFile = (\<lambda>p. Inl ''no such file''),
       w_Sscanf_02x = (\<lambda>s. 0),
       w_ApplyPreset = (\<lambda>u s. None),
       w_HandshakeContext = (\<lambda>ctx u.
          case ctx_Deadline ctx of
            Some deadline \<Rightarrow> if deadline \<le> 1000 then Some ''context deadline exceeded'' else None
          | None \<Rightarrow> None) \<rparr>"

definition expired_context :: Context where
  "expired_context = \<lparr> ctx_Deadline = Some 999 \<rparr>"

definition example_config :: TLSDialerConfig where
  "example_config =
     \<lparr> cfg_JA3 = ''771,4865,0-23,29,0'', cfg_ClientHelloSpecFile = [], cfg_BrowserProfile = [],
       cfg_ServerName = ''example.com'', cfg_ALPNProtocols = [''h2'', ''http/1.1''],
       cfg_TLSConfig = None \<rparr>"
section \<open>Facts about the formatting and parsing functions\<close>

lemma digits_nonempty: "digits b n \<noteq> []"
  by (subst digits.simps) simp

lemma digits_length_le: "2 \<le> b \<Longrightarrow> 0 < k \<Longrightarrow> n < b ^ k \<Longrightarrow> length (digits b n) \<le> k"
proof (induction k arbitrary: n)
  case 0
  then show ?case by simp
next
  case (Suc k)
  show ?case
  proof (cases "n < b")
    case True
    then show ?thesis by (simp add: digits.simps)
  next
    case False
    with Suc.prems have kpos: "0 < k"
      by (cases k) auto
    from Suc.prems have "n div b < b ^ k"
      by (simp add: less_mult_imp_div_less mult.commute)
    with Suc.IH [OF \<open>2 \<le> b\<close> kpos] have "length (digits b (n div b)) \<le> k" by simp
    with False Suc.prems show ?thesis by (subst digits.simps) simp
  qed
qed

lemma digit_char_lower_hex: "d < 16 \<Longrightarrow> digit_char d \<in> set hex_alphabet"
  unfolding digit_char_def by (rule nth_mem) (simp add: hex_alphabet_def)

lemma digits_lower_hex: "2 \<le> b \<Longrightarrow> b \<le> 16 \<Longrightarrow> set (digits b n) \<subseteq> set hex_alphabet"
proof (induction b n rule: digits.induct)
  case (1 b n)
  show ?case
  proof (cases "n < b")
    case True
    with 1 have "n < 16" by simp
    then show ?thesis using True digit_char_lower_hex [of n] by (subst digits.simps) simp
  next
    case False
    have "n mod b < b" using 1(2) by simp
    then have "n mod b < 16" using 1(3) by simp
    then show ?thesis using False 1 digit_char_lower_hex [of "n mod b"]
      by (subst digits.simps) simp
  qed
qed

lemma zero_in_hex_alphabet: "CHR ''0'' \<in> set hex_alphabet"
  by (simp add: hex_alphabet_def)

lemma pad0_length: "length s \<le> w \<Longrightarrow> length (pad0 w s) = w"
  by (simp add: pad0_def)

lemma pad0_set: "set (pad0 w s) \<subseteq> insert (CHR ''0'') (set s)"
  by (auto simp: pad0_def)

lemma Sprintf_04x_length: "length (Sprintf_04x v) = 4"
proof -
  have "unat v < 16 ^ 4" using unsigned_less [of v, where 'a=nat] by simp
  then have "length (digits 16 (unat v)) \<le> 4" by (intro digits_length_le) simp_all
  then show ?thesis by (simp add: Sprintf_04x_def pad0_length)
qed

lemma pad0_lower_hex:
  assumes "set s \<subseteq> set hex_alphabet"
  shows "set (pad0 w s) \<subseteq> set hex_alphabet"
proof -
  have "set (pad0 w s) \<subseteq> insert (CHR ''0'') (set s)" by (rule pad0_set)
  also have "\<dots> \<subseteq> set hex_alphabet" using assms zero_in_hex_alphabet by simp
  finally show ?thesis .
qed

lemma Sprintf_04x_lower_hex: "set (Sprintf_04x v) \<subseteq> set hex_alphabet"
  unfolding Sprintf_04x_def by (rule pad0_lower_hex) (simp add: digits_lower_hex)

lemma Sprintf_02x_length: "n \<le> 255 \<Longrightarrow> length (Sprintf_02x n) = 2"
proof -
  assume "n \<le> 255"
  then have "n < 16 ^ 2" by simp
  then have "length (digits 16 n) \<le> 2" by (intro digits_length_le) simp_all
  then show ?thesis by (simp add: Sprintf_02x_def pad0_length)
qed

lemma Sprintf_02x_lower_hex: "set (Sprintf_02x n) \<subseteq> set hex_alphabet"
  unfolding Sprintf_02x_def by (rule pad0_lower_hex) (simp add: digits_lower_hex)

lemma digit_val_digit_char_all: "\<forall>d\<in>set [0..<16]. digit_val (digit_char d) = Some d"
  by code_simp

lemma digit_val_digit_char: "d < 16 \<Longrightarrow> digit_val (digit_char d) = Some d"
  using digit_val_digit_char_all by simp

lemma ParseUint_loop_append:
  "ParseUint_loop b (xs @ ys) acc =
     (case ParseUint_loop b xs acc of None \<Rightarrow> None | Some m \<Rightarrow> ParseUint_loop b ys m)"
  by (induction xs arbitrary: acc) (simp_all split: option.splits)

lemma ParseUint_loop_digits:
  "2 \<le> b \<Longrightarrow> b \<le> 16 \<Longrightarrow>
   ParseUint_loop b (digits b n) acc = Some (acc * b ^ length (digits b n) + n)"
proof (induction b n arbitrary: acc rule: digits.induct)
  case (1 b n)
  show ?case
  proof (cases "n < b")
    case True
    with 1(2,3) have "n < 16" by simp
    with True 1(2) show ?thesis
      by (subst (1 2) digits.simps) (simp add: digit_val_digit_char)
  next
    case False
    have m: "n mod b < b" using 1(2) by simp
    then have m16: "n mod b < 16" using 1(3) by simp
    have d: "digits b n = digits b (n div b) @ [digit_char (n mod b)]"
      using False 1(2) by (subst digits.simps) simp
    have ih: "ParseUint_loop b (digits b (n div b)) acc =
                Some (acc * b ^ length (digits b (n div b)) + n div b)"
      using 1(1) [of acc] False 1(2,3) by simp
    show ?thesis
      unfolding d ParseUint_loop_append ih
      using m m16 by (simp add: digit_val_digit_char algebra_simps)
  qed
qed

lemma ParseUint_loop_zeros:
  "0 < b \<Longrightarrow> ParseUint_loop b (replicate k (CHR ''0'') @ s) 0 = ParseUint_loop b s 0"
  by (induction k) (simp_all add: digit_val_def)

lemma ParseUint_Sprintf_02x: "n \<le> 255 \<Longrightarrow> ParseUint (Sprintf_02x n) 16 8 = Some n"
  unfolding ParseUint_def Sprintf_02x_def pad0_def
  by (simp add: ParseUint_loop_zeros ParseUint_loop_digits digits_nonempty)

lemma foldl_snoc_map: "foldl (\<lambda>acc x. acc @ [f x]) acc xs = acc @ map f xs"
  by (induction xs arbitrary: acc) simp_all

lemma foldl_snoc_filter:
  "foldl (\<lambda>acc x. if P x then acc @ [x] else acc) acc xs = acc @ filter P xs"
  by (induction xs arbitrary: acc) simp_all

section \<open>JA4: part a, the parser and the hashes\<close>

lemma formatTLSVersion_length: "length (formatTLSVersion v) = 2"
  by (simp add: formatTLSVersion_def)

lemma determineSNIType_length: "length (determineSNIType n) = 1"
  by (simp add: determineSNIType_def split: prod.splits)

lemma generateCipherHash_eq:
  "generateCipherHash H cs = take 12 (H (Join (map Sprintf_04x cs) '',''))"
  by (cases cs) (simp_all add: generateCipherHash_def foldl_snoc_map Let_def)

lemma generateExtensionHash_eq:
  "generateExtensionHash H es =
     take 12 (H (Join (map Sprintf_04x (sort (filter (\<lambda>e. e \<noteq> 0 \<and> e \<noteq> 16) es))) '',''))"
proof -
  let ?f = "filter (\<lambda>e. e \<noteq> 0 \<and> e \<noteq> 16) es"
  have loop1: "foldl (\<lambda>filtered ext. if ext \<noteq> 0 \<and> ext \<noteq> 16 then filtered @ [ext] else filtered) [] es = ?f"
    using foldl_snoc_filter [of "\<lambda>e. e \<noteq> 0 \<and> e \<noteq> 16" "[]" es] by simp
  have loop2: "foldl (\<lambda>parts ext. parts @ [Sprintf_04x ext]) [] (sort ?f) = map Sprintf_04x (sort ?f)"
    using foldl_snoc_map [of Sprintf_04x "[]" "sort ?f"] by simp
  have unfolded: "generateExtensionHash H es =
     (if length es = 0 then take 12 (H [])
      else if length (sort ?f) = 0 then take 12 (H [])
           else take 12 (H (Join (map Sprintf_04x (sort ?f)) '','')))"
    unfolding generateExtensionHash_def Let_def loop1 loop2 ..
  show ?thesis
  proof (cases "sort ?f = []")
    case True
    then show ?thesis unfolding unfolded by simp
  next
    case False
    then have "es \<noteq> []" by auto
    with False show ?thesis unfolding unfolded by simp
  qed
qed

lemma GenerateJA4_Some:
  "GenerateJA4 H (Some d) = Inr
     \<lparr> ja4_Protocol = (if j4d_IsQUIC d then ''q'' else ''t''),
       ja4_TLSVersion = formatTLSVersion (j4d_TLSVersion d),
       ja4_SNI = determineSNIType (j4d_ServerName d),
       ja4_CipherCount = Sprintf_02x (min (length (j4d_CipherSuites d)) 255),
       ja4_ExtensionCount = Sprintf_02x (min (length (j4d_Extensions d)) 255),
       ja4_CipherHash = generateCipherHash H (j4d_CipherSuites d),
       ja4_ExtensionHash = generateExtensionHash H (j4d_Extensions d),
       ja4_RawCipherSuites = j4d_CipherSuites d,
       ja4_RawExtensions = j4d_Extensions d,
       ja4_HasSNI = (j4d_ServerName d \<noteq> []),
       ja4_ALPNProtocols = j4d_ALPNProtocols d \<rparr>"
proof -
  have clamp: "(if 255 < n then 255 else n) = min n 255" for n :: nat
    by (simp add: min_def)
  show ?thesis
    unfolding GenerateJA4_def Let_def clamp by simp
qed

text \<open>
  C1 (as the code has it).  For every summary, \<open>GenerateJA4\<close> succeeds and part a of
  the fingerprint is exactly 8 characters: the protocol character, the two-character
  TLS-version tag, the SNI character, the cipher count and the extension count, each
  clamped to 255 and written as two lowercase hex digits (that read back as the clamped
  count).  No ALPN tag follows: \<open>String\<close> puts the underscore and the cipher hash right
  after the extension count.
\<close>

theorem GenerateJA4_part_a:
  "\<exists>fp. GenerateJA4 H (Some d) = Inr fp
     \<and> JA4_partA fp =
         (if j4d_IsQUIC d then ''q'' else ''t'')
         @ formatTLSVersion (j4d_TLSVersion d)
         @ determineSNIType (j4d_ServerName d)
         @ Sprintf_02x (min (length (j4d_CipherSuites d)) 255)
         @ Sprintf_02x (min (length (j4d_Extensions d)) 255)
     \<and> length (formatTLSVersion (j4d_TLSVersion d)) = 2
     \<and> length (determineSNIType (j4d_ServerName d)) = 1
     \<and> length (Sprintf_02x (min (length (j4d_CipherSuites d)) 255)) = 2
     \<and> set (Sprintf_02x (min (length (j4d_CipherSuites d)) 255)) \<subseteq> set hex_alphabet
     \<and> ParseUint (Sprintf_02x (min (length (j4d_CipherSuites d)) 255)) 16 8
           = Some (min (length (j4d_CipherSuites d)) 255)
     \<and> length (Sprintf_02x (min (length (j4d_Extensions d)) 255)) = 2
     \<and> set (Sprintf_02x (min (length (j4d_Extensions d)) 255)) \<subseteq> set hex_alphabet
     \<and> ParseUint (Sprintf_02x (min (length (j4d_Extensions d)) 255)) 16 8
           = Some (min (length (j4d_Extensions d)) 255)
     \<and> length (JA4_partA fp) = 8
     \<and> JA4_String fp = JA4_partA fp @ ''_'' @ generateCipherHash H (j4d_CipherSuites d)
                          @ ''_'' @ generateExtensionHash H (j4d_Extensions d)"
proof -
  let ?cc = "min (length (j4d_CipherSuites d)) 255"
  let ?ec = "min (length (j4d_Extensions d)) 255"
  have cc: "?cc \<le> 255" and ec: "?ec \<le> 255" by simp_all
  have lens: "length (Sprintf_02x ?cc) = 2" "length (Sprintf_02x ?ec) = 2"
    using cc ec by (simp_all add: Sprintf_02x_length)
  have readback: "ParseUint (Sprintf_02x ?cc) 16 8 = Some ?cc" "ParseUint (Sprintf_02x ?ec) 16 8 = Some ?ec"
    using cc ec by (simp_all add: ParseUint_Sprintf_02x)
  show ?thesis
    unfolding GenerateJA4_Some JA4_partA_def JA4_String_def
    using lens readback Sprintf_02x_lower_hex [of ?cc] Sprintf_02x_lower_hex [of ?ec]
    by (simp add: formatTLSVersion_length determineSNIType_length)
qed

text \<open>
  C1 (as the specification states it) fails: for the summary of scenario S6 (TCP,
  TLS 1.3, SNI example.com, 4 ciphers, 8 extensions, ALPN h2) part a is \<open>t13d0408\<close>,
  8 characters, not \<open>t13d0408h2\<close>.  Part a does not depend on the digest function, so
  any function stands for it here.
\<close>

theorem GenerateJA4_part_a_counterexample:
  "map_sum id JA4_partA (GenerateJA4 (\<lambda>b. []) (Some S6_summary)) = Inr ''t13d0408''
   \<and> map_sum id JA4_partA (GenerateJA4 (\<lambda>b. []) (Some S6_summary)) \<noteq> Inr ''t13d0408h2''
   \<and> map_sum id (length \<circ> JA4_partA) (GenerateJA4 (\<lambda>b. []) (Some S6_summary)) \<noteq> Inr 10"
proof -
  have c: "min (length (j4d_CipherSuites S6_summary)) 255 = 4"
    by (simp add: S6_summary_def)
  have e: "min (length (j4d_Extensions S6_summary)) 255 = 8"
    by (simp add: S6_summary_def)
  have x4: "Sprintf_02x 4 = ''04''"
    by (simp add: Sprintf_02x_def pad0_def digits.simps digit_char_def hex_alphabet_def)
  have x8: "Sprintf_02x 8 = ''08''"
    by (simp add: Sprintf_02x_def pad0_def digits.simps digit_char_def hex_alphabet_def)
  have sni: "determineSNIType ''example.com'' = ''d''"
    by (simp add: determineSNIType_def is_dec_digit_def is_hex_digit_def)
  have a: "map_sum id JA4_partA (GenerateJA4 (\<lambda>b. []) (Some S6_summary)) = Inr ''t13d0408''"
    unfolding GenerateJA4_Some c e x4 x8
    by (simp add: S6_summary_def JA4_partA_def formatTLSVersion_def sni)
  have b: "map_sum id (length \<circ> JA4_partA) (GenerateJA4 (\<lambda>b. []) (Some S6_summary)) = Inr 8"
    using a by (cases "GenerateJA4 (\<lambda>b. []) (Some S6_summary)") auto
  show ?thesis unfolding a b by simp
qed

lemma ParseJA4String_Panic_iff:
  "ParseJA4String s = Panic \<longleftrightarrow>
     length (Split s (CHR ''_'')) = 3 \<and> length (Split s (CHR ''_'') ! 0) = 7"
  unfolding ParseJA4String_def Let_def go_index_def go_slice_def
  by (auto split: if_splits)

text \<open>
  C2.  The guard of \<open>ParseJA4String\<close> lets a part a of 7 bytes through and the struct
  literal then takes \<open>partA[6:8]\<close>: the call panics instead of returning a fingerprint
  or an error.
\<close>

theorem ParseJA4String_part_a_of_length_7_panics:
  "ParseJA4String ''t13d040_aaaaaaaaaaaa_bbbbbbbbbbbb'' = Panic"
  by (simp add: ParseJA4String_def go_index_def go_slice_def)

text \<open>
  C8.  For every cipher-id list and extension-id list, part b is the first 12
  characters of the digest of the cipher ids in their original order, each written
  as four lowercase hex digits, joined by commas; part c is the same over the
  extension ids without 0 and 16, sorted ascending; the empty cipher list, and any
  extension list that holds nothing but the ids 0 and 16, hash the empty byte string.
\<close>

theorem JA4_hashes:
  "generateCipherHash H cs = take 12 (H (Join (map Sprintf_04x cs) '',''))
   \<and> generateExtensionHash H es =
       take 12 (H (Join (map Sprintf_04x (sort (filter (\<lambda>e. e \<noteq> 0 \<and> e \<noteq> 16) es))) '',''))
   \<and> sorted (sort (filter (\<lambda>e. e \<noteq> 0 \<and> e \<noteq> 16) es))
   \<and> mset (sort (filter (\<lambda>e. e \<noteq> 0 \<and> e \<noteq> 16) es)) = mset (filter (\<lambda>e. e \<noteq> 0 \<and> e \<noteq> 16) es)
   \<and> length (Sprintf_04x c) = 4
   \<and> set (Sprintf_04x c) \<subseteq> set hex_alphabet
   \<and> ParseUint (Sprintf_04x c) 16 16 = Some (unat c)
   \<and> generateCipherHash H [] = take 12 (H [])
   \<and> generateExtensionHash H (filter (\<lambda>e. e = 0 \<or> e = 16) es) = take 12 (H [])"
proof -
  have none: "filter (\<lambda>e. e \<noteq> 0 \<and> e \<noteq> 16) (filter (\<lambda>e. e = 0 \<or> e = 16) es) = []"
    by (induction es) auto
  have empty_ext: "generateExtensionHash H (filter (\<lambda>e. e = 0 \<or> e = 16) es) = take 12 (H [])"
    unfolding generateExtensionHash_eq none by simp
  have readback: "ParseUint (Sprintf_04x c) 16 16 = Some (unat c)"
    using unsigned_less [of c, where 'a=nat]
    unfolding ParseUint_def Sprintf_04x_def pad0_def
    by (simp add: ParseUint_loop_zeros ParseUint_loop_digits digits_nonempty)
  show ?thesis
    using generateCipherHash_eq [of H cs] generateExtensionHash_eq [of H es]
      Sprintf_04x_length [of c] Sprintf_04x_lower_hex [of c] empty_ext readback
      generateCipherHash_eq [of H "[]"]
    by simp
qed

section \<open>The builder from a JA3\<close>

lemma go_copy_make: "go_copy (go_make (length xs)) xs = xs"
  by (simp add: go_copy_def go_make_def)

lemma buildExtension_Some: "\<exists>ext. buildExtension extID data serverName = Some ext"
  by (simp add: buildExtension_def)

lemma buildExtension_id:
  "buildExtension extID data serverName = Some ext \<Longrightarrow> extension_id ext = extID"
  by (auto simp: buildExtension_def split: if_splits)

lemma buildExtension_unrecognized:
  "extID \<notin> set recognized_ids \<Longrightarrow> buildExtension extID data serverName = Some (GenericExtension extID [])"
  by (simp add: buildExtension_def recognized_ids_def)

lemma build_loop:
  "map Some (foldl (\<lambda>exts extID. case buildExtension extID d sn of
                                     Some ext \<Rightarrow> exts @ [ext]
                                   | None \<Rightarrow> exts) acc ids)
   = map Some acc @ map (\<lambda>extID. buildExtension extID d sn) ids"
proof (induction ids arbitrary: acc)
  case Nil
  then show ?case by simp
next
  case (Cons extID ids)
  obtain ext where ext: "buildExtension extID d sn = Some ext"
    using buildExtension_Some by blast
  show ?case by (simp add: ext Cons.IH)
qed

lemma BuildClientHelloSpecFromJA3_extensions:
  "\<exists>spec. BuildClientHelloSpecFromJA3 (Some d) sn = Inr spec
      \<and> chs_CipherSuites spec = ja3_CipherSuites d
      \<and> chs_TLSVersMin spec = ja3_Version d \<and> chs_TLSVersMax spec = ja3_Version d
      \<and> map Some (chs_Extensions spec) = map (\<lambda>extID. buildExtension extID d sn) (ja3_Extensions d)"
  using build_loop [of d sn "[]" "ja3_Extensions d"]
  by (simp add: BuildClientHelloSpecFromJA3_def go_copy_make)

lemma map_Some_nth:
  assumes "map Some xs = map f ys" and "i < length ys"
  shows "length xs = length ys" and "f (ys ! i) = Some (xs ! i)"
proof -
  show len: "length xs = length ys"
    using assms(1) by (metis length_map)
  have "map Some xs ! i = map f ys ! i" using assms(1) by simp
  then show "f (ys ! i) = Some (xs ! i)" using assms(2) len by simp
qed

lemma map_extension_id:
  assumes "map Some xs = map (\<lambda>extID. buildExtension extID d sn) ids"
  shows "map extension_id xs = ids"
  using assms
proof (induction ids arbitrary: xs)
  case Nil
  then show ?case by simp
next
  case (Cons extID ids)
  then obtain x xs' where xs: "xs = x # xs'" by (cases xs) auto
  with Cons.prems have hd: "buildExtension extID d sn = Some x"
    and tl: "map Some xs' = map (\<lambda>extID. buildExtension extID d sn) ids" by auto
  show ?case using buildExtension_id [OF hd] Cons.IH [OF tl] xs by simp
qed

text \<open>
  C10.  For every JA3 value and server name the builder succeeds; the cipher sequence
  of the spec is the cipher field of the JA3; every extension id of the JA3 yields
  exactly one extension, at its own position (so the counts are equal), an id that
  is no case label of the switch yields \<open>Generic(id)\<close>; and both version bounds are
  the version field.
\<close>

theorem BuildClientHelloSpecFromJA3_total:
  "\<exists>spec. BuildClientHelloSpecFromJA3 (Some d) serverName = Inr spec
      \<and> chs_CipherSuites spec = ja3_CipherSuites d
      \<and> length (chs_Extensions spec) = length (ja3_Extensions d)
      \<and> map Some (chs_Extensions spec) = map (\<lambda>extID. buildExtension extID d serverName) (ja3_Extensions d)
      \<and> (\<forall>i < length (ja3_Extensions d).
            ja3_Extensions d ! i \<notin> set recognized_ids \<longrightarrow>
            chs_Extensions spec ! i = GenericExtension (ja3_Extensions d ! i) [])
      \<and> chs_TLSVersMin spec = ja3_Version d
      \<and> chs_TLSVersMax spec = ja3_Version d"
proof -
  obtain spec where spec: "BuildClientHelloSpecFromJA3 (Some d) serverName = Inr spec"
    and cs: "chs_CipherSuites spec = ja3_CipherSuites d"
    and v: "chs_TLSVersMin spec = ja3_Version d" "chs_TLSVersMax spec = ja3_Version d"
    and exts: "map Some (chs_Extensions spec) = map (\<lambda>extID. buildExtension extID d serverName) (ja3_Extensions d)"
    using BuildClientHelloSpecFromJA3_extensions by blast
  have len: "length (chs_Extensions spec) = length (ja3_Extensions d)"
    using exts by (metis length_map)
  have gen: "chs_Extensions spec ! i = GenericExtension (ja3_Extensions d ! i) []"
    if "i < length (ja3_Extensions d)" "ja3_Extensions d ! i \<notin> set recognized_ids" for i
    using map_Some_nth(2) [OF exts that(1)] buildExtension_unrecognized [OF that(2), of d serverName]
    by simp
  show ?thesis using spec cs v exts len gen by blast
qed

theorem BuildClientHelloSpecFromJA3_total_witness:
  "\<exists>spec. BuildClientHelloSpecFromJA3 (Some example_JA3) ''example.com'' = Inr spec
      \<and> chs_CipherSuites spec = [4865, 4866]
      \<and> length (chs_Extensions spec) = 3
      \<and> chs_Extensions spec ! 1 = GenericExtension 0x0a0a []
      \<and> chs_TLSVersMin spec = 771 \<and> chs_TLSVersMax spec = 771"
proof -
  have i: "(1::nat) < length (ja3_Extensions example_JA3)"
    by (simp add: example_JA3_def)
  have u: "ja3_Extensions example_JA3 ! 1 \<notin> set recognized_ids"
    by (simp add: example_JA3_def recognized_ids_def)
  from BuildClientHelloSpecFromJA3_total [of example_JA3 "''example.com''"]
  obtain spec where spec: "BuildClientHelloSpecFromJA3 (Some example_JA3) ''example.com'' = Inr spec"
    and cs: "chs_CipherSuites spec = ja3_CipherSuites example_JA3"
    and len: "length (chs_Extensions spec) = length (ja3_Extensions example_JA3)"
    and gen: "\<forall>i < length (ja3_Extensions example_JA3).
            ja3_Extensions example_JA3 ! i \<notin> set recognized_ids \<longrightarrow>
            chs_Extensions spec ! i = GenericExtension (ja3_Extensions example_JA3 ! i) []"
    and v: "chs_TLSVersMin spec = ja3_Version example_JA3" "chs_TLSVersMax spec = ja3_Version example_JA3"
    by blast
  from gen i u have "chs_Extensions spec ! 1 = GenericExtension (ja3_Extensions example_JA3 ! 1) []"
    by blast
  then show ?thesis using spec cs len v by (simp add: example_JA3_def)
qed

text \<open>
  C6.  When the extension field of a JA3 holds a GREASE value at index \<open>i\<close> (the claim
  names \<open>0x0a0a\<close>), the built spec holds \<open>Generic\<close> of that value at index \<open>i\<close>.  The
  builder neither sorts nor reorders: the cipher sequence is the JA3's, and the
  extension types of the built sequence are, position by position, the extension
  field of the JA3.
\<close>

theorem GREASE_preserved:
  assumes "i < length (ja3_Extensions d)"
    and "ja3_Extensions d ! i = g"
    and "g \<in> set GREASEValues"
  shows "\<exists>spec. BuildClientHelloSpecFromJA3 (Some d) serverName = Inr spec
      \<and> i < length (chs_Extensions spec)
      \<and> chs_Extensions spec ! i = GenericExtension g []
      \<and> chs_CipherSuites spec = ja3_CipherSuites d
      \<and> map extension_id (chs_Extensions spec) = ja3_Extensions d"
proof -
  obtain spec where spec: "BuildClientHelloSpecFromJA3 (Some d) serverName = Inr spec"
    and cs: "chs_CipherSuites spec = ja3_CipherSuites d"
    and exts: "map Some (chs_Extensions spec) = map (\<lambda>extID. buildExtension extID d serverName) (ja3_Extensions d)"
    using BuildClientHelloSpecFromJA3_extensions by blast
  have "g \<notin> set recognized_ids"
    using assms(3) by (auto simp: GREASEValues_def recognized_ids_def)
  then have "buildExtension g d serverName = Some (GenericExtension g [])"
    by (rule buildExtension_unrecognized)
  with map_Some_nth [OF exts assms(1)] assms(2)
  have "length (chs_Extensions spec) = length (ja3_Extensions d)"
    and "chs_Extensions spec ! i = GenericExtension g []" by simp_all
  with spec cs map_extension_id [OF exts] assms(1) show ?thesis by simp
qed

theorem GREASE_preserved_witness:
  "\<exists>spec. BuildClientHelloSpecFromJA3 (Some example_JA3) ''example.com'' = Inr spec
      \<and> 1 < length (chs_Extensions spec)
      \<and> chs_Extensions spec ! 1 = GenericExtension 0x0a0a []
      \<and> chs_CipherSuites spec = [4865, 4866]
      \<and> map extension_id (chs_Extensions spec) = [0, 0x0a0a, 23]"
proof -
  have i: "(1::nat) < length (ja3_Extensions example_JA3)"
    by (simp add: example_JA3_def)
  have g: "ja3_Extensions example_JA3 ! 1 = 0x0a0a"
    by (simp add: example_JA3_def)
  have m: "(0x0a0a :: uint16) \<in> set GREASEValues"
    by (simp add: GREASEValues_def)
  show ?thesis
    using GREASE_preserved [OF i g m, of "''example.com''"] by (simp add: example_JA3_def)
qed

text \<open>
  C5.  With an empty server name, id 0 of the JA3 is not left out: the case of the
  switch falls to the final \<open>return\<close> and the spec carries \<open>Generic(0)\<close>.
\<close>

theorem SNI_with_empty_server_name:
  "BuildClientHelloSpecFromJA3
     (Some \<lparr> ja3_Version = 771, ja3_CipherSuites = [4865], ja3_Extensions = [0, 23],
             ja3_SupportedGroups = [29], ja3_EllipticCurvePoint = [0] \<rparr>) ''''
   = Inr \<lparr> chs_CipherSuites = [4865], chs_CompressionMethods = [],
           chs_Extensions = [GenericExtension 0 [], ExtendedMasterSecretExtension],
           chs_TLSVersMin = 771, chs_TLSVersMax = 771 \<rparr>"
  by (simp add: BuildClientHelloSpecFromJA3_def buildExtension_def go_copy_def go_make_def)

lemma buildExtension_SNI:
  "buildExtension 0 d serverName =
     Some (if serverName \<noteq> [] then SNIExtension serverName else GenericExtension 0 [])"
  by (simp add: buildExtension_def)

section \<open>Parsing and writing JA3 strings\<close>

lemma Split_nonempty: "Split s c \<noteq> []"
  by (induction s) (auto split: list.splits)

lemma Join_Split: "Join (Split s c) [c] = s"
proof (induction s)
  case Nil
  then show ?case by simp
next
  case (Cons a s)
  obtain p ps where sp: "Split s c = p # ps"
    using Split_nonempty [of s c] by (cases "Split s c") auto
  show ?case
  proof (cases "a = c")
    case True
    with Cons sp show ?thesis by simp
  next
    case False
    with Cons sp show ?thesis by (cases ps) auto
  qed
qed

lemma ParseUint_loop_mono: "ParseUint_loop b s acc = Some m \<Longrightarrow> acc \<le> m"
proof (induction s arbitrary: acc)
  case Nil
  then show ?case by simp
next
  case (Cons c s)
  then obtain d where d: "digit_val c = Some d" "\<not> b \<le> d" "ParseUint_loop b s (acc * b + d) = Some m"
    by (auto split: option.splits if_splits)
  have "1 \<le> b" using d(2) by simp
  then have "acc * 1 \<le> acc * b" by (rule mult_le_mono2)
  then have "acc \<le> acc * b" by (simp only: mult_1_right)
  also have "\<dots> \<le> acc * b + d" by (rule le_add1)
  also have "\<dots> \<le> m" by (rule Cons.IH [OF d(3)])
  finally show ?case .
qed

lemma digit_char_decimal_all: "\<forall>d\<in>set [0..<10]. digit_char d = char_of (48 + d)"
  by code_simp

lemma digit_char_digit_val:
  assumes "is_dec_digit c"
  shows "\<exists>d < 10. digit_val c = Some d \<and> digit_char d = c"
proof -
  let ?n = "of_char c :: nat"
  from assms have r: "48 \<le> ?n" "?n \<le> 57" by (simp_all add: is_dec_digit_def)
  then have v: "digit_val c = Some (?n - 48)" by (simp add: digit_val_def Let_def)
  have lt: "?n - 48 < 10" using r by simp
  then have "digit_char (?n - 48) = char_of (48 + (?n - 48))"
    using digit_char_decimal_all by simp
  also have "48 + (?n - 48) = ?n" using r by simp
  finally have "digit_char (?n - 48) = c" by simp
  with v lt show ?thesis by blast
qed

lemma digits_ParseUint_loop:
  assumes "s \<noteq> []" and "list_all is_dec_digit s" and "s = ''0'' \<or> hd s \<noteq> CHR ''0''"
    and "ParseUint_loop 10 s 0 = Some n"
  shows "digits 10 n = s"
  using assms
proof (induction s arbitrary: n rule: rev_induct)
  case Nil
  then show ?case by simp
next
  case (snoc c t)
  from snoc.prems(2) have c: "is_dec_digit c" and t: "list_all is_dec_digit t" by simp_all
  from digit_char_digit_val [OF c] obtain d where d: "d < 10" "digit_val c = Some d" "digit_char d = c"
    by blast
  show ?case
  proof (cases "t = []")
    case True
    with snoc.prems(4) d have "n = d" by simp
    with d True show ?thesis by (subst digits.simps) simp
  next
    case False
    from snoc.prems(4) obtain m where m: "ParseUint_loop 10 t 0 = Some m" and n: "n = m * 10 + d"
      using d by (auto simp: ParseUint_loop_append split: option.splits)
    from False snoc.prems(3) have hd: "hd t \<noteq> CHR ''0''"
      by (cases t) auto
    then have canon: "t = ''0'' \<or> hd t \<noteq> CHR ''0''" by simp
    from snoc.IH [OF False t canon m] have ih: "digits 10 m = t" .
    obtain a t' where at: "t = a # t'" using False by (cases t) auto
    from t at have "is_dec_digit a" by simp
    from digit_char_digit_val [OF this] obtain e where e: "e < 10" "digit_val a = Some e" "digit_char e = a"
      by blast
    have "e \<noteq> 0"
    proof
      assume "e = 0"
      with e(3) have "a = CHR ''0''" by (simp add: digit_char_def hex_alphabet_def)
      with hd at show False by simp
    qed
    from m at e have "ParseUint_loop 10 t' e = Some m" by simp
    from ParseUint_loop_mono [OF this] \<open>e \<noteq> 0\<close> have "1 \<le> m" by simp
    with n have big: "\<not> n < 10" by simp
    have dv: "n div 10 = m" and md: "n mod 10 = d" using n d(1) by simp_all
    show ?thesis
      by (subst digits.simps) (simp add: big dv md ih d(3))
  qed
qed

lemma decimal_roundtrip:
  assumes "decimal bitSize t"
  shows "\<exists>v. ParseUint t 10 bitSize = Some v \<and> v < 2 ^ bitSize \<and> Sprintf_d v = t"
proof -
  from assms have ne: "t \<noteq> []" and dg: "list_all is_dec_digit t"
    and canon: "t = ''0'' \<or> hd t \<noteq> CHR ''0''"
    and ok: "ParseUint t 10 bitSize \<noteq> None"
    by (auto simp: decimal_def split: option.splits)
  from ok ne obtain v where v: "ParseUint_loop 10 t 0 = Some v" "v < 2 ^ bitSize"
    "ParseUint t 10 bitSize = Some v"
    by (auto simp: ParseUint_def split: option.splits if_splits)
  from digits_ParseUint_loop [OF ne dg canon v(1)] have "Sprintf_d v = t"
    by (simp add: Sprintf_d_def)
  with v show ?thesis by blast
qed

lemma unat_word_of_nat_16: "v < 2 ^ 16 \<Longrightarrow> unat (word_of_nat v :: uint16) = v"
  by (simp add: unat_of_nat)

lemma unat_word_of_nat_8: "v < 2 ^ 8 \<Longrightarrow> unat (word_of_nat v :: uint8) = v"
  by (simp add: unat_of_nat)

lemma map_Sprintf_d_16:
  "list_all (\<lambda>v. v < 2 ^ 16) vs \<Longrightarrow>
     map (\<lambda>c. Sprintf_d (unat c)) (map word_of_nat vs :: uint16 list) = map Sprintf_d vs"
  by (induction vs) (simp_all add: unat_of_nat)

lemma map_Sprintf_d_8:
  "list_all (\<lambda>v. v < 2 ^ 8) vs \<Longrightarrow>
     map (\<lambda>c. Sprintf_d (unat c)) (map word_of_nat vs :: uint8 list) = map Sprintf_d vs"
  by (induction vs) (simp_all add: unat_of_nat)

lemma list5:
  assumes "length xs = 5"
  shows "xs = [xs ! 0, xs ! 1, xs ! 2, xs ! 3, xs ! 4]"
proof -
  from assms obtain a b c d e where "xs = [a, b, c, d, e]"
    by (auto simp: length_Suc_conv eval_nat_numeral)
  then show ?thesis by simp
qed
lemma parse_tokens_decimal:
  assumes "list_all (decimal bitSize) ts"
  shows "\<exists>vs. parse_tokens bitSize mk ts acc = Inr (acc @ vs)
            \<and> map Sprintf_d vs = ts \<and> list_all (\<lambda>v. v < 2 ^ bitSize) vs"
  using assms
proof (induction ts arbitrary: acc)
  case Nil
  show ?case by (rule exI [of _ "[]"]) simp
next
  case (Cons t ts)
  from Cons.prems have t: "decimal bitSize t" and ts: "list_all (decimal bitSize) ts" by simp_all
  from decimal_roundtrip [OF t] obtain v where v: "ParseUint t 10 bitSize = Some v"
    "v < 2 ^ bitSize" "Sprintf_d v = t" by (elim exE conjE)
  from Cons.IH [OF ts, of "acc @ [v]"] obtain vs where
    vs: "parse_tokens bitSize mk ts (acc @ [v]) = Inr ((acc @ [v]) @ vs)"
    "map Sprintf_d vs = ts" "list_all (\<lambda>v. v < 2 ^ bitSize) vs" by (elim exE conjE)
  have a: "parse_tokens bitSize mk (t # ts) acc = Inr (acc @ (v # vs))"
    using v(1) vs(1) by simp
  have b: "map Sprintf_d (v # vs) = t # ts" using v(3) vs(2) by simp
  have c: "list_all (\<lambda>v. v < 2 ^ bitSize) (v # vs)" using v(2) vs(3) by simp
  show ?case by (rule exI [of _ "v # vs"]) (intro conjI a b c)
qed

lemma parse_field_decimal:
  assumes "decimal_field bitSize part"
  shows "\<exists>vs. parse_field bitSize mk part = Inr vs
            \<and> Join (map Sprintf_d vs) ''-'' = part \<and> list_all (\<lambda>v. v < 2 ^ bitSize) vs"
proof (cases "part = []")
  case True
  show ?thesis by (rule exI [of _ "[]"]) (simp add: parse_field_def True)
next
  case False
  with assms have "list_all (decimal bitSize) (Split part (CHR ''-''))"
    by (simp add: decimal_field_def)
  from parse_tokens_decimal [OF this, of mk "[]"] obtain vs where
    vs: "parse_tokens bitSize mk (Split part (CHR ''-'')) [] = Inr ([] @ vs)"
    "map Sprintf_d vs = Split part (CHR ''-'')" "list_all (\<lambda>v. v < 2 ^ bitSize) vs"
    by (elim exE conjE)
  have j: "Join (map Sprintf_d vs) ''-'' = part"
    unfolding vs(2) by (rule Join_Split)
  have p: "parse_field bitSize mk part = Inr vs"
    using vs(1) False by (simp add: parse_field_def)
  show ?thesis by (rule exI [of _ vs]) (intro conjI p j vs(3))
qed

lemma JA3_round_trip_wf:
  assumes "well_formed_JA3 x"
  shows "\<exists>d. ParseJA3 x = Inr d \<and> SerializeJA3 d = x"
proof -
  define parts where "parts = Split x (CHR '','')"
  from assms have len: "length parts = 5" and f0: "decimal 16 (parts ! 0)"
    and f1: "decimal_field 16 (parts ! 1)" and f2: "decimal_field 16 (parts ! 2)"
    and f3: "decimal_field 16 (parts ! 3)" and f4: "decimal_field 8 (parts ! 4)"
    by (simp_all add: well_formed_JA3_def Let_def parts_def)
  from decimal_roundtrip [OF f0] obtain v where v: "ParseUint (parts ! 0) 10 16 = Some v"
    "v < 2 ^ 16" "Sprintf_d v = parts ! 0" by (elim exE conjE)
  have ne0: "parts ! 0 \<noteq> []" using f0 by (simp add: decimal_def)
  from parse_field_decimal [OF f1, of JA3BadCipher] obtain cs where
    cs: "parse_field 16 JA3BadCipher (parts ! 1) = Inr cs"
    "Join (map Sprintf_d cs) ''-'' = parts ! 1" "list_all (\<lambda>v. v < 2 ^ 16) cs"
    by (elim exE conjE)
  from parse_field_decimal [OF f2, of JA3BadExtension] obtain es where
    es: "parse_field 16 JA3BadExtension (parts ! 2) = Inr es"
    "Join (map Sprintf_d es) ''-'' = parts ! 2" "list_all (\<lambda>v. v < 2 ^ 16) es"
    by (elim exE conjE)
  from parse_field_decimal [OF f3, of JA3BadCurve] obtain gs where
    gs: "parse_field 16 JA3BadCurve (parts ! 3) = Inr gs"
    "Join (map Sprintf_d gs) ''-'' = parts ! 3" "list_all (\<lambda>v. v < 2 ^ 16) gs"
    by (elim exE conjE)
  from parse_field_decimal [OF f4, of JA3BadPointFormat] obtain ps where
    ps: "parse_field 8 JA3BadPointFormat (parts ! 4) = Inr ps"
    "Join (map Sprintf_d ps) ''-'' = parts ! 4" "list_all (\<lambda>v. v < 2 ^ 8) ps"
    by (elim exE conjE)
  define d where "d = \<lparr> ja3_Version = word_of_nat v,
              ja3_CipherSuites = map word_of_nat cs,
              ja3_Extensions = map word_of_nat es,
              ja3_SupportedGroups = map word_of_nat gs,
              ja3_EllipticCurvePoint = map word_of_nat ps \<rparr>"
  have parse: "ParseJA3 x = Inr d"
    unfolding ParseJA3_def Let_def parts_def [symmetric] d_def
    by (simp only: len ne0 v(1) cs(1) es(1) gs(1) ps(1) not_True_eq_False not_False_eq_True
        simp_thms if_True if_False option.case sum.case)
  have w: "Sprintf_d (unat (ja3_Version d)) = parts ! 0"
    unfolding d_def using v(2,3) by (simp add: unat_of_nat)
  have c: "Join (map (\<lambda>c. Sprintf_d (unat c)) (ja3_CipherSuites d)) ''-'' = parts ! 1"
    unfolding d_def using map_Sprintf_d_16 [OF cs(3)] cs(2) by (simp del: map_map)
  have e: "Join (map (\<lambda>c. Sprintf_d (unat c)) (ja3_Extensions d)) ''-'' = parts ! 2"
    unfolding d_def using map_Sprintf_d_16 [OF es(3)] es(2) by (simp del: map_map)
  have g: "Join (map (\<lambda>c. Sprintf_d (unat c)) (ja3_SupportedGroups d)) ''-'' = parts ! 3"
    unfolding d_def using map_Sprintf_d_16 [OF gs(3)] gs(2) by (simp del: map_map)
  have p: "Join (map (\<lambda>c. Sprintf_d (unat c)) (ja3_EllipticCurvePoint d)) ''-'' = parts ! 4"
    unfolding d_def using map_Sprintf_d_8 [OF ps(3)] ps(2) by (simp del: map_map)
  have "SerializeJA3 d = Join [parts ! 0, parts ! 1, parts ! 2, parts ! 3, parts ! 4] '',''"
    unfolding SerializeJA3_def w c e g p ..
  also have "\<dots> = Join parts '',''" using list5 [OF len] by simp
  also have "\<dots> = x" unfolding parts_def by (rule Join_Split)
  finally have ser: "SerializeJA3 d = x" .
  show ?thesis by (rule exI [of _ d]) (intro conjI parse ser)
qed

text \<open>The distinct JA3 strings of the catalog are well-formed.\<close>

lemma catalog_JA3_1:
  "well_formed_JA3 ''771,4865-4866-4867-49195-49199-49196-49200-52393-52392-49171-49172-156-157-47-53,0-23-65281-10-11-35-16-5-13-18-51-45-43-27-21,29-23-24,0''"
  by (simp add: well_formed_JA3_def decimal_field_def decimal_def ParseUint_def is_dec_digit_def
      digit_val_def Let_def)

lemma catalog_JA3_2:
  "well_formed_JA3 ''771,4865-4866-4867-49195-49199-49196-49200-52393-52392-49171-49172-156-157-47-53,0-23-65281-10-11-35-16-5-13-18-51-45-43-27-17513-21,29-23-24,0''"
  by (simp add: well_formed_JA3_def decimal_field_def decimal_def ParseUint_def is_dec_digit_def
      digit_val_def Let_def)

lemma catalog_JA3_3:
  "well_formed_JA3 ''771,4865-4867-4866-49195-49199-52393-52392-49196-49200-49162-49161-49171-49172-156-157-47-53,0-23-65281-10-11-35-16-5-51-43-13-45-28-21,29-23-24-25-256-257,0''"
  by (simp add: well_formed_JA3_def decimal_field_def decimal_def ParseUint_def is_dec_digit_def
      digit_val_def Let_def)

lemma catalog_JA3_4:
  "well_formed_JA3 ''771,4865-4867-4866-49195-49199-52393-52392-49196-49200-49162-49161-49171-49172-156-157-47-53,0-23-65281-10-11-35-16-5-51-43-13-45-28-21,29-23-24-25,0''"
  by (simp add: well_formed_JA3_def decimal_field_def decimal_def ParseUint_def is_dec_digit_def
      digit_val_def Let_def)

lemma catalog_JA3_5:
  "well_formed_JA3 ''771,4865-4866-4867-49196-49195-52393-49200-49199-52392-49162-49161-49172-49171-157-156-53-47-49160-49170-10,0-23-65281-10-11-16-5-13-18-51-45-43-27-21,29-23-24-25,0''"
  by (simp add: well_formed_JA3_def decimal_field_def decimal_def ParseUint_def is_dec_digit_def
      digit_val_def Let_def)

lemma catalog_JA3_6:
  "well_formed_JA3 ''771,4865-4866-4867-49196-49195-52393-49200-49199-52392-49162-49161-49172-49171-157-156-53-47,0-23-65281-10-11-16-5-13,29-23-24-25,0''"
  by (simp add: well_formed_JA3_def decimal_field_def decimal_def ParseUint_def is_dec_digit_def
      digit_val_def Let_def)

lemma catalog_JA3_7:
  "well_formed_JA3 ''771,4865-4866-4867-49195-49199-49196-49200-52393-52392-49171-49172-156-157-47-53,0-23-65281-10-11-35-16-5-13-51-45-43-27-21,29-23-24,0''"
  by (simp add: well_formed_JA3_def decimal_field_def decimal_def ParseUint_def is_dec_digit_def
      digit_val_def Let_def)

lemma catalog_JA3_8:
  "well_formed_JA3 ''771,4865-4866-4867-49195-49199-49196-49200-52393-52392-49171-49172-156-157-47-53,0-23-65281-10-11-35-16-5-13,29-23-24,0''"
  by (simp add: well_formed_JA3_def decimal_field_def decimal_def ParseUint_def is_dec_digit_def
      digit_val_def Let_def)

lemma catalog_JA3_9:
  "well_formed_JA3 ''771,4865-4866-4867-49195-49199-49196-49200-52393-52392-49171-49172-156-157-47-53,0-23-65281-10-11-35-16-5-13-18-51-45-43-27,29-23-24,0''"
  by (simp add: well_formed_JA3_def decimal_field_def decimal_def ParseUint_def is_dec_digit_def
      digit_val_def Let_def)

lemma catalog_JA3_10:
  "well_formed_JA3 ''771,4865-4867-4866-49195-49199-52393-52392-49196-49200-49162-49161-49171-49172-156-157-47-53,0-23-65281-10-11-35-16-5-51-43-13-45-28,29-23-24-25,0''"
  by (simp add: well_formed_JA3_def decimal_field_def decimal_def ParseUint_def is_dec_digit_def
      digit_val_def Let_def)

lemma catalog_JA3_11:
  "well_formed_JA3 ''771,4866-4867-4865-49200-49196-49192-49188-49172-49162-159-107-57-52393-52392-52394-65413-196-136-129-157-61-53-132-49199-49195-49191-49187-49171-49161-158-103-51-190-69-156-60-47-186-65-49169-49159-5-4-49170-49160-22-10-255,11-10-35-22-23-13-43-45-51,29-23-30-25-24,0-1-2''"
  by (simp add: well_formed_JA3_def decimal_field_def decimal_def ParseUint_def is_dec_digit_def
      digit_val_def Let_def)

lemma catalog_well_formed:
  "list_all (\<lambda>(name, profile). well_formed_JA3 (bp_JA3 profile)) BrowserProfiles"
  unfolding BrowserProfiles_def
  by (simp add: catalog_JA3_1 catalog_JA3_2 catalog_JA3_3 catalog_JA3_4 catalog_JA3_5 catalog_JA3_6 catalog_JA3_7 catalog_JA3_8 catalog_JA3_9 catalog_JA3_10 catalog_JA3_11)
text \<open>
  C7.  For every well-formed JA3 string \<open>x\<close>, parsing succeeds and writing the parsed
  value back gives \<open>x\<close>, byte for byte; and for every profile of the browser catalog
  the JA3 string of the profile parses and is written back byte for byte.
\<close>

theorem JA3_round_trip:
  assumes "well_formed_JA3 x"
  shows "(\<exists>d. ParseJA3 x = Inr d \<and> SerializeJA3 d = x)
       \<and> list_all (\<lambda>(name, profile).
             \<exists>d. ParseJA3 (bp_JA3 profile) = Inr d \<and> SerializeJA3 d = bp_JA3 profile)
           BrowserProfiles"
proof
  show "\<exists>d. ParseJA3 x = Inr d \<and> SerializeJA3 d = x"
    using assms by (rule JA3_round_trip_wf)
next
  show "list_all (\<lambda>(name, profile).
             \<exists>d. ParseJA3 (bp_JA3 profile) = Inr d \<and> SerializeJA3 d = bp_JA3 profile)
           BrowserProfiles"
  proof (rule list.pred_mono_strong [OF catalog_well_formed])
    fix z :: "string \<times> BrowserProfile"
    assume "case z of (name, profile) \<Rightarrow> well_formed_JA3 (bp_JA3 profile)"
    then have "well_formed_JA3 (bp_JA3 (snd z))" by (cases z) simp
    from JA3_round_trip_wf [OF this]
    show "case z of (name, profile) \<Rightarrow>
            \<exists>d. ParseJA3 (bp_JA3 profile) = Inr d \<and> SerializeJA3 d = bp_JA3 profile"
      by (cases z) simp
  qed
qed

theorem JA3_round_trip_witness:
  "\<exists>d. ParseJA3 ''771,4865-4866-4867,0-23-65281,29-23,0'' = Inr d
      \<and> SerializeJA3 d = ''771,4865-4866-4867,0-23-65281,29-23,0''"
proof -
  have wf: "well_formed_JA3 ''771,4865-4866-4867,0-23-65281,29-23,0''"
    by (simp add: well_formed_JA3_def decimal_field_def decimal_def ParseUint_def is_dec_digit_def
        digit_val_def Let_def)
  from JA3_round_trip [OF wf] show ?thesis by (rule conjunct1)
qed

text \<open>
  The parser also accepts strings that are not in the canonical form, and those do
  not come back byte for byte: a leading zero, or an empty version field.
\<close>

lemma ParseJA3_leading_zero:
  "map_sum id SerializeJA3 (ParseJA3 ''0771,,,,'') = Inr ''771,,,,''"
  by (simp add: ParseJA3_def parse_field_def ParseUint_def digit_val_def Let_def SerializeJA3_def
      Sprintf_d_def digits.simps digit_char_def hex_alphabet_def)

lemma ParseJA3_empty_version:
  "map_sum id SerializeJA3 (ParseJA3 '',,,,'') = Inr ''0,,,,''"
  by (simp add: ParseJA3_def parse_field_def Let_def SerializeJA3_def
      Sprintf_d_def digits.simps digit_char_def hex_alphabet_def)

section \<open>HTTP/2: the warnings of the validator\<close>

lemma GetHTTP2Profile_chrome_120:
  "GetHTTP2Profile ''chrome_120'' = Some
     \<lparr> h2_Name = ''Chrome 120'',
       h2_Fingerprint = ''1:65536;2:0;3:100;4:6291456;6:262144|15663105|0|m,a,s,p'',
       h2_Settings = map_of [(1, 65536), (2, 0), (3, 100), (4, 6291456), (6, 262144)],
       h2_WindowUpdate = 15663105,
       h2_Priority = Some \<lparr> pr_StreamDependency = 0, pr_Weight = 255, pr_Exclusive = True \<rparr>,
       h2_HeaderTableSize = 65536,
       h2_PseudoHeaderOrder = ''m,a,s,p'' \<rparr>"
  by (simp add: GetHTTP2Profile_def HTTP2ProfilesDB_def)

lemma Sprintf_d_15663105: "Sprintf_d 15663105 = ''15663105''"
  by (simp add: Sprintf_d_def digits.simps digit_char_def hex_alphabet_def)

lemma ValidateHTTP2Config_chrome_120_warnings:
  "ValidateHTTP2Config ''chrome_120'' = Inr
     [''SETTINGS_HEADER_TABLE_SIZE cannot be configured (http2 library limitation)'',
      ''SETTINGS_INITIAL_WINDOW_SIZE cannot be configured directly'',
      ''Initial WINDOW_UPDATE (15663105) cannot be configured'',
      ''PRIORITY frames are not sent by Go HTTP/2 client'']"
  unfolding ValidateHTTP2Config_def GetHTTP2Profile_chrome_120
  by (simp add: Let_def SettingsHeaderTableSize_def SettingsEnablePush_def
      SettingsInitialWindowSize_def SettingsMaxFrameSize_def Sprintf_d_15663105)

lemma ValidateHTTP2Config_error:
  "ValidateHTTP2Config name = Inl e \<longleftrightarrow> GetHTTP2Profile name = None \<and> e = HTTP2ProfileNotFound name"
  by (cases "GetHTTP2Profile name") (auto simp: ValidateHTTP2Config_def Let_def)

lemma ConfigureHTTP2Transport_error:
  "fst (ConfigureHTTP2Transport t name) = None \<longleftrightarrow> GetHTTP2Profile name \<noteq> None"
  by (cases "GetHTTP2Profile name") (auto simp: ConfigureHTTP2Transport_def Let_def)

text \<open>
  C9 (as the code has it).  For \<open>chrome_120\<close> the validator returns exactly four
  warnings, one for each of HEADER_TABLE_SIZE, INITIAL_WINDOW_SIZE, the initial
  WINDOW_UPDATE and the PRIORITY frame.  Warnings never abort: the validator returns
  an error only for a profile name that is not in the catalog, and the configurator
  succeeds for every name that is.
\<close>

theorem ValidateHTTP2Config_chrome_120:
  "ValidateHTTP2Config ''chrome_120'' = Inr
     [''SETTINGS_HEADER_TABLE_SIZE cannot be configured (http2 library limitation)'',
      ''SETTINGS_INITIAL_WINDOW_SIZE cannot be configured directly'',
      ''Initial WINDOW_UPDATE (15663105) cannot be configured'',
      ''PRIORITY frames are not sent by Go HTTP/2 client'']
   \<and> (ValidateHTTP2Config name = Inl e \<longleftrightarrow>
        GetHTTP2Profile name = None \<and> e = HTTP2ProfileNotFound name)
   \<and> (fst (ConfigureHTTP2Transport t name) = None \<longleftrightarrow> GetHTTP2Profile name \<noteq> None)"
  using ValidateHTTP2Config_chrome_120_warnings ValidateHTTP2Config_error [of name e]
    ConfigureHTTP2Transport_error [of t name]
  by (intro conjI)

text \<open>
  C9 (as the specification states it) fails: the \<open>chrome_120\<close> profile has no setting
  5, so no warning names MAX_FRAME_SIZE; the fourth warning is the one about PRIORITY.
\<close>

theorem ValidateHTTP2Config_chrome_120_counterexample:
  "map_sum id (\<lambda>ws. length (filter (\<lambda>w. Contains w ''MAX_FRAME_SIZE'') ws))
      (ValidateHTTP2Config ''chrome_120'') = Inr 0
   \<and> map_sum id (\<lambda>ws. length (filter (\<lambda>w. Contains w ''PRIORITY'') ws))
      (ValidateHTTP2Config ''chrome_120'') = Inr 1
   \<and> map_sum id length (ValidateHTTP2Config ''chrome_120'') = Inr 4"
  unfolding ValidateHTTP2Config_chrome_120_warnings
  by simp

section \<open>The builders from a JSON descriptor: the order of the extensions\<close>

lemma JSON_step_appends:
  "\<exists>new. fst (JSON_step st e) = fst st @ new
      \<and> (new = [] \<or> (\<exists>x. new = [x] \<and> case_of x = JSON_case (ej_Name e)))"
  unfolding JSON_step_def JSON_case_def Let_def
  by (simp split: if_splits)

lemma subseq_snoc_skip: "subseq xs ys \<Longrightarrow> subseq xs (ys @ [y])"
  by (metis append_Nil2 list_emb_append_mono subseq_Cons' subseq_order.order_refl list_emb_Nil)

lemma subseq_snoc_both: "subseq xs ys \<Longrightarrow> subseq (xs @ [y]) (ys @ [y])"
  by (simp add: list_emb_append_mono)

lemma JSON_loop_order:
  "\<exists>new. fst (foldl JSON_step st es) = fst st @ new
      \<and> subseq (map case_of new) (map (\<lambda>e. JSON_case (ej_Name e)) es)"
proof (induction es rule: rev_induct)
  case Nil
  show ?case by (rule exI [of _ "[]"]) simp
next
  case (snoc e es)
  then obtain new where new: "fst (foldl JSON_step st es) = fst st @ new"
    "subseq (map case_of new) (map (\<lambda>e. JSON_case (ej_Name e)) es)" by (elim exE conjE)
  from JSON_step_appends [of "foldl JSON_step st es" e] obtain n where
    n: "fst (JSON_step (foldl JSON_step st es) e) = fst (foldl JSON_step st es) @ n"
    "n = [] \<or> (\<exists>x. n = [x] \<and> case_of x = JSON_case (ej_Name e))" by (elim exE conjE)
  have app: "fst (foldl JSON_step st (es @ [e])) = fst st @ (new @ n)"
    using new(1) n(1) by simp
  have sub: "subseq (map case_of (new @ n)) (map (\<lambda>e. JSON_case (ej_Name e)) (es @ [e]))"
  proof (cases "n = []")
    case True
    then show ?thesis using subseq_snoc_skip [OF new(2)] by simp
  next
    case False
    with n(2) obtain x where x: "n = [x]" "case_of x = JSON_case (ej_Name e)" by auto
    then show ?thesis using subseq_snoc_both [OF new(2), of "JSON_case (ej_Name e)"] by simp
  qed
  show ?case by (rule exI [of _ "new @ n"]) (intro conjI app sub)
qed

lemma BuildClientHelloSpecFromJSON_order:
  "\<exists>spec. BuildClientHelloSpecFromJSON j = Inr spec
       \<and> subseq (map case_of (chs_Extensions spec)) (map (\<lambda>e. JSON_case (ej_Name e)) (cj_Extensions j))"
  using JSON_loop_order [of "([], [])" "cj_Extensions j"]
  by (auto simp: BuildClientHelloSpecFromJSON_def)

lemma File_step_appends:
  "\<exists>new. fl_extensions (File_step scan sn st e) = fl_extensions st @ new
      \<and> (new = [] \<or> (\<exists>x. new = [x] \<and> case_of x = File_case (ef_Name e)
            \<and> case_of x \<in> set [server_name, padding, session_ticket, extended_master_secret, status_request,
            psk_key_exchange_modes, signed_certificate_timestamp, renegotiation_info]))"
  unfolding File_step_def File_case_def Let_def
  by (simp split: if_splits)

lemma File_loop_order_gen:
  "\<exists>new. fl_extensions (foldl (File_step scan sn) st es) = fl_extensions st @ new
      \<and> subseq (map case_of new) (map (\<lambda>e. File_case (ef_Name e)) es)
      \<and> set (map case_of new) \<subseteq> set [server_name, padding, session_ticket, extended_master_secret, status_request,
            psk_key_exchange_modes, signed_certificate_timestamp, renegotiation_info]"
proof (induction es rule: rev_induct)
  case Nil
  show ?case by (rule exI [of _ "[]"]) simp
next
  case (snoc e es)
  let ?s = "foldl (File_step scan sn) st es"
  let ?K = "set [server_name, padding, session_ticket, extended_master_secret, status_request,
            psk_key_exchange_modes, signed_certificate_timestamp, renegotiation_info]"
  from snoc obtain new where new: "fl_extensions ?s = fl_extensions st @ new"
    "subseq (map case_of new) (map (\<lambda>e. File_case (ef_Name e)) es)"
    "set (map case_of new) \<subseteq> ?K" by (elim exE conjE)
  from File_step_appends [of scan sn ?s e] obtain n where
    n: "fl_extensions (File_step scan sn ?s e) = fl_extensions ?s @ n"
    "n = [] \<or> (\<exists>x. n = [x] \<and> case_of x = File_case (ef_Name e) \<and> case_of x \<in> ?K)"
    by (elim exE conjE)
  have app: "fl_extensions (foldl (File_step scan sn) st (es @ [e])) = fl_extensions st @ (new @ n)"
    using new(1) n(1) by simp
  have sub: "subseq (map case_of (new @ n)) (map (\<lambda>e. File_case (ef_Name e)) (es @ [e]))"
  proof (cases "n = []")
    case True
    then show ?thesis using subseq_snoc_skip [OF new(2)] by simp
  next
    case False
    with n(2) obtain x where x: "n = [x]" "case_of x = File_case (ef_Name e)" by auto
    then show ?thesis using subseq_snoc_both [OF new(2), of "File_case (ef_Name e)"] by simp
  qed
  have kinds: "set (map case_of (new @ n)) \<subseteq> ?K"
  proof (cases "n = []")
    case True
    then show ?thesis using new(3) by simp
  next
    case False
    with n(2) obtain x where x: "n = [x]" "case_of x \<in> ?K" by auto
    have "set (map case_of (new @ n)) = set (map case_of new) \<union> {case_of x}"
      by (simp add: x(1))
    then show ?thesis using new(3) x(2) by blast
  qed
  show ?case by (rule exI [of _ "new @ n"]) (intro conjI app sub kinds)
qed

lemma File_loop_order:
  "subseq (map case_of (fl_extensions (File_loop scan sn es))) (map (\<lambda>e. File_case (ef_Name e)) es)"
  using File_loop_order_gen [of scan sn
      "\<lparr> fl_extensions = [], fl_supportedGroups = [], fl_supportedPoints = [],
         fl_signatureAlgorithms = [], fl_supportedVersions = [], fl_alpnProtocols = [] \<rparr>" es]
  by (auto simp: File_loop_def)

lemma File_loop_direct_kinds:
  "set (map case_of (fl_extensions (File_loop scan sn es))) \<subseteq> set [server_name, padding, session_ticket, extended_master_secret, status_request,
            psk_key_exchange_modes, signed_certificate_timestamp, renegotiation_info]"
  using File_loop_order_gen [of scan sn
      "\<lparr> fl_extensions = [], fl_supportedGroups = [], fl_supportedPoints = [],
         fl_signatureAlgorithms = [], fl_supportedVersions = [], fl_alpnProtocols = [] \<rparr>" es]
  by (auto simp: File_loop_def)

lemma add_collected_eq:
  "add_collected st = fl_extensions st
     @ (if fl_supportedGroups st \<noteq> [] then [SupportedCurvesExtension (fl_supportedGroups st)] else [])
     @ (if fl_supportedPoints st \<noteq> [] then [SupportedPointsExtension (fl_supportedPoints st)] else [])
     @ (if fl_signatureAlgorithms st \<noteq> [] then [SignatureAlgorithmsExtension (fl_signatureAlgorithms st)] else [])
     @ (if fl_supportedVersions st \<noteq> [] then [SupportedVersionsExtension (fl_supportedVersions st)] else [])
     @ (if fl_alpnProtocols st \<noteq> [] then [ALPNExtension (fl_alpnProtocols st)] else [])"
  unfolding add_collected_def Let_def by simp

text \<open>
  What the builder for the older format does with the order, for every descriptor:
  the extensions that the loop appends itself are of the eight kinds server name,
  padding, session ticket, extended master secret, status request, PSK modes, SCT and
  renegotiation info, and they stand in the order of their objects; after all of them
  come the five collections that are not empty, in the fixed order supported groups,
  point formats, signature algorithms, supported versions, ALPN, wherever their
  objects stood in the array.
\<close>

lemma BuildClientHelloSpecFromFile_order:
  "\<exists>spec. BuildClientHelloSpecFromFile Sscanf_02x (Some f) serverName = Inr spec
      \<and> chs_Extensions spec =
          fl_extensions (File_loop Sscanf_02x serverName (cf_Extensions f))
          @ (if fl_supportedGroups (File_loop Sscanf_02x serverName (cf_Extensions f)) \<noteq> []
             then [SupportedCurvesExtension (fl_supportedGroups (File_loop Sscanf_02x serverName (cf_Extensions f)))]
             else [])
          @ (if fl_supportedPoints (File_loop Sscanf_02x serverName (cf_Extensions f)) \<noteq> []
             then [SupportedPointsExtension (fl_supportedPoints (File_loop Sscanf_02x serverName (cf_Extensions f)))]
             else [])
          @ (if fl_signatureAlgorithms (File_loop Sscanf_02x serverName (cf_Extensions f)) \<noteq> []
             then [SignatureAlgorithmsExtension (fl_signatureAlgorithms (File_loop Sscanf_02x serverName (cf_Extensions f)))]
             else [])
          @ (if fl_supportedVersions (File_loop Sscanf_02x serverName (cf_Extensions f)) \<noteq> []
             then [SupportedVersionsExtension (fl_supportedVersions (File_loop Sscanf_02x serverName (cf_Extensions f)))]
             else [])
          @ (if fl_alpnProtocols (File_loop Sscanf_02x serverName (cf_Extensions f)) \<noteq> []
             then [ALPNExtension (fl_alpnProtocols (File_loop Sscanf_02x serverName (cf_Extensions f)))]
             else [])
      \<and> subseq (map case_of (fl_extensions (File_loop Sscanf_02x serverName (cf_Extensions f))))
           (map (\<lambda>e. File_case (ef_Name e)) (cf_Extensions f))
      \<and> set (map case_of (fl_extensions (File_loop Sscanf_02x serverName (cf_Extensions f))))
           \<subseteq> set [server_name, padding, session_ticket, extended_master_secret, status_request,
            psk_key_exchange_modes, signed_certificate_timestamp, renegotiation_info]"
proof -
  let ?L = "File_loop Sscanf_02x serverName (cf_Extensions f)"
  obtain spec where spec: "BuildClientHelloSpecFromFile Sscanf_02x (Some f) serverName = Inr spec"
    "chs_Extensions spec = add_collected ?L"
    by (simp add: BuildClientHelloSpecFromFile_def Let_def)
  show ?thesis
    using spec add_collected_eq [of ?L] File_loop_order [of Sscanf_02x serverName "cf_Extensions f"]
      File_loop_direct_kinds [of Sscanf_02x serverName "cf_Extensions f"]
    by (intro exI [of _ spec]) simp
qed

lemma TrimSpace_29: "TrimSpace ''29'' = ''29''"
  by code_simp

lemma ParseSupportedGroup_X25519: "ParseSupportedGroup ''X25519 (29)'' = Inr 29"
  by (simp add: ParseSupportedGroup_def TrimSpace_29 ParseUint_def digit_val_def Let_def)

lemma parseSupportedGroup_X25519: "parseSupportedGroup ''X25519 (29)'' = 29"
  by (simp add: parseSupportedGroup_def parseSupportedGroup_groupMap_def X25519_def)

text \<open>
  C3.  The builder for the older format does not keep the order of the array.  On a
  descriptor whose array holds a \<open>supported_groups\<close> object and then a
  \<open>session_ticket\<close> object, it builds the session ticket first and the supported groups
  after it, for every server name and every behaviour of the scanner.  The builder for
  the tls.peet.ws format builds the same two objects in the order of the array.
\<close>

theorem BuildClientHelloSpecFromFile_breaks_array_order:
  "map_sum id chs_Extensions (BuildClientHelloSpecFromFile Sscanf_02x (Some groups_then_ticket) serverName)
     = Inr [SessionTicketExtension, SupportedCurvesExtension [29]]
   \<and> map (\<lambda>e. File_case (ef_Name e)) (cf_Extensions groups_then_ticket) = [supported_groups, session_ticket]
   \<and> map_sum id chs_Extensions (BuildClientHelloSpecFromJSON groups_then_ticket_JSON)
     = Inr [SupportedCurvesExtension [29], SessionTicketExtension]
   \<and> map (\<lambda>e. JSON_case (ej_Name e)) (cj_Extensions groups_then_ticket_JSON) = [supported_groups, session_ticket]"
proof -
  have a: "map_sum id chs_Extensions (BuildClientHelloSpecFromFile Sscanf_02x (Some groups_then_ticket) serverName)
     = Inr [SessionTicketExtension, SupportedCurvesExtension [29]]"
    by (simp add: BuildClientHelloSpecFromFile_def groups_then_ticket_def empty_ExtensionFile_def
        File_loop_def File_step_def add_collected_def collect_ok_def ParseSupportedGroup_X25519 Let_def)
  have b: "map (\<lambda>e. File_case (ef_Name e)) (cf_Extensions groups_then_ticket) = [supported_groups, session_ticket]"
    by (simp add: groups_then_ticket_def empty_ExtensionFile_def File_case_def)
  have c: "map_sum id chs_Extensions (BuildClientHelloSpecFromJSON groups_then_ticket_JSON)
     = Inr [SupportedCurvesExtension [29], SessionTicketExtension]"
    by (simp add: BuildClientHelloSpecFromJSON_def groups_then_ticket_JSON_def empty_ExtensionJSON_def
        JSON_step_def collect_def parseSupportedGroup_X25519 Let_def)
  have d: "map (\<lambda>e. JSON_case (ej_Name e)) (cj_Extensions groups_then_ticket_JSON) = [supported_groups, session_ticket]"
    by (simp add: groups_then_ticket_JSON_def empty_ExtensionJSON_def JSON_case_def)
  show ?thesis using a b c d by (intro conjI)
qed

section \<open>The dialers and a deadline that is already past\<close>

lemma fingerprint_Upgrade_expired:
  assumes "ctx_Deadline ctx = Some deadline" and "deadline \<le> w_now W"
  shows "fingerprint_UpgradeConnWithFingerprint W MapToLower ctx rawConn (Some config)
           = (Inl DeadlineExceeded, [])"
  using assms by (simp add: fingerprint_UpgradeConnWithFingerprint_def)

lemma fingerprint_Dial_expired:
  assumes "ctx_Deadline ctx = Some deadline" and "deadline \<le> w_now W"
  shows "fingerprint_DialTLSWithFingerprint W MapToLower ctx network addr (Some config)
           = (Inl DeadlineExceeded, [])"
  using assms by (simp add: fingerprint_DialTLSWithFingerprint_def)

lemma fingerprint_nil_config:
  "fingerprint_UpgradeConnWithFingerprint W MapToLower ctx rawConn None = (Inl ConfigNil, [])"
  "fingerprint_DialTLSWithFingerprint W MapToLower ctx network addr None = (Inl ConfigNil, [])"
  by (simp_all add: fingerprint_UpgradeConnWithFingerprint_def fingerprint_DialTLSWithFingerprint_def)

lemma example_select:
  "select_hello W MapToLower parseJSON browserJA3 example_config =
     (Inr (HelloCustom,
           Some \<lparr> chs_CipherSuites = [4865], chs_CompressionMethods = [],
                  chs_Extensions = [SNIExtension ''example.com'', ExtendedMasterSecretExtension],
                  chs_TLSVersMin = 771, chs_TLSVersMax = 771 \<rparr>), [])"
proof -
  have p: "ParseJA3 ''771,4865,0-23,29,0'' =
      Inr \<lparr> ja3_Version = 771, ja3_CipherSuites = [4865], ja3_Extensions = [0, 23],
            ja3_SupportedGroups = [29], ja3_EllipticCurvePoint = [0] \<rparr>"
    by (simp add: ParseJA3_def parse_field_def ParseUint_def digit_val_def Let_def)
  show ?thesis
    unfolding select_hello_def
    by (simp add: example_config_def p BuildClientHelloSpecFromJA3_def buildExtension_def
        go_copy_def go_make_def)
qed

text \<open>
  \<open>dial\<close> of package ja3 leaves the deadline to \<open>DialContext\<close> of the library: when
  that call refuses the context, no connection exists and nothing else is called.
\<close>

lemma ja3_Dial_refused:
  assumes "w_DialContext W ctx network addr = Inl e"
  shows "ja3_DialTLSWithFingerprint W MapToLower parseJSON browserJA3 ctx network addr (Some config)
           = (Inl (DialFailed e), [EvDial network addr])"
  using assms by (simp add: ja3_DialTLSWithFingerprint_def)

lemma ja3_Dial_expired_example:
  "ja3_DialTLSWithFingerprint example_world MapToLower parseJSON browserJA3 expired_context
       ''tcp'' ''example.com:443'' (Some example_config)
     = (Inl (DialFailed ''i/o timeout''), [EvDial ''tcp'' ''example.com:443''])"
  by (rule ja3_Dial_refused) (simp add: example_world_def expired_context_def)

text \<open>
  C4, for \<open>upgrade\<close> of package ja3.  The function does not look at the deadline.
  With a context whose deadline is past and a configuration that carries a JA3 string
  it builds the spec and goes on to the engine, in every world: what it returns is
  what applying the preset and the handshake return, and whenever the engine accepts
  the preset the raw stream is handed to the handshake of the engine, which is where
  the engine reads from and writes to the stream.  In the example world, where the
  library refuses an expired context, the call returns the error of the handshake
  after the handshake was run on stream 3.  On the same input \<open>upgrade\<close> of package
  fingerprint returns \<open>DeadlineExceeded\<close> with an empty trace.
\<close>

theorem ja3_upgrade_expired_deadline:
  "ja3_UpgradeConnWithFingerprint W MapToLower parseJSON browserJA3 expired_context rawConn
       (Some example_config)
     = handshake_steps W expired_context rawConn (build_utls_config example_config)
         (HelloCustom,
          Some \<lparr> chs_CipherSuites = [4865], chs_CompressionMethods = [],
                 chs_Extensions = [SNIExtension ''example.com'', ExtendedMasterSecretExtension],
                 chs_TLSVersMin = 771, chs_TLSVersMax = 771 \<rparr>)
   \<and> snd (ja3_UpgradeConnWithFingerprint W MapToLower parseJSON browserJA3 expired_context rawConn
            (Some example_config))
     = (case w_ApplyPreset W
               \<lparr> u_conn = rawConn, u_config = build_utls_config example_config,
                  u_helloID = HelloCustom, u_spec = None \<rparr>
               \<lparr> chs_CipherSuites = [4865], chs_CompressionMethods = [],
                  chs_Extensions = [SNIExtension ''example.com'', ExtendedMasterSecretExtension],
                  chs_TLSVersMin = 771, chs_TLSVersMax = 771 \<rparr> of
          None \<Rightarrow> [EvHandshake rawConn]
        | Some e \<Rightarrow> [])
   \<and> ctx_Deadline expired_context = Some 999 \<and> w_now example_world = 1000
   \<and> ja3_UpgradeConnWithFingerprint example_world MapToLower parseJSON browserJA3 expired_context 3
        (Some example_config)
     = (Inl (HandshakeFailed ''context deadline exceeded''), [EvHandshake 3])
   \<and> fingerprint_UpgradeConnWithFingerprint example_world MapToLower expired_context 3
        (Some example_config)
     = (Inl DeadlineExceeded, [])"
proof -
  let ?spec = "\<lparr> chs_CipherSuites = [4865], chs_CompressionMethods = [],
                 chs_Extensions = [SNIExtension ''example.com'', ExtendedMasterSecretExtension],
                 chs_TLSVersMin = 771, chs_TLSVersMax = 771 \<rparr>"
  have d: "ctx_Deadline expired_context = Some 999" by (simp add: expired_context_def)
  have n: "w_now example_world = 1000" by (simp add: example_world_def)
  have le: "(999::int) \<le> w_now example_world" by (simp add: n)
  have u: "ja3_UpgradeConnWithFingerprint W MapToLower parseJSON browserJA3 expired_context rawConn
             (Some example_config)
       = handshake_steps W expired_context rawConn (build_utls_config example_config)
           (HelloCustom, Some ?spec)" for W rawConn
    by (simp add: ja3_UpgradeConnWithFingerprint_def example_select split: prod.splits)
  have t: "snd (handshake_steps W expired_context rawConn (build_utls_config example_config)
                  (HelloCustom, Some ?spec))
       = (case w_ApplyPreset W
               \<lparr> u_conn = rawConn, u_config = build_utls_config example_config,
                  u_helloID = HelloCustom, u_spec = None \<rparr> ?spec of
            None \<Rightarrow> [EvHandshake rawConn]
          | Some e \<Rightarrow> [])"
    by (simp add: handshake_steps_def split: option.splits)
  have h: "handshake_steps example_world expired_context c cfg (hid, Some s)
             = (Inl (HandshakeFailed ''context deadline exceeded''), [EvHandshake c])"
    for c cfg hid s
    by (simp add: handshake_steps_def example_world_def expired_context_def)
  have u1: "ja3_UpgradeConnWithFingerprint example_world MapToLower parseJSON browserJA3 expired_context 3
        (Some example_config)
     = (Inl (HandshakeFailed ''context deadline exceeded''), [EvHandshake 3])"
    unfolding u h by (rule refl)
  have u2: "snd (ja3_UpgradeConnWithFingerprint W MapToLower parseJSON browserJA3 expired_context rawConn
            (Some example_config))
     = (case w_ApplyPreset W
               \<lparr> u_conn = rawConn, u_config = build_utls_config example_config,
                  u_helloID = HelloCustom, u_spec = None \<rparr> ?spec of
          None \<Rightarrow> [EvHandshake rawConn]
        | Some e \<Rightarrow> [])"
    unfolding u by (rule t)
  show ?thesis
    using u u2 d n u1 fingerprint_Upgrade_expired [OF d le]
    by (intro conjI)
qed


end
